theory Spec2Isabelle
  imports Main "HOL-Library.Word"
begin

unbundle bit_operations_syntax

section \<open>Python values, exceptions and results\<close>

text \<open>
  The three scripts (\<^verbatim>\<open>Adzuna.py\<close>, \<^verbatim>\<open>Jooble.py\<close>, \<^verbatim>\<open>RemoteOK.py\<close>) work on values parsed
  from JSON and on pandas cells. A value is \<^verbatim>\<open>None\<close>, the float \<^verbatim>\<open>nan\<close> that pandas
  puts where a record has no such key, an integer, a string, a list or a dict (an
  association list, looked up by \<open>map_of\<close>). Strings are sequences of code points below
  256 (\<open>char\<close>); on that range the regular expression class \<^verbatim>\<open>\d\<close> is exactly
  \<^verbatim>\<open>0\<close>..\<^verbatim>\<open>9\<close>. JSON floats and booleans are not part of the model.
\<close>

datatype pyval =
    PyNone
  | PyNaN
  | PyInt int
  | PyStr string
  | PyList "pyval list"
  | PyDict "(string \<times> pyval) list"

datatype exn =
    RequestException
  | PyodbcError
  | ConfigparserError
  | KeyError
  | TypeError
  | ValueError
  | AttributeError
  | MemoryError

text \<open>
  A computation either returns, raises an exception, or leaves the part of pandas,
  numpy and IEEE arithmetic that the model describes (\<open>Unmodelled\<close>): nothing is
  claimed about the code there.
\<close>

datatype failure = Raise exn | Unmodelled

definition bnd :: "failure + 'a \<Rightarrow> ('a \<Rightarrow> failure + 'b) \<Rightarrow> failure + 'b" where
  "bnd m f = (case m of Inl e \<Rightarrow> Inl e | Inr x \<Rightarrow> f x)"

fun map_res :: "('a \<Rightarrow> failure + 'b) \<Rightarrow> 'a list \<Rightarrow> failure + 'b list" where
  "map_res f [] = Inr []"
| "map_res f (x # xs) =
     (case f x of Inl e \<Rightarrow> Inl e
      | Inr y \<Rightarrow> (case map_res f xs of Inl e \<Rightarrow> Inl e | Inr ys \<Rightarrow> Inr (y # ys)))"

text \<open>\<^verbatim>\<open>str(x)\<close>, as \<^verbatim>\<open>astype(str)\<close> and an f-string apply it to a cell of an object column.
  The text of a number depends on the dtype pandas inferred for the whole column
  (\<^verbatim>\<open>5\<close> or \<^verbatim>\<open>5.0\<close>), and is left out.\<close>

fun py_str :: "pyval \<Rightarrow> string option" where
  "py_str PyNone = Some ''None''"
| "py_str PyNaN = Some ''nan''"
| "py_str (PyStr s) = Some s"
| "py_str _ = None"

section \<open>Jooble: salary text\<close>

definition is_digit :: "char \<Rightarrow> bool" where
  "is_digit c = (c \<in> set ''0123456789'')"

text \<open>The class \<^verbatim>\<open>[\d,.]\<close> of the pattern \<^verbatim>\<open>(\d[\d,.]*)\<close>.\<close>

definition token_char :: "char \<Rightarrow> bool" where
  "token_char c = (is_digit c \<or> c = CHR '','' \<or> c = CHR ''.'')"

text \<open>\<^verbatim>\<open>.str.extract(r'(\d[\d,.]*)')\<close>: the leftmost match, taken greedily; \<open>None\<close> is
  the \<^verbatim>\<open>nan\<close> of a string without a digit.\<close>

definition str_extract :: "string \<Rightarrow> string option" where
  "str_extract s =
     (case dropWhile (\<lambda>c. \<not> is_digit c) s of
        [] \<Rightarrow> None
      | d # rest \<Rightarrow> Some (d # takeWhile token_char rest))"

text \<open>\<^verbatim>\<open>.replace(r'[^\d.]', '', regex=True)\<close> on a matched token.\<close>

definition regex_strip :: "string \<Rightarrow> string" where
  "regex_strip t = filter (\<lambda>c. is_digit c \<or> c = CHR ''.'') t"

definition digit_val :: "char \<Rightarrow> nat" where
  "digit_val c = of_char c - 48"

definition nat_of_digits :: "string \<Rightarrow> nat" where
  "nat_of_digits ds = fold (\<lambda>c n. 10 * n + digit_val c) ds 0"

text \<open>
  \<^verbatim>\<open>astype(float)\<close> turns a token into the nearest double, ties to the even mantissa
  (IEEE 754 binary64, as Python's \<^verbatim>\<open>float\<close> does). For the decimal \<open>n / 10 ^ k\<close> the
  mantissa \<open>m\<close> of 53 bits and the exponent \<open>e\<close> are computed in integers; the double is
  \<open>m * 2 ^ e\<close>, and \<^verbatim>\<open>inf\<close> from \<open>2 ^ 1024 - 2 ^ 970\<close> on. \<open>bits n\<close> is the number of
  binary digits of \<open>n\<close>. Below \<open>2 ^ - 1022\<close> a double has fewer mantissa bits; its
  integer part is 0 with either rounding.
\<close>

fun bits :: "nat \<Rightarrow> nat" where
  "bits n = (if n = 0 then 0 else Suc (bits (n div 2)))"

declare bits.simps [simp del]

datatype double = Double nat int | DoubleInf

definition round_half_even :: "nat \<Rightarrow> nat \<Rightarrow> nat" where
  "round_half_even a b =
     (let q = a div b; r = a mod b
      in if 2 * r < b then q else if b < 2 * r then q + 1 else if even q then q else q + 1)"

text \<open>\<open>2 ^ l \<le> n / d\<close>, for an exponent of either sign.\<close>

definition at_least_pow2 :: "nat \<Rightarrow> nat \<Rightarrow> int \<Rightarrow> bool" where
  "at_least_pow2 n d l = (if 0 \<le> l then d * 2 ^ nat l \<le> n else d \<le> n * 2 ^ nat (- l))"

definition float_of_decimal :: "nat \<Rightarrow> nat \<Rightarrow> double" where
  "float_of_decimal n k =
     (if n = 0 then Double 0 0
      else
        let d = 10 ^ k;
            l = int (bits n) - int (bits d);
            e = (if at_least_pow2 n d l then l else l - 1) - 52;
            m = (if 0 \<le> e then round_half_even n (d * 2 ^ nat e)
                 else round_half_even (n * 2 ^ nat (- e)) d)
        in if 971 < e \<or> (e = 971 \<and> m = 2 ^ 53) then DoubleInf else Double m e)"

text \<open>
  \<^verbatim>\<open>astype(int)\<close> on a double, with \<^verbatim>\<open>int\<close> numpy's 64-bit default: pandas refuses
  \<^verbatim>\<open>inf\<close> with a \<^verbatim>\<open>ValueError\<close>; a finite double loses its fraction, and one from
  \<open>2 ^ 63\<close> on does not fit: the conversion of x86-64 then gives \<open>- 2 ^ 63\<close>.
\<close>

definition astype_int64 :: "double \<Rightarrow> failure + int" where
  "astype_int64 x =
     (case x of
        DoubleInf \<Rightarrow> Inl (Raise ValueError)
      | Double m e \<Rightarrow>
          let v = (if 0 \<le> e then int m * 2 ^ nat e else int (m div 2 ^ nat (- e)))
          in if v < 2 ^ 63 then Inr v else Inr (- (2 ^ 63)))"

text \<open>
  \<^verbatim>\<open>.astype(float).fillna(0).astype(int)\<close> on one cell of the stripped column. The
  token starts with a digit and holds digits and dots only, so \<^verbatim>\<open>float\<close> accepts it
  exactly when it has at most one dot, and raises \<^verbatim>\<open>ValueError\<close> otherwise. With at
  most 15 digits the nearest double truncates to the digits before the dot; a longer
  token is rounded and converted as above, its digits after the dot being the decimal
  places.
\<close>

definition float_int :: "string option \<Rightarrow> failure + int" where
  "float_int cell =
     (case cell of
        None \<Rightarrow> Inr 0
      | Some t \<Rightarrow>
          if length (filter (\<lambda>c. c = CHR ''.'') t) > 1 then Inl (Raise ValueError)
          else if length (filter is_digit t) > 15
          then astype_int64 (float_of_decimal (nat_of_digits (filter is_digit t))
                 (length (filter is_digit (dropWhile is_digit t))))
          else Inr (int (nat_of_digits (takeWhile is_digit t))))"

text \<open>Lines 47-49 (and 50-52) of \<^verbatim>\<open>Jooble.py\<close> on one cell.\<close>

definition jooble_salary :: "pyval \<Rightarrow> failure + int" where
  "jooble_salary v =
     (case py_str v of
        None \<Rightarrow> Inl Unmodelled
      | Some s \<Rightarrow> float_int (map_option regex_strip (str_extract s)))"

section \<open>Data frames\<close>

text \<open>
  A \<^verbatim>\<open>DataFrame\<close> is its columns in order, each with one cell per row;
  \<^verbatim>\<open>pd.DataFrame()\<close> is the frame without columns. \<^verbatim>\<open>pd.DataFrame(jobs)\<close> on a list
  of dicts takes the keys in order of first appearance as columns and puts \<^verbatim>\<open>nan\<close>
  where a record lacks a key; lists holding anything else than dicts are not modelled.
\<close>

type_synonym dataframe = "(string \<times> pyval list) list"

fun un_dict :: "pyval \<Rightarrow> failure + (string \<times> pyval) list" where
  "un_dict (PyDict kvs) = Inr kvs"
| "un_dict _ = Inl Unmodelled"

definition cell_of :: "(string \<times> pyval) list \<Rightarrow> string \<Rightarrow> pyval" where
  "cell_of job c = (case map_of job c of None \<Rightarrow> PyNaN | Some v \<Rightarrow> v)"

definition from_records :: "pyval list \<Rightarrow> failure + dataframe" where
  "from_records jobs =
     bnd (map_res un_dict jobs) (\<lambda>ds.
       Inr (map (\<lambda>c. (c, map (\<lambda>d. cell_of d c) ds))
                (rev (remdups (rev (concat (map (map fst) ds)))))))"

text \<open>\<^verbatim>\<open>df.rename(columns=m)\<close>; two columns of one name afterwards are not modelled.\<close>

definition rename_cols :: "(string \<times> string) list \<Rightarrow> dataframe \<Rightarrow> failure + dataframe" where
  "rename_cols m df =
     (let df' = map (\<lambda>(c, xs). (case map_of m c of None \<Rightarrow> c | Some c' \<Rightarrow> c', xs)) df
      in if distinct (map fst df') then Inr df' else Inl Unmodelled)"

text \<open>\<^verbatim>\<open>df[c]\<close> raises \<^verbatim>\<open>KeyError\<close> when there is no such column.\<close>

definition get_col :: "dataframe \<Rightarrow> string \<Rightarrow> failure + pyval list" where
  "get_col df c = (case map_of df c of None \<Rightarrow> Inl (Raise KeyError) | Some xs \<Rightarrow> Inr xs)"

text \<open>\<^verbatim>\<open>df[c] = xs\<close> replaces the column or appends a new one.\<close>

definition set_col :: "dataframe \<Rightarrow> string \<Rightarrow> pyval list \<Rightarrow> dataframe" where
  "set_col df c xs =
     (if c \<in> set (map fst df) then map (\<lambda>(c', ys). if c' = c then (c, xs) else (c', ys)) df
      else df @ [(c, xs)])"

definition n_rows :: "dataframe \<Rightarrow> nat" where
  "n_rows df = (case df of [] \<Rightarrow> 0 | (c, xs) # _ \<Rightarrow> length xs)"

text \<open>\<^verbatim>\<open>if col not in df.columns: df[col] = None\<close>.\<close>

definition ensure_col :: "string \<Rightarrow> dataframe \<Rightarrow> dataframe" where
  "ensure_col c df =
     (if c \<in> set (map fst df) then df else df @ [(c, replicate (n_rows df) PyNone)])"

text \<open>\<^verbatim>\<open>df[cols]\<close> with a list of names.\<close>

definition select_cols :: "dataframe \<Rightarrow> string list \<Rightarrow> failure + dataframe" where
  "select_cols df cols = map_res (\<lambda>c. bnd (get_col df c) (\<lambda>xs. Inr (c, xs))) cols"

text \<open>\<^verbatim>\<open>df.empty\<close>: no column or no row.\<close>

definition df_empty :: "dataframe \<Rightarrow> bool" where
  "df_empty df = (df = [] \<or> n_rows df = 0)"

text \<open>Python's truth value, as \<^verbatim>\<open>not jobs\<close> and \<^verbatim>\<open>x if x else None\<close> test it.\<close>

fun truthy :: "pyval \<Rightarrow> bool" where
  "truthy PyNone = False"
| "truthy PyNaN = True"
| "truthy (PyInt i) = (i \<noteq> 0)"
| "truthy (PyStr s) = (s \<noteq> [])"
| "truthy (PyList xs) = (xs \<noteq> [])"
| "truthy (PyDict kvs) = (kvs \<noteq> [])"

section \<open>Jooble: normalisation\<close>

definition jooble_names :: "(string \<times> string) list" where
  "jooble_names =
     [(''id'', ''api_id''), (''updated'', ''date_posted''), (''title'', ''position''),
      (''snippet'', ''tags''), (''salary'', ''salary_min''), (''link'', ''url'')]"

definition jooble_required_cols :: "string list" where
  "jooble_required_cols =
     [''api_id'', ''date_posted'', ''company'', ''position'', ''location'', ''tags'',
      ''salary_min'', ''salary_max'', ''url'']"

text \<open>Lines 39-61 of \<^verbatim>\<open>Jooble.py\<close>, from \<^verbatim>\<open>pd.DataFrame(jobs)\<close> to
  \<^verbatim>\<open>df[required_cols]\<close>.\<close>

definition jooble_transform :: "pyval list \<Rightarrow> failure + dataframe" where
  "jooble_transform jobs =
     bnd (from_records jobs) (\<lambda>df0.
     bnd (rename_cols jooble_names df0) (\<lambda>df1.
     bnd (get_col df1 ''salary_min'') (\<lambda>s.
     let df2 = set_col df1 ''salary_max'' s in
     bnd (get_col df2 ''salary_min'') (\<lambda>smin.
     bnd (map_res jooble_salary smin) (\<lambda>a.
     let df3 = set_col df2 ''salary_min'' (map PyInt a) in
     bnd (get_col df3 ''salary_max'') (\<lambda>smax.
     bnd (map_res jooble_salary smax) (\<lambda>b.
     let df4 = set_col df3 ''salary_max'' (map PyInt b) in
     select_cols (fold ensure_col jooble_required_cols df4) jooble_required_cols)))))))"

section \<open>Numeric salaries: Adzuna and RemoteOK\<close>

text \<open>
  \<^verbatim>\<open>pd.to_numeric(col, errors="coerce")\<close> on one cell; \<open>None\<close> is \<^verbatim>\<open>nan\<close>. Integers
  below \<open>2 ^ 53\<close> in size are the same number whether pandas holds the column as
  \<^verbatim>\<open>int64\<close> or, next to a \<^verbatim>\<open>nan\<close>, as \<^verbatim>\<open>float64\<close>; larger ones are not modelled. A
  string can only be read as a number when it has a digit or spells infinity or nan,
  and each such spelling has the letter n: a string with neither is coerced to
  \<^verbatim>\<open>nan\<close>, the others are not modelled.
\<close>

definition numeric_looking :: "string \<Rightarrow> bool" where
  "numeric_looking s = list_ex (\<lambda>c. is_digit c \<or> c = CHR ''n'' \<or> c = CHR ''N'') s"

fun to_numeric :: "pyval \<Rightarrow> failure + int option" where
  "to_numeric PyNone = Inr None"
| "to_numeric PyNaN = Inr None"
| "to_numeric (PyInt i) = (if \<bar>i\<bar> < 2 ^ 53 then Inr (Some i) else Inl Unmodelled)"
| "to_numeric (PyStr s) = (if numeric_looking s then Inl Unmodelled else Inr None)"
| "to_numeric _ = Inl Unmodelled"

definition fillna :: "int \<Rightarrow> int option \<Rightarrow> int" where
  "fillna d x = (case x of None \<Rightarrow> d | Some i \<Rightarrow> i)"

definition clip :: "int \<Rightarrow> int \<Rightarrow> int \<Rightarrow> int" where
  "clip lower upper x = min upper (max lower x)"

text \<open>Lines 81-84 of \<^verbatim>\<open>Adzuna.py\<close> on one cell; \<^verbatim>\<open>round(0).astype("Int64")\<close> leaves
  an integer as it is.\<close>

definition adzuna_salary :: "pyval \<Rightarrow> failure + int" where
  "adzuna_salary v =
     bnd (to_numeric v) (\<lambda>x. Inr (clip 0 9223372036854775807 (fillna 0 x)))"

text \<open>\<^verbatim>\<open>d.get(k)\<close> and \<^verbatim>\<open>d.get(k, default)\<close>.\<close>

definition dict_get_default :: "(string \<times> pyval) list \<Rightarrow> string \<Rightarrow> pyval \<Rightarrow> pyval" where
  "dict_get_default d k dflt = (case map_of d k of None \<Rightarrow> dflt | Some v \<Rightarrow> v)"

definition dict_get :: "(string \<times> pyval) list \<Rightarrow> string \<Rightarrow> pyval" where
  "dict_get d k = dict_get_default d k PyNone"

text \<open>\<^verbatim>\<open>job.get(k) if job.get(k) else None\<close> (lines 38-39 of \<^verbatim>\<open>RemoteOK.py\<close>).\<close>

definition get_if_truthy :: "(string \<times> pyval) list \<Rightarrow> string \<Rightarrow> pyval" where
  "get_if_truthy d k = (if truthy (dict_get d k) then dict_get d k else PyNone)"

text \<open>Lines 53-54 of \<^verbatim>\<open>RemoteOK.py\<close> on one cell:
  \<^verbatim>\<open>pd.to_numeric(..., errors='coerce').fillna(0).astype(int)\<close>, with \<^verbatim>\<open>int\<close> numpy's
  64-bit default.\<close>

definition remoteok_salary :: "pyval \<Rightarrow> failure + int" where
  "remoteok_salary v = bnd (to_numeric v) (\<lambda>x. Inr (fillna 0 x))"

section \<open>Joining and nested fields\<close>

text \<open>
  \<^verbatim>\<open>sep.join(x)\<close>: \<open>x\<close> is iterated, and every item must be a string. A list gives its
  items, a string its characters, a dict its keys; \<^verbatim>\<open>None\<close> and numbers are not
  iterable. Both failures are a \<^verbatim>\<open>TypeError\<close>.
\<close>

fun un_str :: "pyval \<Rightarrow> failure + string" where
  "un_str (PyStr s) = Inr s"
| "un_str _ = Inl (Raise TypeError)"

fun intercalate :: "string \<Rightarrow> string list \<Rightarrow> string" where
  "intercalate sep [] = []"
| "intercalate sep [s] = s"
| "intercalate sep (s # t # ss) = s @ sep @ intercalate sep (t # ss)"

fun join :: "string \<Rightarrow> pyval \<Rightarrow> failure + string" where
  "join sep (PyList xs) = bnd (map_res un_str xs) (\<lambda>ss. Inr (intercalate sep ss))"
| "join sep (PyStr s) = Inr (intercalate sep (map (\<lambda>c. [c]) s))"
| "join sep (PyDict kvs) = Inr (intercalate sep (map fst kvs))"
| "join sep _ = Inl (Raise TypeError)"

section \<open>Adzuna: normalisation\<close>

definition adzuna_names :: "(string \<times> string) list" where
  "adzuna_names =
     [(''id'', ''api_id''), (''created'', ''date_posted''), (''title'', ''position''),
      (''salary_min'', ''salary_min''), (''salary_max'', ''salary_max''),
      (''redirect_url'', ''redirect_url'')]"

definition adzuna_required_cols :: "string list" where
  "adzuna_required_cols =
     [''api_id'', ''date_posted'', ''company'', ''position'', ''location'', ''category'',
      ''salary_min'', ''salary_max'', ''redirect_url'']"

text \<open>The three lambdas of lines 58-66.\<close>

fun company_name :: "pyval \<Rightarrow> pyval" where
  "company_name (PyDict d) = dict_get d ''display_name''"
| "company_name x = x"

fun location_area :: "pyval \<Rightarrow> failure + pyval" where
  "location_area (PyDict d) =
     bnd (join '', '' (dict_get_default d ''area'' (PyList []))) (\<lambda>s. Inr (PyStr s))"
| "location_area x = Inr x"

fun category_label :: "pyval \<Rightarrow> pyval" where
  "category_label (PyDict d) = dict_get d ''label''"
| "category_label x = x"

definition adzuna_clean_salary :: "string \<Rightarrow> dataframe \<Rightarrow> failure + dataframe" where
  "adzuna_clean_salary col df =
     bnd (get_col df col) (\<lambda>xs.
     bnd (map_res adzuna_salary xs) (\<lambda>ys.
     Inr (set_col df col (map PyInt ys))))"

text \<open>Lines 45-84 of \<^verbatim>\<open>Adzuna.py\<close>, from \<^verbatim>\<open>pd.DataFrame(jobs)\<close> to the cleaned frame.
  The nested fields are read (lines 58-66) before the required columns are added
  (lines 73-75).\<close>

definition adzuna_transform :: "pyval list \<Rightarrow> failure + dataframe" where
  "adzuna_transform jobs =
     bnd (from_records jobs) (\<lambda>df0.
     bnd (rename_cols adzuna_names df0) (\<lambda>df1.
     bnd (get_col df1 ''company'') (\<lambda>co.
     let df2 = set_col df1 ''company'' (map company_name co) in
     bnd (get_col df2 ''location'') (\<lambda>lo.
     bnd (map_res location_area lo) (\<lambda>lo'.
     let df3 = set_col df2 ''location'' lo' in
     bnd (get_col df3 ''category'') (\<lambda>ca.
     let df4 = set_col df3 ''category'' (map category_label ca) in
     bnd (select_cols (fold ensure_col adzuna_required_cols df4) adzuna_required_cols) (\<lambda>df5.
     bnd (adzuna_clean_salary ''salary_min'' df5) (\<lambda>df6.
     adzuna_clean_salary ''salary_max'' df6))))))))"

section \<open>RemoteOK: normalisation\<close>

text \<open>Lines 31-41: one \<^verbatim>\<open>job_info\<close> per listing. \<^verbatim>\<open>job.get\<close> on anything but a dict
  is an \<^verbatim>\<open>AttributeError\<close>.\<close>

fun remoteok_job_info :: "pyval \<Rightarrow> failure + pyval" where
  "remoteok_job_info (PyDict job) =
     bnd (join '', '' (dict_get_default job ''tags'' (PyList []))) (\<lambda>tags.
     Inr (PyDict
       [(''id'', dict_get job ''id''),
        (''date_posted'', dict_get job ''date''),
        (''company'', dict_get job ''company''),
        (''position'', dict_get job ''position''),
        (''location'', dict_get job ''location''),
        (''tags'', PyStr tags),
        (''salary_min'', get_if_truthy job ''salary_min''),
        (''salary_max'', get_if_truthy job ''salary_max''),
        (''url'', dict_get job ''url'')]))"
| "remoteok_job_info _ = Inl (Raise AttributeError)"

text \<open>The keys of \<^verbatim>\<open>job_info\<close>, in order: the columns of the frame and of the table.\<close>

definition remoteok_cols :: "string list" where
  "remoteok_cols =
     [''id'', ''date_posted'', ''company'', ''position'', ''location'', ''tags'',
      ''salary_min'', ''salary_max'', ''url'']"

text \<open>\<^verbatim>\<open>astype(str)\<close> on a cell of the \<^verbatim>\<open>id\<close> column.\<close>

definition astype_str :: "pyval \<Rightarrow> failure + pyval" where
  "astype_str v = (case py_str v of None \<Rightarrow> Inl Unmodelled | Some s \<Rightarrow> Inr (PyStr s))"

definition map_col :: "string \<Rightarrow> (pyval \<Rightarrow> failure + pyval) \<Rightarrow> dataframe \<Rightarrow> failure + dataframe" where
  "map_col col f df =
     bnd (get_col df col) (\<lambda>xs.
     bnd (map_res f xs) (\<lambda>ys.
     Inr (set_col df col ys)))"

text \<open>\<^verbatim>\<open>df.where(pd.notnull(df), None)\<close>.\<close>

fun nan_to_none :: "pyval \<Rightarrow> pyval" where
  "nan_to_none PyNaN = PyNone"
| "nan_to_none v = v"

definition where_notnull :: "dataframe \<Rightarrow> dataframe" where
  "where_notnull df = map (\<lambda>(c, xs). (c, map nan_to_none xs)) df"

text \<open>Lines 29-56 of \<^verbatim>\<open>RemoteOK.py\<close>. The timestamps of lines 47-50 are not parsed
  here: the \<^verbatim>\<open>date_posted\<close> cells keep the provider's value.\<close>

definition remoteok_transform :: "pyval list \<Rightarrow> failure + dataframe" where
  "remoteok_transform job_listings =
     bnd (map_res remoteok_job_info job_listings) (\<lambda>jobs_data.
     bnd (from_records jobs_data) (\<lambda>df0.
     bnd (map_col ''id'' astype_str df0) (\<lambda>df1.
     bnd (map_col ''salary_min'' (\<lambda>v. bnd (remoteok_salary v) (\<lambda>i. Inr (PyInt i))) df1) (\<lambda>df2.
     bnd (map_col ''salary_max'' (\<lambda>v. bnd (remoteok_salary v) (\<lambda>i. Inr (PyInt i))) df2) (\<lambda>df3.
     Inr (where_notnull df3))))))"

section \<open>Reading results\<close>

text \<open>The frame has column \<open>c\<close>, and each of its cells is an integer that satisfies \<open>P\<close>.\<close>

definition int_column :: "(int \<Rightarrow> bool) \<Rightarrow> dataframe \<Rightarrow> string \<Rightarrow> bool" where
  "int_column P df c =
     (case map_of df c of
        None \<Rightarrow> False
      | Some xs \<Rightarrow> list_all (\<lambda>x. case x of PyInt n \<Rightarrow> P n | _ \<Rightarrow> False) xs)"






section \<open>The surrogate key: SHA-256 of the joined text\<close>

text \<open>
  \<^verbatim>\<open>hashlib.sha256(s.encode()).hexdigest()\<close>, written out after FIPS 180-4: the message
  is padded with \<^verbatim>\<open>0x80\<close>, zeros and its length in bits as 64 bits big-endian, cut into
  blocks of 64 bytes, and each block is compressed into the eight 32-bit words of the
  state.
\<close>

type_synonym w32 = "32 word"
type_synonym byte = "8 word"

definition Ch :: "w32 \<Rightarrow> w32 \<Rightarrow> w32 \<Rightarrow> w32" where
  "Ch x y z = (x AND y) XOR (NOT x AND z)"

definition Maj :: "w32 \<Rightarrow> w32 \<Rightarrow> w32 \<Rightarrow> w32" where
  "Maj x y z = (x AND y) XOR (x AND z) XOR (y AND z)"

definition bsig0 :: "w32 \<Rightarrow> w32" where
  "bsig0 x = word_rotr 2 x XOR word_rotr 13 x XOR word_rotr 22 x"

definition bsig1 :: "w32 \<Rightarrow> w32" where
  "bsig1 x = word_rotr 6 x XOR word_rotr 11 x XOR word_rotr 25 x"

definition ssig0 :: "w32 \<Rightarrow> w32" where
  "ssig0 x = word_rotr 7 x XOR word_rotr 18 x XOR drop_bit 3 x"

definition ssig1 :: "w32 \<Rightarrow> w32" where
  "ssig1 x = word_rotr 17 x XOR word_rotr 19 x XOR drop_bit 10 x"

definition sha256_K :: "w32 list" where
  "sha256_K =
     [0x428a2f98, 0x71374491, 0xb5c0fbcf, 0xe9b5dba5, 0x3956c25b, 0x59f111f1] @
     [0x923f82a4, 0xab1c5ed5, 0xd807aa98, 0x12835b01, 0x243185be, 0x550c7dc3] @
     [0x72be5d74, 0x80deb1fe, 0x9bdc06a7, 0xc19bf174, 0xe49b69c1, 0xefbe4786] @
     [0x0fc19dc6, 0x240ca1cc, 0x2de92c6f, 0x4a7484aa, 0x5cb0a9dc, 0x76f988da] @
     [0x983e5152, 0xa831c66d, 0xb00327c8, 0xbf597fc7, 0xc6e00bf3, 0xd5a79147] @
     [0x06ca6351, 0x14292967, 0x27b70a85, 0x2e1b2138, 0x4d2c6dfc, 0x53380d13] @
     [0x650a7354, 0x766a0abb, 0x81c2c92e, 0x92722c85, 0xa2bfe8a1, 0xa81a664b] @
     [0xc24b8b70, 0xc76c51a3, 0xd192e819, 0xd6990624, 0xf40e3585, 0x106aa070] @
     [0x19a4c116, 0x1e376c08, 0x2748774c, 0x34b0bcb5, 0x391c0cb3, 0x4ed8aa4a] @
     [0x5b9cca4f, 0x682e6ff3, 0x748f82ee, 0x78a5636f, 0x84c87814, 0x8cc70208] @
     [0x90befffa, 0xa4506ceb, 0xbef9a3f7, 0xc67178f2]"

type_synonym sha_state = "w32 \<times> w32 \<times> w32 \<times> w32 \<times> w32 \<times> w32 \<times> w32 \<times> w32"

definition sha256_init :: sha_state where
  "sha256_init =
    (0x6a09e667, 0xbb67ae85, 0x3c6ef372, 0xa54ff53a, 0x510e527f, 0x9b05688c, 0x1f83d9ab, 0x5be0cd19)"

text \<open>The message schedule: \<open>n\<close> further words after the 16 of the block.\<close>

fun schedule :: "nat \<Rightarrow> w32 list \<Rightarrow> w32 list" where
  "schedule 0 w = w"
| "schedule (Suc n) w =
     (let t = length w
      in schedule n
           (w @ [ssig1 (w ! (t - 2)) + w ! (t - 7) + ssig0 (w ! (t - 15)) + w ! (t - 16)]))"

fun sha_round :: "w32 \<times> w32 \<Rightarrow> sha_state \<Rightarrow> sha_state" where
  "sha_round (k, w) (a, b, c, d, e, f, g, h) =
     (let t1 = h + bsig1 e + Ch e f g + k + w;
          t2 = bsig0 a + Maj a b c
      in (t1 + t2, a, b, c, d + t1, e, f, g))"

fun sha_add :: "sha_state \<Rightarrow> sha_state \<Rightarrow> sha_state" where
  "sha_add (a, b, c, d, e, f, g, h) (a', b', c', d', e', f', g', h') =
     (a + a', b + b', c + c', d + d', e + e', f + f', g + g', h + h')"

text \<open>Big-endian bytes to words, four at a time.\<close>

fun be_words :: "byte list \<Rightarrow> w32 list" where
  "be_words (b0 # b1 # b2 # b3 # bs) =
     (push_bit 24 (ucast b0) OR push_bit 16 (ucast b1) OR push_bit 8 (ucast b2) OR ucast b3)
       # be_words bs"
| "be_words _ = []"

definition compress :: "sha_state \<Rightarrow> byte list \<Rightarrow> sha_state" where
  "compress hs block =
     sha_add hs (fold sha_round (zip sha256_K (schedule 48 (be_words block))) hs)"

definition be64 :: "nat \<Rightarrow> byte list" where
  "be64 n = map (\<lambda>i. ucast (drop_bit (8 * (7 - i)) (of_nat n :: 64 word))) [0..<8]"

definition sha_pad :: "byte list \<Rightarrow> byte list" where
  "sha_pad bs =
     bs @ [0x80] @ replicate ((119 - length bs mod 64) mod 64) 0 @ be64 (8 * length bs)"

fun blocks :: "nat \<Rightarrow> byte list \<Rightarrow> sha_state \<Rightarrow> sha_state" where
  "blocks 0 bs hs = hs"
| "blocks (Suc n) bs hs = blocks n (drop 64 bs) (compress hs (take 64 bs))"

definition sha256 :: "byte list \<Rightarrow> sha_state" where
  "sha256 bs = (let p = sha_pad bs in blocks (length p div 64) p sha256_init)"

definition hex_digit :: "w32 \<Rightarrow> char" where
  "hex_digit n = ''0123456789abcdef'' ! unat (n AND 15)"

definition hex32 :: "w32 \<Rightarrow> string" where
  "hex32 w = map (\<lambda>i. hex_digit (drop_bit (4 * (7 - i)) w)) [0..<8]"

fun hexdigest :: "sha_state \<Rightarrow> string" where
  "hexdigest (a, b, c, d, e, f, g, h) =
     hex32 a @ hex32 b @ hex32 c @ hex32 d @ hex32 e @ hex32 f @ hex32 g @ hex32 h"

text \<open>\<^verbatim>\<open>str.encode()\<close>: UTF-8 of code points below 256, one byte below 128 and two from
  there on.\<close>

definition utf8_char :: "char \<Rightarrow> byte list" where
  "utf8_char c =
     (let n = (of_char c :: nat)
      in if n < 128 then [of_nat n] else [of_nat (192 + n div 64), of_nat (128 + n mod 64)])"

definition encode :: "string \<Rightarrow> byte list" where
  "encode s = concat (map utf8_char s)"

text \<open>The f-string \<^verbatim>\<open>f"{row['company']}-{row['position']}-{row['location']}"\<close> of line 126
  of \<^verbatim>\<open>Adzuna.py\<close> and line 100 of \<^verbatim>\<open>Jooble.py\<close>.\<close>

definition key_text :: "pyval \<Rightarrow> pyval \<Rightarrow> pyval \<Rightarrow> string option" where
  "key_text company position location =
     (case (py_str company, py_str position, py_str location) of
        (Some c, Some p, Some l) \<Rightarrow> Some (c @ ''-'' @ p @ ''-'' @ l)
      | _ \<Rightarrow> None)"

definition unique_job_id :: "pyval \<Rightarrow> pyval \<Rightarrow> pyval \<Rightarrow> failure + string" where
  "unique_job_id company position location =
     (case key_text company position location of
        None \<Rightarrow> Inl Unmodelled
      | Some s \<Rightarrow> Inr (hexdigest (sha256 (encode s))))"

definition assign_keys :: "dataframe \<Rightarrow> failure + dataframe" where
  "assign_keys df =
     bnd (get_col df ''company'') (\<lambda>cs.
     bnd (get_col df ''position'') (\<lambda>ps.
     bnd (get_col df ''location'') (\<lambda>ls.
     bnd (map_res (\<lambda>(c, p, l). bnd (unique_job_id c p l) (\<lambda>k. Inr (PyStr k)))
            (zip cs (zip ps ls))) (\<lambda>ks.
     Inr (set_col df ''unique_job_id'' ks)))))"

section \<open>The world: console, connection and table\<close>

text \<open>
  What a run does is recorded as a trace of events: the lines it prints (by kind), the
  calls it makes to \<^verbatim>\<open>configparser\<close>, \<^verbatim>\<open>requests\<close> and \<^verbatim>\<open>pyodbc\<close>, and two marks
  for the points where the frame is built (\<open>Normalize\<close>) and where the hash column is
  computed (\<open>AssignKeys\<close>).
\<close>

datatype msg =
    ProcessStart | Starting | NoJobsWarning | FetchSuccess | ApiError | UnexpectedFormat
  | ConfigError | Connected | ConnectionError | StartingLoad | NoDataToLoad | TableChecked
  | MergeSuccess | SqlError | Halting | MissingKeyError | ConnectionClosed

datatype event =
    Log msg | ReadConfig | Connect | HttpRequest | Normalize | AssignKeys
  | OpenCursor | CreateTable | Commit | Merge | Rollback | CloseCursor | CloseConnection

text \<open>The provider's table: its rows by primary key, the first column of the
  \<^verbatim>\<open>CREATE TABLE\<close> and the column of the \<^verbatim>\<open>ON\<close> clause of the \<^verbatim>\<open>MERGE\<close>.\<close>

type_synonym table = "(pyval \<times> pyval list) list"

text \<open>\<open>committed\<close> is the table in the database (\<open>None\<close>: there is none yet), \<open>session\<close>
  the table as the open transaction sees it. pyodbc connections do not autocommit.\<close>

record world =
  trace :: "event list"
  committed :: "table option"
  session :: "table option"
  cursor_open :: bool
  conn_open :: bool

type_synonym 'a io = "world \<Rightarrow> (failure + 'a) \<times> world"

definition ret :: "'a \<Rightarrow> 'a io" where
  "ret x w = (Inr x, w)"

definition lift :: "failure + 'a \<Rightarrow> 'a io" where
  "lift r w = (r, w)"

definition bind_io :: "'a io \<Rightarrow> ('a \<Rightarrow> 'b io) \<Rightarrow> 'b io" where
  "bind_io m f w = (case m w of (Inl e, w') \<Rightarrow> (Inl e, w') | (Inr x, w') \<Rightarrow> f x w')"

definition emit :: "event \<Rightarrow> unit io" where
  "emit e w = (Inr (), w\<lparr>trace := trace w @ [e]\<rparr>)"

text \<open>\<^verbatim>\<open>try: m except <classes>: h\<close>.\<close>

definition try_except :: "(exn \<Rightarrow> bool) \<Rightarrow> 'a io \<Rightarrow> 'a io \<Rightarrow> 'a io" where
  "try_except caught m h w =
     (case m w of
        (Inl (Raise e), w') \<Rightarrow> if caught e then h w' else (Inl (Raise e), w')
      | r \<Rightarrow> r)"

text \<open>\<^verbatim>\<open>try: m finally: fin\<close>: the cleanup runs after a return and after an exception,
  which is raised again afterwards.\<close>

definition try_finally :: "'a io \<Rightarrow> unit io \<Rightarrow> 'a io" where
  "try_finally m fin w =
     (case m w of
        (Inl Unmodelled, w') \<Rightarrow> (Inl Unmodelled, w')
      | (r, w') \<Rightarrow> (case fin w' of (Inl e, w'') \<Rightarrow> (Inl e, w'') | (Inr u, w'') \<Rightarrow> (r, w'')))"

text \<open>A call into pyodbc: it is recorded, then it either raises or has its effect.\<close>

definition db_call :: "event \<Rightarrow> exn option \<Rightarrow> (world \<Rightarrow> world) \<Rightarrow> unit io" where
  "db_call e fault effect w =
     (let w' = w\<lparr>trace := trace w @ [e]\<rparr>
      in case fault of Some x \<Rightarrow> (Inl (Raise x), w') | None \<Rightarrow> (Inr (), effect w'))"

text \<open>Which calls of a load step fail, and with which exception; \<open>merge_fault\<close> names the
  row at which \<^verbatim>\<open>executemany\<close> stops.\<close>

record faults =
  cursor_fault :: "exn option"
  create_fault :: "exn option"
  commit1_fault :: "exn option"
  merge_fault :: "(nat \<times> exn) option"
  commit2_fault :: "exn option"

definition cursor :: "faults \<Rightarrow> unit io" where
  "cursor f = db_call OpenCursor (cursor_fault f) (\<lambda>w. w\<lparr>cursor_open := True\<rparr>)"

text \<open>\<^verbatim>\<open>IF OBJECT_ID(...) IS NULL BEGIN CREATE TABLE ... END\<close>.\<close>

definition execute_create :: "faults \<Rightarrow> unit io" where
  "execute_create f =
     db_call CreateTable (create_fault f)
       (\<lambda>w. w\<lparr>session := Some (case session w of None \<Rightarrow> [] | Some t \<Rightarrow> t)\<rparr>)"

definition commit :: "exn option \<Rightarrow> unit io" where
  "commit fault = db_call Commit fault (\<lambda>w. w\<lparr>committed := session w\<rparr>)"

definition rollback :: "unit io" where
  "rollback = db_call Rollback None (\<lambda>w. w\<lparr>session := committed w\<rparr>)"

text \<open>One \<^verbatim>\<open>MERGE\<close>: update the row of this key, or insert it.\<close>

fun upsert :: "pyval list \<Rightarrow> table \<Rightarrow> table" where
  "upsert [] t = t"
| "upsert (k # vs) t =
     (if k \<in> set (map fst t) then map (\<lambda>(k', r). if k' = k then (k, k # vs) else (k', r)) t
      else t @ [(k, k # vs)])"

text \<open>\<^verbatim>\<open>cursor.executemany(merge_query, rows)\<close>: the rows before the failing one have been
  merged in the transaction when the exception is raised. Without the table the
  statement itself is an error.\<close>

definition executemany :: "pyval list list \<Rightarrow> faults \<Rightarrow> unit io" where
  "executemany rows f w =
     (let w' = w\<lparr>trace := trace w @ [Merge]\<rparr>
      in case session w' of
           None \<Rightarrow> (Inl (Raise PyodbcError), w')
         | Some t \<Rightarrow>
             (case merge_fault f of
                None \<Rightarrow> (Inr (), w'\<lparr>session := Some (fold upsert rows t)\<rparr>)
              | Some (k, x) \<Rightarrow>
                  if k < length rows
                  then (Inl (Raise x), w'\<lparr>session := Some (fold upsert (take k rows) t)\<rparr>)
                  else (Inr (), w'\<lparr>session := Some (fold upsert rows t)\<rparr>)))"

text \<open>\<^verbatim>\<open>if cursor: cursor.close()\<close> and \<^verbatim>\<open>if conn: conn.close(); print(...)\<close>.\<close>

definition close_cursor :: "unit io" where
  "close_cursor w =
     (if cursor_open w then (Inr (), w\<lparr>trace := trace w @ [CloseCursor], cursor_open := False\<rparr>)
      else (Inr (), w))"

definition close_conn :: "unit io" where
  "close_conn w =
     (if conn_open w
      then (Inr (), w\<lparr>trace := trace w @ [CloseConnection, Log ConnectionClosed],
                       conn_open := False\<rparr>)
      else (Inr (), w))"

text \<open>The rows handed to \<^verbatim>\<open>executemany\<close>: \<^verbatim>\<open>df.values.tolist()\<close> and
  \<^verbatim>\<open>[tuple(row) for row in df.itertuples(index=False)]\<close>.\<close>

definition rows_of :: "dataframe \<Rightarrow> pyval list list" where
  "rows_of df = map (\<lambda>i. map (\<lambda>(c, xs). xs ! i) df) [0..<n_rows df]"

section \<open>The load step\<close>

definition adzuna_table_cols :: "string list" where
  "adzuna_table_cols =
     [''unique_job_id'', ''api_id'', ''date_posted'', ''company'', ''position'', ''location'',
      ''category'', ''salary_min'', ''salary_max'', ''redirect_url'']"

definition jooble_table_cols :: "string list" where
  "jooble_table_cols =
     [''unique_job_id'', ''api_id'', ''date_posted'', ''company'', ''position'', ''location'',
      ''tags'', ''salary_min'', ''salary_max'', ''url'']"

text \<open>Lines 125-146 of \<^verbatim>\<open>Adzuna.py\<close> and 99-119 of \<^verbatim>\<open>Jooble.py\<close>: the rows with the
  hash in front.\<close>

definition keyed_rows :: "string list \<Rightarrow> dataframe \<Rightarrow> failure + pyval list list" where
  "keyed_rows table_cols df =
     bnd (assign_keys df) (\<lambda>df1.
     bnd (select_cols df1 table_cols) (\<lambda>df2.
     Inr (rows_of (where_notnull df2))))"

text \<open>\<^verbatim>\<open>load_adzuna_to_sql\<close> and \<^verbatim>\<open>load_jooble_to_sql\<close> differ in the table only;
  \<^verbatim>\<open>except Exception\<close> catches every exception of the model.\<close>

definition load_keyed :: "string list \<Rightarrow> dataframe \<Rightarrow> faults \<Rightarrow> unit io" where
  "load_keyed table_cols df f =
     bind_io (emit (Log StartingLoad)) (\<lambda>_.
     if df_empty df then emit (Log NoDataToLoad)
     else
       try_finally
         (try_except (\<lambda>e. True)
            (bind_io (cursor f) (\<lambda>_.
             bind_io (execute_create f) (\<lambda>_.
             bind_io (commit (commit1_fault f)) (\<lambda>_.
             bind_io (emit AssignKeys) (\<lambda>_.
             bind_io (lift (keyed_rows table_cols df)) (\<lambda>data_to_load.
             bind_io (executemany data_to_load f) (\<lambda>_.
             bind_io (commit (commit2_fault f)) (\<lambda>_.
             emit (Log MergeSuccess)))))))))
            (bind_io (emit (Log SqlError)) (\<lambda>_. rollback)))
         close_cursor)"

definition load_adzuna_to_sql :: "dataframe \<Rightarrow> faults \<Rightarrow> unit io" where
  "load_adzuna_to_sql = load_keyed adzuna_table_cols"

definition load_jooble_to_sql :: "dataframe \<Rightarrow> faults \<Rightarrow> unit io" where
  "load_jooble_to_sql = load_keyed jooble_table_cols"

text \<open>\<^verbatim>\<open>load_data_to_sql\<close> of \<^verbatim>\<open>RemoteOK.py\<close>: no hash column, the frame's own first
  column \<^verbatim>\<open>id\<close> is the key, and only \<^verbatim>\<open>pyodbc.Error\<close> is caught.\<close>

definition load_data_to_sql :: "dataframe \<Rightarrow> faults \<Rightarrow> unit io" where
  "load_data_to_sql df f =
     bind_io (emit (Log StartingLoad)) (\<lambda>_.
     try_finally
       (try_except (\<lambda>e. e = PyodbcError)
          (bind_io (cursor f) (\<lambda>_.
           bind_io (execute_create f) (\<lambda>_.
           bind_io (commit (commit1_fault f)) (\<lambda>_.
           bind_io (emit (Log TableChecked)) (\<lambda>_.
           bind_io (executemany (rows_of df) f) (\<lambda>_.
           bind_io (commit (commit2_fault f)) (\<lambda>_.
           emit (Log MergeSuccess))))))))
          (bind_io (emit (Log SqlError)) (\<lambda>_. rollback)))
       close_cursor)"

section \<open>Fetching\<close>

text \<open>What the provider's endpoint does: the request fails in transport, or a response
  arrives with a status and a JSON body.\<close>

datatype http = TransportError | Response nat pyval

text \<open>\<^verbatim>\<open>requests.get\<close> or \<^verbatim>\<open>requests.post\<close>, \<^verbatim>\<open>raise_for_status()\<close> and
  \<^verbatim>\<open>response.json()\<close>: a transport failure and a status from 400 to 599 raise a
  \<^verbatim>\<open>RequestException\<close>.\<close>

definition request :: "http \<Rightarrow> pyval io" where
  "request h =
     bind_io (emit HttpRequest) (\<lambda>_.
     case h of
       TransportError \<Rightarrow> lift (Inl (Raise RequestException))
     | Response status body \<Rightarrow>
         if 400 \<le> status \<and> status < 600 then lift (Inl (Raise RequestException))
         else ret body)"

text \<open>\<^verbatim>\<open>data.get(k, default)\<close> on the parsed body: only a dict has \<^verbatim>\<open>get\<close>.\<close>

fun py_get :: "pyval \<Rightarrow> string \<Rightarrow> pyval \<Rightarrow> failure + pyval" where
  "py_get (PyDict d) k dflt = Inr (dict_get_default d k dflt)"
| "py_get _ k dflt = Inl (Raise AttributeError)"

text \<open>\<^verbatim>\<open>pd.DataFrame(jobs)\<close> followed by the provider's transformation; a truthy
  \<^verbatim>\<open>jobs\<close> that is not a list is not modelled.\<close>

fun on_list :: "(pyval list \<Rightarrow> failure + dataframe) \<Rightarrow> pyval \<Rightarrow> failure + dataframe" where
  "on_list f (PyList js) = f js"
| "on_list f _ = Inl Unmodelled"

text \<open>\<^verbatim>\<open>fetch_adzuna_data\<close> and \<^verbatim>\<open>fetch_jooble_data\<close> have one shape; they differ in the
  key of the listing and in the transformation.\<close>

definition fetch_listing ::
  "string \<Rightarrow> (pyval list \<Rightarrow> failure + dataframe) \<Rightarrow> http \<Rightarrow> dataframe io" where
  "fetch_listing key transform h =
     bind_io (emit (Log Starting)) (\<lambda>_.
     try_except (\<lambda>e. e = RequestException)
       (bind_io (request h) (\<lambda>data.
        bind_io (lift (py_get data key (PyList []))) (\<lambda>jobs.
        if \<not> truthy jobs then bind_io (emit (Log NoJobsWarning)) (\<lambda>_. ret [])
        else
          bind_io (emit Normalize) (\<lambda>_.
          bind_io (lift (on_list transform jobs)) (\<lambda>df.
          bind_io (emit (Log FetchSuccess)) (\<lambda>_.
          ret df))))))
       (bind_io (emit (Log ApiError)) (\<lambda>_. ret [])))"

definition fetch_adzuna_data :: "http \<Rightarrow> dataframe io" where
  "fetch_adzuna_data = fetch_listing ''results'' adzuna_transform"

definition fetch_jooble_data :: "http \<Rightarrow> dataframe io" where
  "fetch_jooble_data = fetch_listing ''jobs'' jooble_transform"

text \<open>\<^verbatim>\<open>fetch_remoteok_data\<close>: \<open>None\<close> stands for Python's \<^verbatim>\<open>None\<close>. The first item of
  the feed is metadata.\<close>

fun feed_listings :: "pyval \<Rightarrow> pyval list option" where
  "feed_listings (PyList (meta # job # jobs)) = Some (job # jobs)"
| "feed_listings _ = None"

definition fetch_remoteok_data :: "http \<Rightarrow> dataframe option io" where
  "fetch_remoteok_data h =
     bind_io (emit (Log Starting)) (\<lambda>_.
     try_except (\<lambda>e. e = RequestException)
       (bind_io (request h) (\<lambda>data.
        case feed_listings data of
          None \<Rightarrow> bind_io (emit (Log UnexpectedFormat)) (\<lambda>_. ret None)
        | Some job_listings \<Rightarrow>
            bind_io (emit Normalize) (\<lambda>_.
            bind_io (lift (remoteok_transform job_listings)) (\<lambda>df.
            bind_io (emit (Log FetchSuccess)) (\<lambda>_.
            ret (Some df))))))
       (bind_io (emit (Log ApiError)) (\<lambda>_. ret None)))"

section \<open>Configuration and connection\<close>

text \<open>What \<^verbatim>\<open>config.read(path)\<close> finds: no readable file (it returns the empty list and
  raises nothing), a file that does not parse (\<^verbatim>\<open>configparser.Error\<close>), or sections of
  options.\<close>

type_synonym ini_section = "(string \<times> string) list"

datatype config_file = Unreadable | Malformed | Parsed "(string \<times> ini_section) list"

text \<open>\<^verbatim>\<open>d[k]\<close> raises \<^verbatim>\<open>KeyError\<close> for a missing section or option.\<close>

definition getitem :: "(string \<times> 'a) list \<Rightarrow> string \<Rightarrow> failure + 'a" where
  "getitem d k = (case map_of d k of None \<Rightarrow> Inl (Raise KeyError) | Some v \<Rightarrow> Inr v)"

text \<open>\<^verbatim>\<open>get_config\<close> of \<^verbatim>\<open>Adzuna.py\<close> and \<^verbatim>\<open>Jooble.py\<close>.\<close>

definition get_config :: "config_file \<Rightarrow> (string \<times> ini_section) list option io" where
  "get_config cf =
     bind_io (emit ReadConfig) (\<lambda>_.
     case cf of
       Unreadable \<Rightarrow> bind_io (emit (Log ConfigError)) (\<lambda>_. ret None)
     | Malformed \<Rightarrow> bind_io (emit (Log ConfigError)) (\<lambda>_. ret None)
     | Parsed sections \<Rightarrow> ret (Some sections))"

text \<open>\<^verbatim>\<open>pyodbc.connect(conn_str)\<close>, failing with the given exception if there is one.\<close>

definition connect :: "exn option \<Rightarrow> unit io" where
  "connect fault = db_call Connect fault (\<lambda>w. w\<lparr>conn_open := True, session := committed w\<rparr>)"

text \<open>\<^verbatim>\<open>get_db_connection\<close> of \<^verbatim>\<open>db_utils.py\<close>: every exception ends in a message and
  \<^verbatim>\<open>None\<close> (here \<open>False\<close>).\<close>

definition get_db_connection :: "ini_section \<Rightarrow> exn option \<Rightarrow> bool io" where
  "get_db_connection db_config fault =
     try_except (\<lambda>e. True)
       (bind_io (lift (getitem db_config ''server'')) (\<lambda>server.
        bind_io (lift (getitem db_config ''database'')) (\<lambda>database.
        bind_io (connect fault) (\<lambda>_.
        bind_io (emit (Log Connected)) (\<lambda>_.
        ret True)))))
       (bind_io (emit (Log ConnectionError)) (\<lambda>_. ret False))"

text \<open>\<^verbatim>\<open>get_db_connection\<close> of \<^verbatim>\<open>RemoteOK.py\<close> reads the file itself and catches
  \<^verbatim>\<open>pyodbc.Error\<close>, \<^verbatim>\<open>configparser.Error\<close> and \<^verbatim>\<open>FileNotFoundError\<close> only.\<close>

definition read_config :: "config_file \<Rightarrow> (string \<times> ini_section) list io" where
  "read_config cf =
     bind_io (emit ReadConfig) (\<lambda>_.
     case cf of
       Unreadable \<Rightarrow> ret []
     | Malformed \<Rightarrow> lift (Inl (Raise ConfigparserError))
     | Parsed sections \<Rightarrow> ret sections)"

definition remoteok_get_db_connection :: "config_file \<Rightarrow> exn option \<Rightarrow> bool io" where
  "remoteok_get_db_connection cf fault =
     bind_io (emit (Log Starting)) (\<lambda>_.
     try_except (\<lambda>e. e = PyodbcError \<or> e = ConfigparserError)
       (bind_io (read_config cf) (\<lambda>config.
        bind_io (lift (getitem config ''database'')) (\<lambda>db_config.
        bind_io (lift (getitem db_config ''server'')) (\<lambda>server.
        bind_io (lift (getitem db_config ''database'')) (\<lambda>database.
        bind_io (connect fault) (\<lambda>_.
        bind_io (emit (Log Connected)) (\<lambda>_.
        ret True)))))))
       (bind_io (emit (Log ConnectionError)) (\<lambda>_. ret False)))"

section \<open>The drivers\<close>

text \<open>Everything outside the program that a run depends on.\<close>

record env =
  config :: config_file
  connect_fault :: "exn option"
  provider :: http
  db_faults :: faults

text \<open>\<^verbatim>\<open>df["date_posted"] = pd.to_datetime(df["date_posted"], errors="coerce")\<close>: the
  column must exist; the timestamps themselves are not parsed here.\<close>

definition to_datetime :: "dataframe \<Rightarrow> failure + dataframe" where
  "to_datetime df = bnd (get_col df ''date_posted'') (\<lambda>xs. Inr (set_col df ''date_posted'' xs))"

text \<open>\<^verbatim>\<open>main\<close> of \<^verbatim>\<open>Adzuna.py\<close>.\<close>

definition adzuna_main :: "env \<Rightarrow> unit io" where
  "adzuna_main env =
     bind_io (emit (Log ProcessStart)) (\<lambda>_.
     bind_io (get_config (config env)) (\<lambda>cfg.
     case cfg of
       None \<Rightarrow> ret ()
     | Some sections \<Rightarrow>
         try_finally
           (bind_io (lift (getitem sections ''database'')) (\<lambda>db_config.
            bind_io (get_db_connection db_config (connect_fault env)) (\<lambda>conn.
            if conn then
              bind_io (lift (getitem sections ''adzuna'')) (\<lambda>adzuna.
              bind_io (lift (getitem adzuna ''app_id'')) (\<lambda>app_id.
              bind_io (lift (getitem adzuna ''app_key'')) (\<lambda>app_key.
              bind_io (fetch_adzuna_data (provider env)) (\<lambda>adzuna_df.
              bind_io (lift (to_datetime adzuna_df)) (\<lambda>adzuna_df'.
              load_adzuna_to_sql adzuna_df' (db_faults env))))))
            else ret ())))
           close_conn))"

text \<open>\<^verbatim>\<open>main\<close> of \<^verbatim>\<open>Jooble.py\<close>: the same, with \<^verbatim>\<open>except KeyError\<close> around the body.\<close>

definition jooble_main :: "env \<Rightarrow> unit io" where
  "jooble_main env =
     bind_io (emit (Log ProcessStart)) (\<lambda>_.
     bind_io (get_config (config env)) (\<lambda>cfg.
     case cfg of
       None \<Rightarrow> ret ()
     | Some sections \<Rightarrow>
         try_finally
           (try_except (\<lambda>e. e = KeyError)
              (bind_io (lift (getitem sections ''database'')) (\<lambda>db_config.
               bind_io (get_db_connection db_config (connect_fault env)) (\<lambda>conn.
               if conn then
                 bind_io (lift (getitem sections ''api'')) (\<lambda>api.
                 bind_io (lift (getitem api ''jooble_api_key'')) (\<lambda>api_key.
                 bind_io (fetch_jooble_data (provider env)) (\<lambda>jooble_df.
                 bind_io (lift (to_datetime jooble_df)) (\<lambda>jooble_df'.
                 load_jooble_to_sql jooble_df' (db_faults env)))))
               else ret ())))
              (emit (Log MissingKeyError)))
           close_conn))"

text \<open>\<^verbatim>\<open>main\<close> of \<^verbatim>\<open>RemoteOK.py\<close>: the feed is fetched first.\<close>

definition remoteok_main :: "env \<Rightarrow> unit io" where
  "remoteok_main env =
     bind_io (fetch_remoteok_data (provider env)) (\<lambda>jobs_df.
     case jobs_df of
       None \<Rightarrow> emit (Log Halting)
     | Some df \<Rightarrow>
         if df_empty df then emit (Log Halting)
         else
           try_finally
             (bind_io (remoteok_get_db_connection (config env) (connect_fault env)) (\<lambda>conn.
              if conn then load_data_to_sql df (db_faults env) else ret ()))
             close_conn)"

text \<open>A run starts with nothing printed and no connection; the table is as earlier runs
  left it.\<close>

definition start :: "table option \<Rightarrow> world" where
  "start t = \<lparr>trace = [], committed = t, session = None, cursor_open = False, conn_open = False\<rparr>"

section \<open>Reading a load step\<close>

text \<open>The rows of a table that may not exist yet.\<close>

definition table_rows :: "table option \<Rightarrow> table" where
  "table_rows t = (case t of None \<Rightarrow> [] | Some rows \<Rightarrow> rows)"

text \<open>A connection between transactions: nothing pending and no cursor.\<close>

definition idle :: "world \<Rightarrow> bool" where
  "idle w = (session w = committed w \<and> \<not> cursor_open w)"

text \<open>Some call of the load step fails on a batch of \<open>n\<close> rows.\<close>

definition fails :: "faults \<Rightarrow> nat \<Rightarrow> bool" where
  "fails f n =
     (cursor_fault f \<noteq> None \<or> create_fault f \<noteq> None \<or> commit1_fault f \<noteq> None
      \<or> (case merge_fault f of None \<Rightarrow> False | Some (k, x) \<Rightarrow> k < n)
      \<or> commit2_fault f \<noteq> None)"

text \<open>Every failure is a \<^verbatim>\<open>pyodbc.Error\<close>.\<close>

definition only_pyodbc :: "faults \<Rightarrow> bool" where
  "only_pyodbc f =
     (cursor_fault f \<in> {None, Some PyodbcError} \<and> create_fault f \<in> {None, Some PyodbcError}
      \<and> commit1_fault f \<in> {None, Some PyodbcError}
      \<and> (case merge_fault f of None \<Rightarrow> True | Some (k, x) \<Rightarrow> x = PyodbcError)
      \<and> commit2_fault f \<in> {None, Some PyodbcError})"

text \<open>What a handled failure looks like from outside: the step returns, no row more is
  committed and none is pending, the cursor is closed, the error was printed, one
  rollback was issued and no statement was run twice.\<close>

definition handled :: "world \<Rightarrow> (failure + unit) \<times> world \<Rightarrow> bool" where
  "handled w r =
     (fst r = Inr ()
      \<and> table_rows (committed (snd r)) = table_rows (committed w)
      \<and> session (snd r) = committed (snd r)
      \<and> \<not> cursor_open (snd r)
      \<and> conn_open (snd r) = conn_open w
      \<and> take (length (trace w)) (trace (snd r)) = trace w
      \<and> Log SqlError \<in> set (drop (length (trace w)) (trace (snd r)))
      \<and> count_list (drop (length (trace w)) (trace (snd r))) Rollback = 1
      \<and> count_list (drop (length (trace w)) (trace (snd r))) Merge \<le> 1
      \<and> count_list (drop (length (trace w)) (trace (snd r))) CreateTable \<le> 1
      \<and> count_list (drop (length (trace w)) (trace (snd r))) Commit \<le> 2)"

section \<open>Reading a run\<close>

text \<open>The events that mark the phases of a run: loading the configuration, connecting,
  fetching, normalising, assigning keys, the upsert and closing the connection.\<close>

definition is_phase :: "event \<Rightarrow> bool" where
  "is_phase e =
     (e \<in> set [ReadConfig, Connect, HttpRequest, Normalize, AssignKeys, Merge, CloseConnection])"

text \<open>A trace follows an order of phases: its phase events are an initial part of the
  order, each phase once, followed by the closing of the connection exactly when a
  connection was opened.\<close>

definition follows :: "event list \<Rightarrow> event list \<Rightarrow> bool" where
  "follows order tr =
     list_ex (\<lambda>k. filter is_phase tr =
                 take k order @ (if Log Connected \<in> set tr then [CloseConnection] else []))
       [0..<Suc (length order)]"

definition keyed_order :: "event list" where
  "keyed_order = [ReadConfig, Connect, HttpRequest, Normalize, AssignKeys, Merge]"

definition remoteok_order :: "event list" where
  "remoteok_order = [HttpRequest, Normalize, ReadConfig, Connect, Merge]"

section \<open>Properties\<close>

lemma map_of_replace_hit:
  "c \<in> fst ` set df \<Longrightarrow>
   map_of (map (\<lambda>(c', ys). if c' = c then (c, xs) else (c', ys)) df) c = Some xs"
  by (induction df) (auto split: prod.splits)

lemma map_of_replace_miss:
  "k \<noteq> c \<Longrightarrow>
   map_of (map (\<lambda>(c', ys). if c' = c then (c, xs) else (c', ys)) df) k = map_of df k"
  by (induction df) (auto split: prod.splits)

lemma map_of_set_col: "map_of (set_col df c xs) = (map_of df)(c \<mapsto> xs)"
proof (cases "c \<in> fst ` set df")
  case True
  then show ?thesis
    by (simp add: set_col_def fun_eq_iff map_of_replace_hit map_of_replace_miss)
next
  case False
  then have "map_of df c = None" by (simp add: map_of_eq_None_iff)
  with False show ?thesis
    by (auto simp: set_col_def fun_eq_iff map_add_def split: option.splits)
qed

lemma get_col_set_col:
  "get_col (set_col df c xs) c' = (if c' = c then Inr xs else get_col df c')"
  by (simp add: get_col_def map_of_set_col)

lemma map_of_ensure_col:
  "map_of df k = Some xs \<Longrightarrow> map_of (ensure_col c df) k = Some xs"
  by (auto simp: ensure_col_def map_add_def split: option.splits)

lemma map_of_fold_ensure:
  "map_of df k = Some xs \<Longrightarrow> map_of (fold ensure_col cs df) k = Some xs"
  by (induction cs arbitrary: df) (auto simp: map_of_ensure_col)

lemma select_cols_map_of:
  "select_cols df cs = Inr r \<Longrightarrow> c \<in> set cs \<Longrightarrow> map_of r c = map_of df c \<and> map_of df c \<noteq> None"
  unfolding select_cols_def
proof (induction cs arbitrary: r)
  case Nil
  then show ?case by simp
next
  case (Cons a cs)
  then show ?case
    by (auto simp: bnd_def get_col_def split: sum.splits option.splits if_splits)
qed

lemma bnd_Inr: "bnd m f = Inr y \<Longrightarrow> \<exists>x. m = Inr x \<and> f x = Inr y"
  by (cases m) (auto simp: bnd_def)

lemma jooble_salary_example: "jooble_salary (PyStr ''$50,000 - $70,000'') = Inr 50000"
  by (simp add: jooble_salary_def str_extract_def regex_strip_def float_int_def
      is_digit_def token_char_def nat_of_digits_def digit_val_def)

lemma jooble_transform_example: "jooble_transform [PyDict [(''title'', PyStr ''Dev''), (''salary'', PyStr ''$50,000 - $70,000'')]]
     = Inr [(''api_id'', [PyNone]), (''date_posted'', [PyNone]), (''company'', [PyNone]),
            (''position'', [PyStr ''Dev'']), (''location'', [PyNone]), (''tags'', [PyNone]),
            (''salary_min'', [PyInt 50000]), (''salary_max'', [PyInt 50000]), (''url'', [PyNone])]"
proof -
  have a: "from_records [PyDict [(''title'', PyStr ''Dev''), (''salary'', PyStr ''$50,000 - $70,000'')]]
     = Inr [(''title'', [PyStr ''Dev'']), (''salary'', [PyStr ''$50,000 - $70,000''])]"
    by (simp add: from_records_def bnd_def cell_of_def)
  have b: "rename_cols jooble_names [(''title'', [PyStr ''Dev'']), (''salary'', [PyStr ''$50,000 - $70,000''])]
     = Inr [(''position'', [PyStr ''Dev'']), (''salary_min'', [PyStr ''$50,000 - $70,000''])]"
    by (simp add: rename_cols_def jooble_names_def)
  have c: "fold ensure_col jooble_required_cols
       [(''position'', [PyStr ''Dev'']), (''salary_min'', [PyInt 50000]), (''salary_max'', [PyInt 50000])]
     = [(''position'', [PyStr ''Dev'']), (''salary_min'', [PyInt 50000]), (''salary_max'', [PyInt 50000]),
        (''api_id'', [PyNone]), (''date_posted'', [PyNone]), (''company'', [PyNone]),
        (''location'', [PyNone]), (''tags'', [PyNone]), (''url'', [PyNone])]"
    by (simp add: jooble_required_cols_def ensure_col_def n_rows_def)
  have d: "select_cols [(''position'', [PyStr ''Dev'']), (''salary_min'', [PyInt 50000]), (''salary_max'', [PyInt 50000]),
        (''api_id'', [PyNone]), (''date_posted'', [PyNone]), (''company'', [PyNone]),
        (''location'', [PyNone]), (''tags'', [PyNone]), (''url'', [PyNone])] jooble_required_cols
     = Inr [(''api_id'', [PyNone]), (''date_posted'', [PyNone]), (''company'', [PyNone]),
            (''position'', [PyStr ''Dev'']), (''location'', [PyNone]), (''tags'', [PyNone]),
            (''salary_min'', [PyInt 50000]), (''salary_max'', [PyInt 50000]), (''url'', [PyNone])]"
    by (simp add: select_cols_def jooble_required_cols_def get_col_def bnd_def)
  show ?thesis
    unfolding jooble_transform_def a
    by (simp add: bnd_def b get_col_def set_col_def jooble_salary_example c d)
qed

text \<open>
  Claim C10. For every Jooble record, after normalisation \<^verbatim>\<open>salary_max\<close> equals
  \<^verbatim>\<open>salary_min\<close>: whenever lines 39-61 of \<^verbatim>\<open>Jooble.py\<close> return a frame, it has both
  columns and they hold the same cells, row by row.
\<close>

theorem jooble_salary_max_eq_min:
  assumes "jooble_transform jobs = Inr df"
  shows "\<exists>xs. map_of df ''salary_min'' = Some xs \<and> map_of df ''salary_max'' = Some xs"
proof -
  from assms obtain df0 df1 s smin a smax b where
    s: "get_col df1 ''salary_min'' = Inr s"
    and smin: "get_col (set_col df1 ''salary_max'' s) ''salary_min'' = Inr smin"
    and a: "map_res jooble_salary smin = Inr a"
    and smax: "get_col (set_col (set_col df1 ''salary_max'' s) ''salary_min'' (map PyInt a)) ''salary_max'' = Inr smax"
    and b: "map_res jooble_salary smax = Inr b"
    and sel: "select_cols (fold ensure_col jooble_required_cols
         (set_col (set_col (set_col df1 ''salary_max'' s) ''salary_min'' (map PyInt a)) ''salary_max'' (map PyInt b)))
         jooble_required_cols = Inr df"
    unfolding jooble_transform_def Let_def by (blast dest!: bnd_Inr)
  from s smin have "smin = s" by (simp add: get_col_set_col)
  moreover from smax have "smax = s" by (simp add: get_col_set_col)
  ultimately have ab: "a = b" using a b by simp
  let ?d = "set_col (set_col (set_col df1 ''salary_max'' s) ''salary_min'' (map PyInt a)) ''salary_max'' (map PyInt b)"
  have "map_of ?d ''salary_min'' = Some (map PyInt a)" "map_of ?d ''salary_max'' = Some (map PyInt a)"
    by (simp_all add: map_of_set_col ab)
  then have "map_of (fold ensure_col jooble_required_cols ?d) ''salary_min'' = Some (map PyInt a)"
    "map_of (fold ensure_col jooble_required_cols ?d) ''salary_max'' = Some (map PyInt a)"
    by (simp_all only: map_of_fold_ensure)
  moreover have "''salary_min'' \<in> set jooble_required_cols" "''salary_max'' \<in> set jooble_required_cols"
    by (simp_all add: jooble_required_cols_def)
  ultimately show ?thesis using select_cols_map_of [OF sel] by metis
qed


theorem jooble_salary_max_eq_min_witness:
  "jooble_transform [PyDict [(''title'', PyStr ''Dev''), (''salary'', PyStr ''$50,000 - $70,000'')]]
     = Inr [(''api_id'', [PyNone]), (''date_posted'', [PyNone]), (''company'', [PyNone]),
            (''position'', [PyStr ''Dev'']), (''location'', [PyNone]), (''tags'', [PyNone]),
            (''salary_min'', [PyInt 50000]), (''salary_max'', [PyInt 50000]), (''url'', [PyNone])]
   \<and> (\<exists>xs. map_of [(''api_id'', [PyNone]), (''date_posted'', [PyNone]), (''company'', [PyNone]),
            (''position'', [PyStr ''Dev'']), (''location'', [PyNone]), (''tags'', [PyNone]),
            (''salary_min'', [PyInt 50000]), (''salary_max'', [PyInt 50000]), (''url'', [PyNone])]
            ''salary_min'' = Some xs
        \<and> map_of [(''api_id'', [PyNone]), (''date_posted'', [PyNone]), (''company'', [PyNone]),
            (''position'', [PyStr ''Dev'']), (''location'', [PyNone]), (''tags'', [PyNone]),
            (''salary_min'', [PyInt 50000]), (''salary_max'', [PyInt 50000]), (''url'', [PyNone])]
            ''salary_max'' = Some xs)"
proof -
  note h = jooble_transform_example
  from jooble_salary_max_eq_min [OF h] h show ?thesis by blast
qed

lemma str_extract_token:
  assumes "\<forall>c\<in>set pre. \<not> is_digit c" and "is_digit d"
    and "\<forall>c\<in>set tok. token_char c" and "rest = [] \<or> \<not> token_char (hd rest)"
  shows "str_extract (pre @ d # tok @ rest) = Some (d # tok)"
proof -
  have "dropWhile (\<lambda>c. \<not> is_digit c) (pre @ d # tok @ rest) = d # tok @ rest"
    using assms(1,2) by (simp add: dropWhile_append3)
  moreover have "takeWhile token_char (tok @ rest) = tok"
  proof (cases rest)
    case Nil
    then show ?thesis using assms(3) by simp
  next
    case (Cons r rs)
    with assms(4) have "\<not> token_char r" by simp
    with Cons assms(3) show ?thesis by (simp add: takeWhile_tail)
  qed
  ultimately show ?thesis by (simp add: str_extract_def)
qed

lemma map_res_Inr_set:
  "map_res f xs = Inr ys \<Longrightarrow> y \<in> set ys \<Longrightarrow> \<exists>x\<in>set xs. f x = Inr y"
  by (induction xs arbitrary: ys) (auto split: sum.splits)



lemma int_column_I:
  assumes "map_of df c = Some (map PyInt ys)" and "\<forall>y\<in>set ys. P y"
  shows "int_column P df c"
  using assms by (simp add: int_column_def list_all_iff)



















text \<open>The token \<^verbatim>\<open>12345678901234567890\<close> of 20 digits: the nearest double is
  \<open>6028163525993441 * 2 ^ 11\<close>, beyond \<open>2 ^ 63\<close>.\<close>

lemma bits_numeral_64: "bits 12345678901234567890 = 64"
  by (simp add: bits.simps)

lemma bits_one: "bits (Suc 0) = Suc 0"
  by (simp add: bits.simps)

lemma float_of_decimal_overflow_example:
  "float_of_decimal 12345678901234567890 0 = Double 6028163525993441 11"
  by (simp add: float_of_decimal_def bits_numeral_64 bits_one at_least_pow2_def
      round_half_even_def Let_def)

lemma jooble_salary_overflow_example:
  "jooble_salary (PyStr ''12345678901234567890'') = Inr (- 9223372036854775808)"
proof -
  have "str_extract ''12345678901234567890'' = Some ''12345678901234567890''"
    by (simp add: str_extract_def is_digit_def token_char_def)
  moreover have "regex_strip ''12345678901234567890'' = ''12345678901234567890''"
    by (simp add: regex_strip_def is_digit_def)
  moreover have "filter is_digit ''12345678901234567890'' = ''12345678901234567890''"
    and "dropWhile is_digit ''12345678901234567890'' = []"
    by (simp_all add: is_digit_def)
  moreover have "nat_of_digits ''12345678901234567890'' = 12345678901234567890"
    by (simp add: nat_of_digits_def digit_val_def)
  ultimately show ?thesis
    by (simp add: jooble_salary_def float_int_def float_of_decimal_overflow_example
        astype_int64_def)
qed
lemma un_dict_Inr: "map_res un_dict jobs = Inr ds \<Longrightarrow> jobs = map PyDict ds"
proof (induction jobs arbitrary: ds)
  case Nil
  then show ?case by simp
next
  case (Cons j js)
  then show ?case by (cases j) (auto split: sum.splits)
qed

lemma map_res_list_all2: "map_res f xs = Inr ys \<Longrightarrow> list_all2 (\<lambda>x y. f x = Inr y) xs ys"
  by (induction xs arbitrary: ys) (auto split: sum.splits)


lemma map_of_tabulate:
  "map_of (map (\<lambda>c. (c, f c)) ks) c = (if c \<in> set ks then Some (f c) else None)"
  by (induction ks) auto

lemma from_records_Inr:
  assumes "from_records jobs = Inr df"
  shows "\<exists>ds. jobs = map PyDict ds \<and> distinct (map fst df)
     \<and> (\<forall>xs\<in>snd ` set df. length xs = length ds)
     \<and> (\<forall>c. map_of df c = (if \<exists>d\<in>set ds. c \<in> fst ` set d
                              then Some (map (\<lambda>d. cell_of d c) ds) else None))"
proof -
  from assms obtain ds where ds: "map_res un_dict jobs = Inr ds"
    and df: "df = map (\<lambda>c. (c, map (\<lambda>d. cell_of d c) ds))
                    (rev (remdups (rev (concat (map (map fst) ds)))))"
    unfolding from_records_def by (auto dest!: bnd_Inr)
  have "map fst df = rev (remdups (rev (concat (map (map fst) ds))))"
    by (simp add: df comp_def)
  then have "distinct (map fst df)" by simp
  moreover have "\<forall>xs\<in>snd ` set df. length xs = length ds"
    by (auto simp: df)
  moreover have "map_of df c = (if \<exists>d\<in>set ds. c \<in> fst ` set d
                              then Some (map (\<lambda>d. cell_of d c) ds) else None)" for c
    unfolding df map_of_tabulate by auto
  ultimately show ?thesis using un_dict_Inr [OF ds] by blast
qed

lemma map_of_rename_cols:
  assumes "rename_cols m df = Inr df'"
  shows "map_of df' k = Some xs
     \<longleftrightarrow> (\<exists>c. map_of df c = Some xs \<and> (case map_of m c of None \<Rightarrow> c | Some c' \<Rightarrow> c') = k)"
proof -
  let ?r = "\<lambda>c. case map_of m c of None \<Rightarrow> c | Some c' \<Rightarrow> c'"
  from assms have df': "df' = map (\<lambda>(c, xs). (?r c, xs)) df" and dist: "distinct (map fst df')"
    by (auto simp: rename_cols_def Let_def split: if_splits)
  have "map fst df' = map ?r (map fst df)"
    by (simp add: df' comp_def case_prod_unfold)
  with dist have "distinct (map ?r (map fst df))"
    by (simp only:)
  then have dist0: "distinct (map fst df)"
    by (simp only: distinct_map)
  show ?thesis
  proof
    assume "map_of df' k = Some xs"
    then have "(k, xs) \<in> set df'" by (rule map_of_SomeD)
    then obtain c where "(c, xs) \<in> set df" "?r c = k" by (auto simp: df')
    moreover from this(1) dist0 have "map_of df c = Some xs" by simp
    ultimately show "\<exists>c. map_of df c = Some xs \<and> ?r c = k" by blast
  next
    assume "\<exists>c. map_of df c = Some xs \<and> ?r c = k"
    then obtain c where "map_of df c = Some xs" and k: "?r c = k" by blast
    then have "(c, xs) \<in> set df" by (auto dest: map_of_SomeD)
    then have "(?r c, xs) \<in> set df'" by (force simp: df')
    with dist k show "map_of df' k = Some xs" by simp
  qed
qed



lemma jooble_salary_source:
  assumes "jooble_transform jobs = Inr df"
  shows "\<exists>ds src ns. jobs = map PyDict ds
     \<and> (src = ''salary'' \<or> src = ''salary_min'' \<and> (\<forall>d\<in>set ds. map_of d ''salary'' = None))
     \<and> list_all2 (\<lambda>d n. jooble_salary (cell_of d src) = Inr n) ds ns
     \<and> map_of df ''salary_min'' = Some (map PyInt ns)
     \<and> map_of df ''salary_max'' = Some (map PyInt ns)"
proof -
  from assms obtain df0 df1 s smin a smax b where
    f: "from_records jobs = Inr df0"
    and r: "rename_cols jooble_names df0 = Inr df1"
    and s: "get_col df1 ''salary_min'' = Inr s"
    and smin: "get_col (set_col df1 ''salary_max'' s) ''salary_min'' = Inr smin"
    and a: "map_res jooble_salary smin = Inr a"
    and smax: "get_col (set_col (set_col df1 ''salary_max'' s) ''salary_min'' (map PyInt a)) ''salary_max'' = Inr smax"
    and b: "map_res jooble_salary smax = Inr b"
    and sel: "select_cols (fold ensure_col jooble_required_cols
         (set_col (set_col (set_col df1 ''salary_max'' s) ''salary_min'' (map PyInt a)) ''salary_max'' (map PyInt b)))
         jooble_required_cols = Inr df"
    unfolding jooble_transform_def Let_def by (blast dest!: bnd_Inr)
  from s smin have "smin = s" by (simp add: get_col_set_col)
  moreover from smax have "smax = s" by (simp add: get_col_set_col)
  ultimately have ab: "b = a" and as: "map_res jooble_salary s = Inr a" using a b by simp_all
  let ?d = "set_col (set_col (set_col df1 ''salary_max'' s) ''salary_min'' (map PyInt a)) ''salary_max'' (map PyInt b)"
  have "map_of ?d ''salary_min'' = Some (map PyInt a)" "map_of ?d ''salary_max'' = Some (map PyInt a)"
    by (simp_all add: map_of_set_col ab)
  then have "map_of (fold ensure_col jooble_required_cols ?d) ''salary_min'' = Some (map PyInt a)"
    "map_of (fold ensure_col jooble_required_cols ?d) ''salary_max'' = Some (map PyInt a)"
    by (simp_all only: map_of_fold_ensure)
  moreover have "''salary_min'' \<in> set jooble_required_cols" "''salary_max'' \<in> set jooble_required_cols"
    by (simp_all add: jooble_required_cols_def)
  ultimately have out: "map_of df ''salary_min'' = Some (map PyInt a)"
    "map_of df ''salary_max'' = Some (map PyInt a)"
    using select_cols_map_of [OF sel] by simp_all
  from from_records_Inr [OF f] obtain ds where ds: "jobs = map PyDict ds"
    and cols: "\<And>c. map_of df0 c = (if \<exists>d\<in>set ds. c \<in> fst ` set d
                              then Some (map (\<lambda>d. cell_of d c) ds) else None)"
    by blast
  from s have s1: "map_of df1 ''salary_min'' = Some s"
    by (auto simp: get_col_def split: option.splits)
  then obtain c where c: "map_of df0 c = Some s"
    and rc: "(case map_of jooble_names c of None \<Rightarrow> c | Some c' \<Rightarrow> c') = ''salary_min''"
    using map_of_rename_cols [OF r] by blast
  from rc have c': "c = ''salary'' \<or> c = ''salary_min''"
    by (auto simp: jooble_names_def split: if_splits)
  from c cols [of c] have sc: "s = map (\<lambda>d. cell_of d c) ds"
    by (auto split: if_splits)
  have "\<exists>src. s = map (\<lambda>d. cell_of d src) ds
      \<and> (src = ''salary'' \<or> src = ''salary_min'' \<and> (\<forall>d\<in>set ds. map_of d ''salary'' = None))"
  proof (cases "\<exists>d\<in>set ds. ''salary'' \<in> fst ` set d")
    case True
    then have "map_of df0 ''salary'' = Some (map (\<lambda>d. cell_of d ''salary'') ds)"
      by (simp only: cols if_True)
    moreover have "(case map_of jooble_names ''salary'' of None \<Rightarrow> ''salary'' | Some c' \<Rightarrow> c') = ''salary_min''"
      by (simp add: jooble_names_def)
    ultimately have "map_of df1 ''salary_min'' = Some (map (\<lambda>d. cell_of d ''salary'') ds)"
      using map_of_rename_cols [OF r] by blast
    with s1 have "s = map (\<lambda>d. cell_of d ''salary'') ds" by simp
    then show ?thesis by blast
  next
    case False
    then have none: "\<forall>d\<in>set ds. map_of d ''salary'' = None"
      by (auto simp: map_of_eq_None_iff)
    from False have "map_of df0 ''salary'' = None" by (simp only: cols if_False)
    with c c' have "c = ''salary_min''" by auto
    with none sc show ?thesis by blast
  qed
  then obtain src where sc': "s = map (\<lambda>d. cell_of d src) ds"
    and src: "src = ''salary'' \<or> src = ''salary_min'' \<and> (\<forall>d\<in>set ds. map_of d ''salary'' = None)"
    by blast
  from map_res_list_all2 [OF as] have "list_all2 (\<lambda>d n. jooble_salary (cell_of d src) = Inr n) ds a"
    by (simp add: sc' list_all2_map1)
  with ds src out show ?thesis by blast
qed












lemma digits_of_stripped: "filter is_digit (regex_strip t) = filter is_digit t"
  by (induction t) (auto simp: regex_strip_def)

lemma float_int_short:
  assumes "float_int (Some t) = Inr n" and "length (filter is_digit t) \<le> 15"
  shows "n = int (nat_of_digits (takeWhile is_digit t))"
  using assms by (auto simp: float_int_def split: if_splits)

text \<open>
  Claim C9. A Jooble salary given as free text is normalised through its leading numeric
  token. Let a listing of the batch have as \<^verbatim>\<open>salary\<close> a text made of a prefix without
  digits, a digit, further characters of \<^verbatim>\<open>[\d,.]\<close> and a rest that is empty or starts
  outside that class. Then the pattern extracts exactly the digit and those characters,
  and whenever lines 39-61 of \<^verbatim>\<open>Jooble.py\<close> return a frame, its \<^verbatim>\<open>salary_min\<close> column
  has one cell per listing, and for a token of at most 15 digits the cell of this listing
  is the integer written by the digits of the token before its first dot, commas left
  out. In particular the listing with \<^verbatim>\<open>"$50,000 - $70,000"\<close> gets \<^verbatim>\<open>salary_min\<close> = 50000.
\<close>

theorem jooble_leading_numeric_token:
  assumes "jooble_transform jobs = Inr df"
    and "i < length jobs" and "jobs ! i = PyDict job"
    and "map_of job ''salary'' = Some (PyStr (pre @ d # tok @ rest))"
    and "\<forall>c\<in>set pre. \<not> is_digit c" and "is_digit d"
    and "\<forall>c\<in>set tok. token_char c" and "rest = [] \<or> \<not> token_char (hd rest)"
    and "length (filter is_digit (d # tok)) \<le> 15"
  shows "str_extract (pre @ d # tok @ rest) = Some (d # tok)
       \<and> (\<exists>xs. map_of df ''salary_min'' = Some xs \<and> length xs = length jobs
            \<and> xs ! i = PyInt (int (nat_of_digits (takeWhile is_digit (regex_strip (d # tok))))))
       \<and> (\<exists>df'. jooble_transform
              [PyDict [(''title'', PyStr ''Dev''), (''salary'', PyStr ''$50,000 - $70,000'')]] = Inr df'
            \<and> map_of df' ''salary_min'' = Some [PyInt 50000])"
proof -
  note ex = str_extract_token [OF assms(5-8)]
  from jooble_salary_source [OF assms(1)] obtain ds src ns where ds: "jobs = map PyDict ds"
    and src: "src = ''salary'' \<or> src = ''salary_min'' \<and> (\<forall>d\<in>set ds. map_of d ''salary'' = None)"
    and rel: "list_all2 (\<lambda>d n. jooble_salary (cell_of d src) = Inr n) ds ns"
    and out: "map_of df ''salary_min'' = Some (map PyInt ns)"
    by blast
  from assms(2) ds have i: "i < length ds" by simp
  with assms(3) ds have job: "ds ! i = job" by simp
  with i have "job \<in> set ds" by (metis nth_mem)
  with assms(4) src have s: "src = ''salary''" by auto
  from rel have len: "length ns = length ds" by (simp add: list_all2_lengthD)
  from rel i have "jooble_salary (cell_of (ds ! i) src) = Inr (ns ! i)"
    by (rule list_all2_nthD)
  with job s assms(4) have "jooble_salary (PyStr (pre @ d # tok @ rest)) = Inr (ns ! i)"
    by (simp add: cell_of_def)
  with ex have "float_int (Some (regex_strip (d # tok))) = Inr (ns ! i)"
    by (simp add: jooble_salary_def)
  moreover from assms(9) have "length (filter is_digit (regex_strip (d # tok))) \<le> 15"
    by (simp only: digits_of_stripped)
  ultimately have "ns ! i = int (nat_of_digits (takeWhile is_digit (regex_strip (d # tok))))"
    by (rule float_int_short)
  with out len i ds have "\<exists>xs. map_of df ''salary_min'' = Some xs \<and> length xs = length jobs
      \<and> xs ! i = PyInt (int (nat_of_digits (takeWhile is_digit (regex_strip (d # tok)))))"
    by (intro exI [of _ "map PyInt ns"]) simp
  moreover have "\<exists>df'. jooble_transform
        [PyDict [(''title'', PyStr ''Dev''), (''salary'', PyStr ''$50,000 - $70,000'')]] = Inr df'
      \<and> map_of df' ''salary_min'' = Some [PyInt 50000]"
    by (simp add: jooble_transform_example)
  ultimately show ?thesis using ex by blast
qed

theorem jooble_leading_numeric_token_witness:
  "str_extract ''$50,000 - $70,000'' = Some ''50,000''
   \<and> (\<exists>xs. map_of [(''api_id'', [PyNone]), (''date_posted'', [PyNone]), (''company'', [PyNone]),
            (''position'', [PyStr ''Dev'']), (''location'', [PyNone]), (''tags'', [PyNone]),
            (''salary_min'', [PyInt 50000]), (''salary_max'', [PyInt 50000]), (''url'', [PyNone])]
            ''salary_min'' = Some xs
        \<and> length xs = 1 \<and> xs ! 0 = PyInt 50000)"
proof -
  have i: "0 < length [PyDict [(''title'', PyStr ''Dev''), (''salary'', PyStr ''$50,000 - $70,000'')]]"
    and j: "[PyDict [(''title'', PyStr ''Dev''), (''salary'', PyStr ''$50,000 - $70,000'')]] ! 0
      = PyDict [(''title'', PyStr ''Dev''), (''salary'', PyStr ''$50,000 - $70,000'')]"
    and s: "map_of [(''title'', PyStr ''Dev''), (''salary'', PyStr ''$50,000 - $70,000'')] ''salary''
      = Some (PyStr (''$'' @ CHR ''5'' # ''0,000'' @ '' - $70,000''))"
    by simp_all
  have pre: "\<forall>c\<in>set ''$''. \<not> is_digit c" and d: "is_digit CHR ''5''"
    and tok: "\<forall>c\<in>set ''0,000''. token_char c"
    and rest: "'' - $70,000'' = [] \<or> \<not> token_char (hd '' - $70,000'')"
    and short: "length (filter is_digit (CHR ''5'' # ''0,000'')) \<le> 15"
    by (simp_all add: is_digit_def token_char_def)
  have v: "int (nat_of_digits (takeWhile is_digit (regex_strip (CHR ''5'' # ''0,000'')))) = 50000"
    by (simp add: regex_strip_def is_digit_def nat_of_digits_def digit_val_def)
  from jooble_leading_numeric_token [OF jooble_transform_example i j s pre d tok rest short,
      unfolded append.simps v]
  show ?thesis by simp
qed


lemma remoteok_transform_example:
  "remoteok_transform
     [PyDict [(''id'', PyStr ''123''), (''company'', PyStr ''Acme''),
              (''tags'', PyList [PyStr ''python'']), (''salary_min'', PyInt (- 5))]]
   = Inr [(''id'', [PyStr ''123'']), (''date_posted'', [PyNone]), (''company'', [PyStr ''Acme'']),
          (''position'', [PyNone]), (''location'', [PyNone]), (''tags'', [PyStr ''python'']),
          (''salary_min'', [PyInt (- 5)]), (''salary_max'', [PyInt 0]), (''url'', [PyNone])]"
proof -
  have a: "remoteok_job_info
     (PyDict [(''id'', PyStr ''123''), (''company'', PyStr ''Acme''),
              (''tags'', PyList [PyStr ''python'']), (''salary_min'', PyInt (- 5))])
     = Inr (PyDict [(''id'', PyStr ''123''), (''date_posted'', PyNone), (''company'', PyStr ''Acme''),
          (''position'', PyNone), (''location'', PyNone), (''tags'', PyStr ''python''),
          (''salary_min'', PyInt (- 5)), (''salary_max'', PyNone), (''url'', PyNone)])"
    by (simp add: bnd_def dict_get_def dict_get_default_def get_if_truthy_def)
  have b: "from_records
       [PyDict [(''id'', PyStr ''123''), (''date_posted'', PyNone), (''company'', PyStr ''Acme''),
          (''position'', PyNone), (''location'', PyNone), (''tags'', PyStr ''python''),
          (''salary_min'', PyInt (- 5)), (''salary_max'', PyNone), (''url'', PyNone)]]
     = Inr [(''id'', [PyStr ''123'']), (''date_posted'', [PyNone]), (''company'', [PyStr ''Acme'']),
          (''position'', [PyNone]), (''location'', [PyNone]), (''tags'', [PyStr ''python'']),
          (''salary_min'', [PyInt (- 5)]), (''salary_max'', [PyNone]), (''url'', [PyNone])]"
    by (simp add: from_records_def bnd_def cell_of_def)
  have e: "remoteok_salary (PyInt (- 5)) = Inr (- 5)" "remoteok_salary PyNone = Inr 0"
    by (simp_all add: remoteok_salary_def bnd_def fillna_def)
  have a': "map_res remoteok_job_info
     [PyDict [(''id'', PyStr ''123''), (''company'', PyStr ''Acme''),
              (''tags'', PyList [PyStr ''python'']), (''salary_min'', PyInt (- 5))]]
     = Inr [PyDict [(''id'', PyStr ''123''), (''date_posted'', PyNone), (''company'', PyStr ''Acme''),
          (''position'', PyNone), (''location'', PyNone), (''tags'', PyStr ''python''),
          (''salary_min'', PyInt (- 5)), (''salary_max'', PyNone), (''url'', PyNone)]]"
    by (simp add: a del: remoteok_job_info.simps)
  show ?thesis
    unfolding remoteok_transform_def a'
    by (simp add: b bnd_def map_col_def get_col_def set_col_def astype_str_def e where_notnull_def)
qed


lemma cleaned_column_ints:
  assumes "map_of df c = Some (map PyInt ns)" and "\<forall>n\<in>set ns. P n"
  shows "int_column P df c"
  using assms by (rule int_column_I)







text \<open>
  Two Jooble batches that the statement of claim C3 below leaves aside. When no listing
  has a \<^verbatim>\<open>salary\<close>, the frame has no column \<^verbatim>\<open>salary_min\<close> and line 45 raises
  \<^verbatim>\<open>KeyError\<close>. A salary token of 20 digits is a double beyond \<open>2 ^ 63\<close>, and its
  conversion to a 64-bit integer gives \<open>- 2 ^ 63\<close> in both columns.
\<close>

lemma jooble_no_salary_example:
  "jooble_transform [PyDict [(''title'', PyStr ''Dev'')]] = Inl (Raise KeyError)"
  by (simp add: jooble_transform_def from_records_def rename_cols_def jooble_names_def
      cell_of_def get_col_def bnd_def)

lemma jooble_transform_overflow_example:
  "jooble_transform [PyDict [(''title'', PyStr ''Dev''), (''salary'', PyStr ''12345678901234567890'')]]
     = Inr [(''api_id'', [PyNone]), (''date_posted'', [PyNone]), (''company'', [PyNone]),
            (''position'', [PyStr ''Dev'']), (''location'', [PyNone]), (''tags'', [PyNone]),
            (''salary_min'', [PyInt (- 9223372036854775808)]),
            (''salary_max'', [PyInt (- 9223372036854775808)]), (''url'', [PyNone])]"
proof -
  have a: "from_records [PyDict [(''title'', PyStr ''Dev''), (''salary'', PyStr ''12345678901234567890'')]]
     = Inr [(''title'', [PyStr ''Dev'']), (''salary'', [PyStr ''12345678901234567890''])]"
    by (simp add: from_records_def bnd_def cell_of_def)
  have b: "rename_cols jooble_names [(''title'', [PyStr ''Dev'']), (''salary'', [PyStr ''12345678901234567890''])]
     = Inr [(''position'', [PyStr ''Dev'']), (''salary_min'', [PyStr ''12345678901234567890''])]"
    by (simp add: rename_cols_def jooble_names_def)
  have c: "fold ensure_col jooble_required_cols
       [(''position'', [PyStr ''Dev'']), (''salary_min'', [PyInt (- 9223372036854775808)]),
        (''salary_max'', [PyInt (- 9223372036854775808)])]
     = [(''position'', [PyStr ''Dev'']), (''salary_min'', [PyInt (- 9223372036854775808)]),
        (''salary_max'', [PyInt (- 9223372036854775808)]),
        (''api_id'', [PyNone]), (''date_posted'', [PyNone]), (''company'', [PyNone]),
        (''location'', [PyNone]), (''tags'', [PyNone]), (''url'', [PyNone])]"
    by (simp add: jooble_required_cols_def ensure_col_def n_rows_def)
  have d: "select_cols [(''position'', [PyStr ''Dev'']), (''salary_min'', [PyInt (- 9223372036854775808)]),
        (''salary_max'', [PyInt (- 9223372036854775808)]),
        (''api_id'', [PyNone]), (''date_posted'', [PyNone]), (''company'', [PyNone]),
        (''location'', [PyNone]), (''tags'', [PyNone]), (''url'', [PyNone])] jooble_required_cols
     = Inr [(''api_id'', [PyNone]), (''date_posted'', [PyNone]), (''company'', [PyNone]),
            (''position'', [PyStr ''Dev'']), (''location'', [PyNone]), (''tags'', [PyNone]),
            (''salary_min'', [PyInt (- 9223372036854775808)]),
            (''salary_max'', [PyInt (- 9223372036854775808)]), (''url'', [PyNone])]"
    by (simp add: select_cols_def jooble_required_cols_def get_col_def bnd_def)
  show ?thesis
    unfolding jooble_transform_def a
    by (simp add: bnd_def b get_col_def set_col_def jooble_salary_overflow_example c d)
qed




lemma hex32_length: "length (hex32 w) = 8"
  by (simp add: hex32_def)

lemma sha_state_fields:
  obtains a b c d e f g h where "st = (a, b, c, d, e, f, g, h)"
  by (metis surj_pair)

lemma hexdigest_length: "length (hexdigest st) = 64"
  by (rule sha_state_fields [of st]) (simp add: hex32_length)

lemma hex_digit_in: "hex_digit n \<in> set ''0123456789abcdef''"
proof -
  have "unat (n AND 15) \<le> unat (15 :: w32)"
    by (rule word_and_le1 [THEN word_le_nat_alt [THEN iffD1]])
  then have "unat (n AND 15) < length ''0123456789abcdef''"
    by simp
  then show ?thesis
    unfolding hex_digit_def by (rule nth_mem)
qed

lemma hex32_set: "set (hex32 w) \<subseteq> set ''0123456789abcdef''"
  unfolding hex32_def using hex_digit_in by auto

lemma hexdigest_set: "set (hexdigest st) \<subseteq> set ''0123456789abcdef''"
proof (rule sha_state_fields [of st])
  fix a b c d e f g h
  assume fields: "st = (a, b, c, d, e, f, g, h)"
  show ?thesis
    unfolding fields hexdigest.simps set_append
    using hex32_set [of a] hex32_set [of b] hex32_set [of c] hex32_set [of d]
      hex32_set [of e] hex32_set [of f] hex32_set [of g] hex32_set [of h]
    by blast
qed

lemma unique_job_id_Inr:
  "unique_job_id c p l = Inr k \<Longrightarrow>
     \<exists>s. key_text c p l = Some s \<and> k = hexdigest (sha256 (encode s))"
  by (auto simp: unique_job_id_def split: option.splits)

lemma assign_keys_Inr:
  assumes "assign_keys df = Inr df'"
  shows "\<exists>cs ps ls ks. map_of df ''company'' = Some cs \<and> map_of df ''position'' = Some ps
     \<and> map_of df ''location'' = Some ls
     \<and> map_res (\<lambda>(c, p, l). bnd (unique_job_id c p l) (\<lambda>k. Inr (PyStr k))) (zip cs (zip ps ls))
         = Inr ks
     \<and> map_of df' = (map_of df)(''unique_job_id'' \<mapsto> ks)"
  using assms unfolding assign_keys_def
  by (auto dest!: bnd_Inr simp: get_col_def map_of_set_col split: option.splits)

text \<open>
  Claim C1, as the code has it. The key is the hex SHA-256 digest of the UTF-8 bytes of
  the text \<^verbatim>\<open>"{company}-{position}-{location}"\<close>, always 64 characters of
  \<^verbatim>\<open>0123456789abcdef\<close>. It is a function of that joined text alone: two triples with
  the same joined text get the same key, and in a frame the key column is determined
  by the three columns \<^verbatim>\<open>company\<close>, \<^verbatim>\<open>position\<close> and \<^verbatim>\<open>location\<close>.
\<close>

theorem surrogate_key_of_joined_text:
  "(unique_job_id c p l = Inr k \<longrightarrow>
      (\<exists>s. key_text c p l = Some s \<and> k = hexdigest (sha256 (encode s)))
      \<and> length k = 64 \<and> set k \<subseteq> set ''0123456789abcdef'')
   \<and> key_text (PyStr a) (PyStr b) (PyStr d) = Some (a @ ''-'' @ b @ ''-'' @ d)
   \<and> (key_text c p l = key_text c' p' l' \<longrightarrow> unique_job_id c p l = unique_job_id c' p' l')
   \<and> (assign_keys d1 = Inr e1 \<and> assign_keys d2 = Inr e2
        \<and> map_of d1 ''company'' = map_of d2 ''company''
        \<and> map_of d1 ''position'' = map_of d2 ''position''
        \<and> map_of d1 ''location'' = map_of d2 ''location''
      \<longrightarrow> map_of e1 ''unique_job_id'' = map_of e2 ''unique_job_id'')"
proof -
  have one: "(\<exists>s. key_text c p l = Some s \<and> k = hexdigest (sha256 (encode s)))
      \<and> length k = 64 \<and> set k \<subseteq> set ''0123456789abcdef''"
    if h: "unique_job_id c p l = Inr k"
  proof -
    from unique_job_id_Inr [OF h] obtain s where
      s: "key_text c p l = Some s" "k = hexdigest (sha256 (encode s))"
      by blast
    have "length k = 64"
      unfolding s(2) by (rule hexdigest_length)
    moreover have "set k \<subseteq> set ''0123456789abcdef''"
      unfolding s(2) by (rule hexdigest_set)
    ultimately show ?thesis using s by blast
  qed
  have two: "key_text (PyStr a) (PyStr b) (PyStr d) = Some (a @ ''-'' @ b @ ''-'' @ d)"
    by (simp add: key_text_def)
  have three: "unique_job_id c p l = unique_job_id c' p' l'"
    if "key_text c p l = key_text c' p' l'"
    using that by (simp add: unique_job_id_def)
  have four: "map_of e1 ''unique_job_id'' = map_of e2 ''unique_job_id''"
    if "assign_keys d1 = Inr e1" "assign_keys d2 = Inr e2"
      "map_of d1 ''company'' = map_of d2 ''company''"
      "map_of d1 ''position'' = map_of d2 ''position''"
      "map_of d1 ''location'' = map_of d2 ''location''"
    using assign_keys_Inr [OF that(1)] assign_keys_Inr [OF that(2)] that(3-5)
    by (elim exE conjE) simp
  from one two three four show ?thesis by blast
qed

lemma assign_keys_example:
  "assign_keys [(''api_id'', [PyStr x]), (''company'', [PyStr ''Acme'']),
                (''position'', [PyStr ''Engineer'']), (''location'', [PyStr ''Remote''])]
   = Inr [(''api_id'', [PyStr x]), (''company'', [PyStr ''Acme'']),
          (''position'', [PyStr ''Engineer'']), (''location'', [PyStr ''Remote'']),
          (''unique_job_id'', [PyStr (hexdigest (sha256 (encode ''Acme-Engineer-Remote'')))])]"
  by (simp add: assign_keys_def get_col_def set_col_def bnd_def unique_job_id_def key_text_def)

theorem surrogate_key_of_joined_text_witness:
  "length (hexdigest (sha256 (encode ''Coca-Cola-Engineer-Remote''))) = 64
   \<and> unique_job_id (PyStr ''Coca-Cola'') (PyStr ''Engineer'') (PyStr ''Remote'')
     = unique_job_id (PyStr ''Coca'') (PyStr ''Cola-Engineer'') (PyStr ''Remote'')
   \<and> map_of [(''api_id'', [PyStr ''1'']), (''company'', [PyStr ''Acme'']),
          (''position'', [PyStr ''Engineer'']), (''location'', [PyStr ''Remote'']),
          (''unique_job_id'', [PyStr (hexdigest (sha256 (encode ''Acme-Engineer-Remote'')))])]
        ''unique_job_id''
     = map_of [(''api_id'', [PyStr ''2'']), (''company'', [PyStr ''Acme'']),
          (''position'', [PyStr ''Engineer'']), (''location'', [PyStr ''Remote'']),
          (''unique_job_id'', [PyStr (hexdigest (sha256 (encode ''Acme-Engineer-Remote'')))])]
        ''unique_job_id''"
proof -
  have h: "unique_job_id (PyStr ''Coca-Cola'') (PyStr ''Engineer'') (PyStr ''Remote'')
           = Inr (hexdigest (sha256 (encode ''Coca-Cola-Engineer-Remote'')))"
    by (simp add: unique_job_id_def key_text_def)
  have t: "key_text (PyStr ''Coca-Cola'') (PyStr ''Engineer'') (PyStr ''Remote'')
           = key_text (PyStr ''Coca'') (PyStr ''Cola-Engineer'') (PyStr ''Remote'')"
    by (simp add: key_text_def)
  have m: "map_of [(''api_id'', [PyStr ''1'']), (''company'', [PyStr ''Acme'']),
                (''position'', [PyStr ''Engineer'']), (''location'', [PyStr ''Remote''])] c
         = map_of [(''api_id'', [PyStr ''2'']), (''company'', [PyStr ''Acme'']),
                (''position'', [PyStr ''Engineer'']), (''location'', [PyStr ''Remote''])] c"
    if "c = ''company'' \<or> c = ''position'' \<or> c = ''location''" for c
    using that by auto
  from surrogate_key_of_joined_text
    [of "PyStr ''Coca-Cola''" "PyStr ''Engineer''" "PyStr ''Remote''"
      "hexdigest (sha256 (encode ''Coca-Cola-Engineer-Remote''))" _ _ _
      "PyStr ''Coca''" "PyStr ''Cola-Engineer''" "PyStr ''Remote''",
      THEN conjunct1, rule_format, OF h]
  have a: "length (hexdigest (sha256 (encode ''Coca-Cola-Engineer-Remote''))) = 64"
    by blast
  from surrogate_key_of_joined_text
    [of "PyStr ''Coca-Cola''" "PyStr ''Engineer''" "PyStr ''Remote''" _ _ _ _
      "PyStr ''Coca''" "PyStr ''Cola-Engineer''" "PyStr ''Remote''"] t
  have b: "unique_job_id (PyStr ''Coca-Cola'') (PyStr ''Engineer'') (PyStr ''Remote'')
     = unique_job_id (PyStr ''Coca'') (PyStr ''Cola-Engineer'') (PyStr ''Remote'')"
    by blast
  from surrogate_key_of_joined_text
    [of _ _ _ _ _ _ _ _ _ _
      "[(''api_id'', [PyStr ''1'']), (''company'', [PyStr ''Acme'']),
        (''position'', [PyStr ''Engineer'']), (''location'', [PyStr ''Remote''])]" _
      "[(''api_id'', [PyStr ''2'']), (''company'', [PyStr ''Acme'']),
        (''position'', [PyStr ''Engineer'']), (''location'', [PyStr ''Remote''])]"]
    assign_keys_example [of "''1''"] assign_keys_example [of "''2''"]
    m [of "''company''"] m [of "''position''"] m [of "''location''"]
  have c: "map_of [(''api_id'', [PyStr ''1'']), (''company'', [PyStr ''Acme'']),
          (''position'', [PyStr ''Engineer'']), (''location'', [PyStr ''Remote'']),
          (''unique_job_id'', [PyStr (hexdigest (sha256 (encode ''Acme-Engineer-Remote'')))])]
        ''unique_job_id''
     = map_of [(''api_id'', [PyStr ''2'']), (''company'', [PyStr ''Acme'']),
          (''position'', [PyStr ''Engineer'']), (''location'', [PyStr ''Remote'']),
          (''unique_job_id'', [PyStr (hexdigest (sha256 (encode ''Acme-Engineer-Remote'')))])]
        ''unique_job_id''"
    by blast
  from a b c show ?thesis by blast
qed

text \<open>
  Claim C1 as stated fails where it promises different keys for different triples: the
  joined text does not separate its parts, so the triples (\<^verbatim>\<open>Coca-Cola\<close>,
  \<^verbatim>\<open>Engineer\<close>, \<^verbatim>\<open>Remote\<close>) and (\<^verbatim>\<open>Coca\<close>, \<^verbatim>\<open>Cola-Engineer\<close>, \<^verbatim>\<open>Remote\<close>) differ and
  always get one key. So do \<^verbatim>\<open>None\<close> and the text \<^verbatim>\<open>"None"\<close>.
\<close>

theorem surrogate_key_collision_counterexample:
  "(PyStr ''Coca-Cola'', PyStr ''Engineer'', PyStr ''Remote'')
     \<noteq> (PyStr ''Coca'', PyStr ''Cola-Engineer'', PyStr ''Remote'')
   \<and> unique_job_id (PyStr ''Coca-Cola'') (PyStr ''Engineer'') (PyStr ''Remote'')
     = unique_job_id (PyStr ''Coca'') (PyStr ''Cola-Engineer'') (PyStr ''Remote'')
   \<and> unique_job_id PyNone (PyStr ''Engineer'') (PyStr ''Remote'')
     = unique_job_id (PyStr ''None'') (PyStr ''Engineer'') (PyStr ''Remote'')"
  by (simp add: unique_job_id_def key_text_def)

lemma rows_of_hd: "map hd (rows_of ((c, xs) # rest)) = xs"
  by (simp add: rows_of_def n_rows_def comp_def map_nth)

lemma select_cols_head:
  assumes "select_cols df (c # cs) = Inr df'"
  shows "\<exists>xs rest. map_of df c = Some xs \<and> df' = (c, xs) # rest"
  using assms unfolding select_cols_def
  by (auto simp: bnd_def get_col_def split: option.splits sum.splits)

lemma key_cells_are_text:
  assumes "map_res (\<lambda>(c, p, l). bnd (unique_job_id c p l) (\<lambda>k. Inr (PyStr k))) zs = Inr ks"
  shows "map nan_to_none ks = ks"
proof -
  have "\<exists>s. k = PyStr s" if "k \<in> set ks" for k
    using map_res_Inr_set [OF assms that] by (auto dest!: bnd_Inr)
  then have "nan_to_none k = k" if "k \<in> set ks" for k
    using that by fastforce
  then show ?thesis
    by (intro map_idI)
qed

lemma keyed_rows_keys:
  assumes "keyed_rows (''unique_job_id'' # cols) df = Inr rows"
  shows "\<exists>cs ps ls. map_of df ''company'' = Some cs \<and> map_of df ''position'' = Some ps
     \<and> map_of df ''location'' = Some ls
     \<and> map_res (\<lambda>(c, p, l). bnd (unique_job_id c p l) (\<lambda>k. Inr (PyStr k))) (zip cs (zip ps ls))
         = Inr (map hd rows)"
proof -
  from assms obtain df1 df2 where a: "assign_keys df = Inr df1"
    and s: "select_cols df1 (''unique_job_id'' # cols) = Inr df2"
    and r: "rows = rows_of (where_notnull df2)"
    unfolding keyed_rows_def by (auto dest!: bnd_Inr)
  from assign_keys_Inr [OF a] obtain cs ps ls ks where
    cols: "map_of df ''company'' = Some cs" "map_of df ''position'' = Some ps"
      "map_of df ''location'' = Some ls"
    and ks: "map_res (\<lambda>(c, p, l). bnd (unique_job_id c p l) (\<lambda>k. Inr (PyStr k)))
               (zip cs (zip ps ls)) = Inr ks"
    and m: "map_of df1 = (map_of df)(''unique_job_id'' \<mapsto> ks)"
    by blast
  from select_cols_head [OF s] m obtain rest where "df2 = (''unique_job_id'', ks) # rest"
    by auto
  then have "map hd rows = map nan_to_none ks"
    by (simp add: r where_notnull_def rows_of_hd)
  with key_cells_are_text [OF ks] ks cols show ?thesis by simp
qed

lemma remdups_append_subset: "set xs \<subseteq> set ys \<Longrightarrow> remdups (xs @ ys) = remdups ys"
  by (induction xs) auto

lemma first_keys:
  assumes "distinct K" and "\<forall>d\<in>set ds. map fst d = K" and that: "map fst d = K"
  shows "rev (remdups (rev (concat (map (map fst) (d # ds))))) = map fst d"
proof -
  have "set (concat (map (map fst) ds)) \<subseteq> set K"
    using assms(2) by auto
  then have "remdups (rev (concat (map (map fst) ds)) @ rev K) = remdups (rev K)"
    by (intro remdups_append_subset) simp
  with assms(1) that show ?thesis
    by (simp add: distinct_remdups_id)
qed

lemma remoteok_job_info_Inr:
  assumes "remoteok_job_info job = Inr info"
  shows "\<exists>d kvs. job = PyDict d \<and> info = PyDict kvs \<and> map fst kvs = remoteok_cols
     \<and> cell_of kvs ''id'' = dict_get d ''id''"
  using assms
  by (cases job) (auto dest!: bnd_Inr simp: remoteok_cols_def cell_of_def)

lemma remoteok_infos:
  assumes "map_res remoteok_job_info jobs = Inr infos"
  shows "\<exists>ds. map_res un_dict infos = Inr ds \<and> (\<forall>d\<in>set ds. map fst d = remoteok_cols)
     \<and> list_all2 (\<lambda>job kvs. \<exists>d. job = PyDict d \<and> cell_of kvs ''id'' = dict_get d ''id'') jobs ds"
  using assms
proof (induction jobs arbitrary: infos)
  case Nil
  then show ?case by simp
next
  case (Cons job jobs)
  from Cons.prems obtain info infos' where i: "remoteok_job_info job = Inr info"
    and r: "map_res remoteok_job_info jobs = Inr infos'" and e: "infos = info # infos'"
    by (auto split: sum.splits)
  from remoteok_job_info_Inr [OF i] obtain d kvs where
    "job = PyDict d" "info = PyDict kvs" "map fst kvs = remoteok_cols"
    "cell_of kvs ''id'' = dict_get d ''id''"
    by blast
  moreover from Cons.IH [OF r] obtain ds where "map_res un_dict infos' = Inr ds"
    "\<forall>d\<in>set ds. map fst d = remoteok_cols"
    "list_all2 (\<lambda>job kvs. \<exists>d. job = PyDict d \<and> cell_of kvs ''id'' = dict_get d ''id'') jobs ds"
    by blast
  ultimately show ?case
    by (intro exI [of _ "kvs # ds"]) (simp add: e)
qed

lemma set_col_head_other:
  "c' \<noteq> c \<Longrightarrow> \<exists>rest'. set_col ((c, xs) # rest) c' v = (c, xs) # rest'"
  by (simp add: set_col_def)

lemma set_col_head_same: "\<exists>rest'. set_col ((c, xs) # rest) c v = (c, v) # rest'"
  by (simp add: set_col_def)

lemma map_col_head_other:
  assumes "map_col c' f ((c, xs) # rest) = Inr df'" and "c' \<noteq> c"
  shows "\<exists>rest'. df' = (c, xs) # rest'"
  using assms set_col_head_other [of c' c xs rest]
  unfolding map_col_def by (fastforce dest!: bnd_Inr)

lemma map_col_head_same:
  assumes "map_col c f ((c, xs) # rest) = Inr df'"
  shows "\<exists>ys rest'. map_res f xs = Inr ys \<and> df' = (c, ys) # rest'"
  using assms set_col_head_same [of c xs rest]
  unfolding map_col_def by (fastforce dest!: bnd_Inr simp: get_col_def)

lemma astype_str_cells:
  assumes "map_res astype_str xs = Inr ys"
  shows "list_all2 (\<lambda>x y. \<exists>s. py_str x = Some s \<and> y = PyStr s) xs ys \<and> map nan_to_none ys = ys"
  using assms
  by (induction xs arbitrary: ys) (auto simp: astype_str_def split: sum.splits option.splits)

lemma remoteok_keys:
  assumes "remoteok_transform jobs = Inr df"
  shows "list_all2 (\<lambda>job key. \<exists>d s. job = PyDict d \<and> py_str (dict_get d ''id'') = Some s
           \<and> key = PyStr s) jobs (map hd (rows_of df))"
proof -
  let ?sal = "\<lambda>v. bnd (remoteok_salary v) (\<lambda>i. Inr (PyInt i))"
  from assms obtain infos df0 df1 df2 df3 where
    i: "map_res remoteok_job_info jobs = Inr infos"
    and f: "from_records infos = Inr df0"
    and a: "map_col ''id'' astype_str df0 = Inr df1"
    and b: "map_col ''salary_min'' ?sal df1 = Inr df2"
    and c: "map_col ''salary_max'' ?sal df2 = Inr df3"
    and df: "df = where_notnull df3"
    unfolding remoteok_transform_def by (blast dest!: bnd_Inr)
  from remoteok_infos [OF i] obtain ds where
    ds: "map_res un_dict infos = Inr ds" "\<forall>d\<in>set ds. map fst d = remoteok_cols"
    and rel: "list_all2 (\<lambda>job kvs. \<exists>d. job = PyDict d \<and> cell_of kvs ''id'' = dict_get d ''id'')
                jobs ds"
    by blast
  from f ds(1) have df0: "df0 = map (\<lambda>c. (c, map (\<lambda>d. cell_of d c) ds))
      (rev (remdups (rev (concat (map (map fst) ds)))))"
    by (simp add: from_records_def bnd_def)
  have "ds \<noteq> []"
  proof
    assume "ds = []"
    with df0 a show False by (simp add: map_col_def get_col_def bnd_def)
  qed
  then obtain d ds' where dd: "ds = d # ds'" by (cases ds) auto
  have "distinct remoteok_cols" by (simp add: remoteok_cols_def)
  from first_keys [OF this, of ds' d] ds(2) dd
  have "rev (remdups (rev (concat (map (map fst) ds)))) = remoteok_cols"
    by simp
  with df0 obtain rest0 where "df0 = (''id'', map (\<lambda>d. cell_of d ''id'') ds) # rest0"
    by (simp add: remoteok_cols_def)
  with map_col_head_same a obtain ys rest1 where
    ys: "map_res astype_str (map (\<lambda>d. cell_of d ''id'') ds) = Inr ys"
    and df1: "df1 = (''id'', ys) # rest1"
    by blast
  from map_col_head_other b df1 obtain rest2 where df2: "df2 = (''id'', ys) # rest2"
    by blast
  from map_col_head_other c df2 obtain rest3 where "df3 = (''id'', ys) # rest3"
    by blast
  then have "map hd (rows_of df) = map nan_to_none ys"
    by (simp add: df where_notnull_def rows_of_hd)
  with astype_str_cells [OF ys]
  have "list_all2 (\<lambda>x y. \<exists>s. py_str x = Some s \<and> y = PyStr s)
          (map (\<lambda>d. cell_of d ''id'') ds) (map hd (rows_of df))"
    by simp
  then have "list_all2 (\<lambda>kvs y. \<exists>s. py_str (cell_of kvs ''id'') = Some s \<and> y = PyStr s)
          ds (map hd (rows_of df))"
    by (simp add: list_all2_map1)
  from list_all2_trans [where ?P1.0 = "\<lambda>job kvs. \<exists>d. job = PyDict d \<and> cell_of kvs ''id'' = dict_get d ''id''"
      and ?P2.0 = "\<lambda>kvs y. \<exists>s. py_str (cell_of kvs ''id'') = Some s \<and> y = PyStr s"
      and ?P3.0 = "\<lambda>job key. \<exists>d s. job = PyDict d \<and> py_str (dict_get d ''id'') = Some s \<and> key = PyStr s",
      OF _ rel this]
  show ?thesis by fastforce
qed

lemma keyed_rows_adzuna_example:
  "keyed_rows adzuna_table_cols
     [(''api_id'', [PyNone]), (''date_posted'', [PyNone]), (''company'', [PyStr ''Acme'']),
      (''position'', [PyStr ''Dev'']), (''location'', [PyStr ''India, Delhi'']),
      (''category'', [PyStr ''IT Jobs'']), (''salary_min'', [PyInt 0]),
      (''salary_max'', [PyInt 0]), (''redirect_url'', [PyNone])]
   = Inr [[PyStr (hexdigest (sha256 (encode ''Acme-Dev-India, Delhi''))), PyNone, PyNone,
           PyStr ''Acme'', PyStr ''Dev'', PyStr ''India, Delhi'', PyStr ''IT Jobs'',
           PyInt 0, PyInt 0, PyNone]]"
proof -
  have a: "assign_keys
     [(''api_id'', [PyNone]), (''date_posted'', [PyNone]), (''company'', [PyStr ''Acme'']),
      (''position'', [PyStr ''Dev'']), (''location'', [PyStr ''India, Delhi'']),
      (''category'', [PyStr ''IT Jobs'']), (''salary_min'', [PyInt 0]),
      (''salary_max'', [PyInt 0]), (''redirect_url'', [PyNone])]
   = Inr [(''api_id'', [PyNone]), (''date_posted'', [PyNone]), (''company'', [PyStr ''Acme'']),
      (''position'', [PyStr ''Dev'']), (''location'', [PyStr ''India, Delhi'']),
      (''category'', [PyStr ''IT Jobs'']), (''salary_min'', [PyInt 0]),
      (''salary_max'', [PyInt 0]), (''redirect_url'', [PyNone]),
      (''unique_job_id'', [PyStr (hexdigest (sha256 (encode ''Acme-Dev-India, Delhi'')))])]"
    by (simp add: assign_keys_def get_col_def set_col_def bnd_def unique_job_id_def key_text_def)
  show ?thesis
    unfolding keyed_rows_def a
    by (simp add: bnd_def select_cols_def adzuna_table_cols_def get_col_def where_notnull_def
        rows_of_def n_rows_def)
qed

lemma keyed_rows_jooble_example:
  "keyed_rows jooble_table_cols
     [(''api_id'', [PyNone]), (''date_posted'', [PyNone]), (''company'', [PyNone]),
      (''position'', [PyStr ''Dev'']), (''location'', [PyNone]), (''tags'', [PyNone]),
      (''salary_min'', [PyInt 50000]), (''salary_max'', [PyInt 50000]), (''url'', [PyNone])]
   = Inr [[PyStr (hexdigest (sha256 (encode ''None-Dev-None''))), PyNone, PyNone,
           PyNone, PyStr ''Dev'', PyNone, PyNone, PyInt 50000, PyInt 50000, PyNone]]"
proof -
  have a: "assign_keys
     [(''api_id'', [PyNone]), (''date_posted'', [PyNone]), (''company'', [PyNone]),
      (''position'', [PyStr ''Dev'']), (''location'', [PyNone]), (''tags'', [PyNone]),
      (''salary_min'', [PyInt 50000]), (''salary_max'', [PyInt 50000]), (''url'', [PyNone])]
   = Inr [(''api_id'', [PyNone]), (''date_posted'', [PyNone]), (''company'', [PyNone]),
      (''position'', [PyStr ''Dev'']), (''location'', [PyNone]), (''tags'', [PyNone]),
      (''salary_min'', [PyInt 50000]), (''salary_max'', [PyInt 50000]), (''url'', [PyNone]),
      (''unique_job_id'', [PyStr (hexdigest (sha256 (encode ''None-Dev-None'')))])]"
    by (simp add: assign_keys_def get_col_def set_col_def bnd_def unique_job_id_def key_text_def)
  show ?thesis
    unfolding keyed_rows_def a
    by (simp add: bnd_def select_cols_def jooble_table_cols_def get_col_def where_notnull_def
        rows_of_def n_rows_def)
qed

text \<open>
  Claim C2, as the code has it. In the Adzuna and Jooble pipelines the primary key of
  every row handed to the \<^verbatim>\<open>MERGE\<close> is the hex key derived from that row's company,
  position and location. In the RemoteOK pipeline there is no derived key: the primary
  key is the provider's own \<^verbatim>\<open>id\<close>, as text.
\<close>

theorem primary_key_per_provider:
  "(keyed_rows adzuna_table_cols da = Inr ra \<longrightarrow>
      (\<exists>cs ps ls. map_of da ''company'' = Some cs \<and> map_of da ''position'' = Some ps
         \<and> map_of da ''location'' = Some ls
         \<and> map_res (\<lambda>(c, p, l). bnd (unique_job_id c p l) (\<lambda>k. Inr (PyStr k)))
              (zip cs (zip ps ls)) = Inr (map hd ra)))
   \<and> (keyed_rows jooble_table_cols dj = Inr rj \<longrightarrow>
      (\<exists>cs ps ls. map_of dj ''company'' = Some cs \<and> map_of dj ''position'' = Some ps
         \<and> map_of dj ''location'' = Some ls
         \<and> map_res (\<lambda>(c, p, l). bnd (unique_job_id c p l) (\<lambda>k. Inr (PyStr k)))
              (zip cs (zip ps ls)) = Inr (map hd rj)))
   \<and> (remoteok_transform jobs = Inr dr \<longrightarrow>
      list_all2 (\<lambda>job key. \<exists>d s. job = PyDict d \<and> py_str (dict_get d ''id'') = Some s
           \<and> key = PyStr s) jobs (map hd (rows_of dr)))"
  using keyed_rows_keys [of _ da ra] keyed_rows_keys [of _ dj rj] remoteok_keys [of jobs dr]
  unfolding adzuna_table_cols_def jooble_table_cols_def
  by blast

theorem primary_key_per_provider_witness:
  "(\<exists>cs ps ls. map_res (\<lambda>(c, p, l). bnd (unique_job_id c p l) (\<lambda>k. Inr (PyStr k)))
        (zip cs (zip ps ls))
      = Inr (map hd [[PyStr (hexdigest (sha256 (encode ''Acme-Dev-India, Delhi''))), PyNone,
           PyNone, PyStr ''Acme'', PyStr ''Dev'', PyStr ''India, Delhi'', PyStr ''IT Jobs'',
           PyInt 0, PyInt 0, PyNone]]))
   \<and> (\<exists>cs ps ls. map_res (\<lambda>(c, p, l). bnd (unique_job_id c p l) (\<lambda>k. Inr (PyStr k)))
        (zip cs (zip ps ls))
      = Inr (map hd [[PyStr (hexdigest (sha256 (encode ''None-Dev-None''))), PyNone, PyNone,
           PyNone, PyStr ''Dev'', PyNone, PyNone, PyInt 50000, PyInt 50000, PyNone]]))
   \<and> list_all2 (\<lambda>job key. \<exists>d s. job = PyDict d \<and> py_str (dict_get d ''id'') = Some s
           \<and> key = PyStr s)
       [PyDict [(''id'', PyStr ''123''), (''company'', PyStr ''Acme''),
                (''tags'', PyList [PyStr ''python'']), (''salary_min'', PyInt (- 5))]]
       (map hd (rows_of
          [(''id'', [PyStr ''123'']), (''date_posted'', [PyNone]), (''company'', [PyStr ''Acme'']),
           (''position'', [PyNone]), (''location'', [PyNone]), (''tags'', [PyStr ''python'']),
           (''salary_min'', [PyInt (- 5)]), (''salary_max'', [PyInt 0]), (''url'', [PyNone])]))"
  using primary_key_per_provider [THEN conjunct1, rule_format, OF keyed_rows_adzuna_example]
    primary_key_per_provider [THEN conjunct2, THEN conjunct1, rule_format,
      OF keyed_rows_jooble_example]
    primary_key_per_provider [THEN conjunct2, THEN conjunct2, rule_format,
      OF remoteok_transform_example]
  by blast

text \<open>
  Claim C2 as stated fails for RemoteOK: the listing with \<^verbatim>\<open>id\<close> \<^verbatim>\<open>"123"\<close> is keyed by
  \<^verbatim>\<open>"123"\<close>, which the provider supplied and which is no digest of its company,
  position and location.
\<close>

theorem remoteok_primary_key_counterexample:
  "remoteok_transform
     [PyDict [(''id'', PyStr ''123''), (''company'', PyStr ''Acme''),
              (''tags'', PyList [PyStr ''python'']), (''salary_min'', PyInt (- 5))]]
   = Inr [(''id'', [PyStr ''123'']), (''date_posted'', [PyNone]), (''company'', [PyStr ''Acme'']),
          (''position'', [PyNone]), (''location'', [PyNone]), (''tags'', [PyStr ''python'']),
          (''salary_min'', [PyInt (- 5)]), (''salary_max'', [PyInt 0]), (''url'', [PyNone])]
   \<and> map hd (rows_of
         [(''id'', [PyStr ''123'']), (''date_posted'', [PyNone]), (''company'', [PyStr ''Acme'']),
          (''position'', [PyNone]), (''location'', [PyNone]), (''tags'', [PyStr ''python'']),
          (''salary_min'', [PyInt (- 5)]), (''salary_max'', [PyInt 0]), (''url'', [PyNone])])
     = [PyStr ''123'']
   \<and> unique_job_id (PyStr ''Acme'') PyNone PyNone \<noteq> Inr ''123''"
proof -
  have "unique_job_id (PyStr ''Acme'') PyNone PyNone
        = Inr (hexdigest (sha256 (encode ''Acme-None-None'')))"
    by (simp add: unique_job_id_def key_text_def)
  moreover have "hexdigest (sha256 (encode ''Acme-None-None'')) \<noteq> ''123''"
    using hexdigest_length [of "sha256 (encode ''Acme-None-None'')"] by auto
  ultimately show ?thesis
    using remoteok_transform_example by (simp add: rows_of_hd)
qed

lemma load_keyed_handled:
  assumes "idle w" and "\<not> df_empty df" and "keyed_rows cols df = Inr rows"
    and "fails f (length rows)"
  shows "handled w (load_keyed cols df f w)"
proof (cases "cursor_fault f")
  case (Some x)
  with assms show ?thesis
    by (simp add: handled_def load_keyed_def bind_io_def emit_def try_finally_def
        try_except_def cursor_def db_call_def rollback_def close_cursor_def idle_def)
next
  case c: None
  show ?thesis
  proof (cases "create_fault f")
    case (Some x)
    with c assms show ?thesis
      by (simp add: handled_def load_keyed_def bind_io_def emit_def try_finally_def
          try_except_def cursor_def execute_create_def db_call_def rollback_def
          close_cursor_def idle_def)
  next
    case t: None
    show ?thesis
    proof (cases "commit1_fault f")
      case (Some x)
      with c t assms show ?thesis
        by (simp add: handled_def load_keyed_def bind_io_def emit_def try_finally_def
            try_except_def cursor_def execute_create_def commit_def db_call_def rollback_def
            close_cursor_def idle_def)
    next
      case c1: None
      show ?thesis
      proof (cases "merge_fault f")
        case (Some kx)
        obtain k x where kx: "kx = (k, x)" by (cases kx)
        show ?thesis
        proof (cases "k < length rows")
          case True
          with Some kx c t c1 assms show ?thesis
            by (simp add: handled_def load_keyed_def bind_io_def emit_def try_finally_def
                try_except_def cursor_def execute_create_def commit_def executemany_def lift_def
                db_call_def rollback_def close_cursor_def idle_def table_rows_def
                split: option.splits)
        next
          case False
          with Some kx c t c1 assms obtain y where "commit2_fault f = Some y"
            by (auto simp: fails_def)
          with False Some kx c t c1 assms show ?thesis
            by (simp add: handled_def load_keyed_def bind_io_def emit_def try_finally_def
                try_except_def cursor_def execute_create_def commit_def executemany_def lift_def
                db_call_def rollback_def close_cursor_def idle_def table_rows_def
                split: option.splits)
        qed
      next
        case m: None
        with c t c1 assms obtain y where "commit2_fault f = Some y"
          by (auto simp: fails_def)
        with m c t c1 assms show ?thesis
          by (simp add: handled_def load_keyed_def bind_io_def emit_def try_finally_def
              try_except_def cursor_def execute_create_def commit_def executemany_def lift_def
              db_call_def rollback_def close_cursor_def idle_def table_rows_def
              split: option.splits)
      qed
    qed
  qed
qed

lemma load_data_to_sql_handled:
  assumes "idle w" and "only_pyodbc f" and "rows = rows_of df"
    and "fails f (length rows)"
  shows "handled w (load_data_to_sql df f w)"
proof (cases "cursor_fault f")
  case (Some x)
  with assms show ?thesis
    by (simp add: handled_def load_data_to_sql_def only_pyodbc_def bind_io_def emit_def try_finally_def
        try_except_def cursor_def db_call_def rollback_def close_cursor_def idle_def)
next
  case c: None
  show ?thesis
  proof (cases "create_fault f")
    case (Some x)
    with c assms show ?thesis
      by (simp add: handled_def load_data_to_sql_def only_pyodbc_def bind_io_def emit_def try_finally_def
          try_except_def cursor_def execute_create_def db_call_def rollback_def
          close_cursor_def idle_def)
  next
    case t: None
    show ?thesis
    proof (cases "commit1_fault f")
      case (Some x)
      with c t assms show ?thesis
        by (simp add: handled_def load_data_to_sql_def only_pyodbc_def bind_io_def emit_def try_finally_def
            try_except_def cursor_def execute_create_def commit_def db_call_def rollback_def
            close_cursor_def idle_def)
    next
      case c1: None
      show ?thesis
      proof (cases "merge_fault f")
        case (Some kx)
        obtain k x where kx: "kx = (k, x)" by (cases kx)
        show ?thesis
        proof (cases "k < length rows")
          case True
          with Some kx c t c1 assms show ?thesis
            by (simp add: handled_def load_data_to_sql_def only_pyodbc_def bind_io_def emit_def try_finally_def
                try_except_def cursor_def execute_create_def commit_def executemany_def lift_def
                db_call_def rollback_def close_cursor_def idle_def table_rows_def
                split: option.splits)
        next
          case False
          with Some kx c t c1 assms obtain y where "commit2_fault f = Some y"
            by (auto simp: fails_def only_pyodbc_def)
          with False Some kx c t c1 assms show ?thesis
            by (simp add: handled_def load_data_to_sql_def only_pyodbc_def bind_io_def emit_def try_finally_def
                try_except_def cursor_def execute_create_def commit_def executemany_def lift_def
                db_call_def rollback_def close_cursor_def idle_def table_rows_def
                split: option.splits)
        qed
      next
        case m: None
        with c t c1 assms obtain y where "commit2_fault f = Some y"
          by (auto simp: fails_def only_pyodbc_def)
        with m c t c1 assms show ?thesis
          by (simp add: handled_def load_data_to_sql_def only_pyodbc_def bind_io_def emit_def try_finally_def
              try_except_def cursor_def execute_create_def commit_def executemany_def lift_def
              db_call_def rollback_def close_cursor_def idle_def table_rows_def
              split: option.splits)
      qed
    qed
  qed
qed


text \<open>
  Claim C4, as the code has it. When a call of the load step fails (opening the cursor,
  creating the table, a commit or the upsert), the Adzuna and Jooble steps catch any
  exception, and the RemoteOK step any \<^verbatim>\<open>pyodbc.Error\<close>: the step returns, the error is
  printed, the transaction is rolled back once so that no row of the batch is committed
  or pending, the cursor is closed and no statement is run again.
\<close>

theorem load_failure_rolled_back:
  "(idle w \<and> \<not> df_empty da \<and> keyed_rows adzuna_table_cols da = Inr ra
      \<and> fails f (length ra) \<longrightarrow> handled w (load_adzuna_to_sql da f w))
   \<and> (idle w \<and> \<not> df_empty dj \<and> keyed_rows jooble_table_cols dj = Inr rj
      \<and> fails f (length rj) \<longrightarrow> handled w (load_jooble_to_sql dj f w))
   \<and> (idle w \<and> only_pyodbc f \<and> fails f (length (rows_of dr))
      \<longrightarrow> handled w (load_data_to_sql dr f w))"
  using load_keyed_handled [of w da adzuna_table_cols ra f]
    load_keyed_handled [of w dj jooble_table_cols rj f]
    load_data_to_sql_handled [of w f "rows_of dr" dr]
  unfolding load_adzuna_to_sql_def load_jooble_to_sql_def
  by blast

theorem load_failure_rolled_back_witness:
  "handled \<lparr>trace = [], committed = None, session = None, cursor_open = False, conn_open = True\<rparr>
     (load_adzuna_to_sql
        [(''api_id'', [PyNone]), (''date_posted'', [PyNone]), (''company'', [PyStr ''Acme'']),
         (''position'', [PyStr ''Dev'']), (''location'', [PyStr ''India, Delhi'']),
         (''category'', [PyStr ''IT Jobs'']), (''salary_min'', [PyInt 0]),
         (''salary_max'', [PyInt 0]), (''redirect_url'', [PyNone])]
        \<lparr>cursor_fault = None, create_fault = None, commit1_fault = None,
          merge_fault = Some (0, PyodbcError), commit2_fault = None\<rparr>
        \<lparr>trace = [], committed = None, session = None, cursor_open = False, conn_open = True\<rparr>)
   \<and> handled \<lparr>trace = [], committed = None, session = None, cursor_open = False, conn_open = True\<rparr>
     (load_jooble_to_sql
        [(''api_id'', [PyNone]), (''date_posted'', [PyNone]), (''company'', [PyNone]),
         (''position'', [PyStr ''Dev'']), (''location'', [PyNone]), (''tags'', [PyNone]),
         (''salary_min'', [PyInt 50000]), (''salary_max'', [PyInt 50000]), (''url'', [PyNone])]
        \<lparr>cursor_fault = None, create_fault = None, commit1_fault = None,
          merge_fault = Some (0, PyodbcError), commit2_fault = None\<rparr>
        \<lparr>trace = [], committed = None, session = None, cursor_open = False, conn_open = True\<rparr>)
   \<and> handled \<lparr>trace = [], committed = None, session = None, cursor_open = False, conn_open = True\<rparr>
     (load_data_to_sql
        [(''id'', [PyStr ''123'']), (''date_posted'', [PyNone]), (''company'', [PyStr ''Acme'']),
         (''position'', [PyNone]), (''location'', [PyNone]), (''tags'', [PyStr ''python'']),
         (''salary_min'', [PyInt (- 5)]), (''salary_max'', [PyInt 0]), (''url'', [PyNone])]
        \<lparr>cursor_fault = None, create_fault = None, commit1_fault = None,
          merge_fault = Some (0, PyodbcError), commit2_fault = None\<rparr>
        \<lparr>trace = [], committed = None, session = None, cursor_open = False, conn_open = True\<rparr>)"
proof -
  let ?w = "\<lparr>trace = [], committed = None, session = None, cursor_open = False, conn_open = True\<rparr>"
  let ?f = "\<lparr>cursor_fault = None, create_fault = None, commit1_fault = None,
          merge_fault = Some (0, PyodbcError), commit2_fault = None\<rparr>"
  have w: "idle ?w"
    by (simp add: idle_def)
  have f: "fails ?f (length [x])" "only_pyodbc ?f" for x :: "pyval list"
    by (simp_all add: fails_def only_pyodbc_def)
  have e: "\<not> df_empty
        [(''api_id'', [PyNone]), (''date_posted'', [PyNone]), (''company'', [PyStr ''Acme'']),
         (''position'', [PyStr ''Dev'']), (''location'', [PyStr ''India, Delhi'']),
         (''category'', [PyStr ''IT Jobs'']), (''salary_min'', [PyInt 0]),
         (''salary_max'', [PyInt 0]), (''redirect_url'', [PyNone])]"
    "\<not> df_empty
        [(''api_id'', [PyNone]), (''date_posted'', [PyNone]), (''company'', [PyNone]),
         (''position'', [PyStr ''Dev'']), (''location'', [PyNone]), (''tags'', [PyNone]),
         (''salary_min'', [PyInt 50000]), (''salary_max'', [PyInt 50000]), (''url'', [PyNone])]"
    by (simp_all add: df_empty_def n_rows_def)
  have r: "length (rows_of
        [(''id'', [PyStr ''123'']), (''date_posted'', [PyNone]), (''company'', [PyStr ''Acme'']),
         (''position'', [PyNone]), (''location'', [PyNone]), (''tags'', [PyStr ''python'']),
         (''salary_min'', [PyInt (- 5)]), (''salary_max'', [PyInt 0]), (''url'', [PyNone])])
       = length [[PyNone]]"
    by (simp add: rows_of_def n_rows_def)
  from load_failure_rolled_back [of ?w _ _ ?f, THEN conjunct1, rule_format,
      OF conjI [OF w conjI [OF e(1) conjI [OF keyed_rows_adzuna_example f(1)]]]]
    load_failure_rolled_back [of ?w _ _ ?f, THEN conjunct2, THEN conjunct1, rule_format,
      OF conjI [OF w conjI [OF e(2) conjI [OF keyed_rows_jooble_example f(1)]]]]
    load_failure_rolled_back [of ?w _ _ ?f, THEN conjunct2, THEN conjunct2, rule_format,
      OF conjI [OF w conjI [OF f(2) f(1) [of "[PyNone]", folded r]]]]
  show ?thesis by blast
qed

lemma remoteok_run_memory_error:
  "remoteok_main
     \<lparr>config = Parsed [(''database'', [(''server'', ''localhost''), (''database'', ''jobs'')])],
      connect_fault = None,
      provider = Response 200
        (PyList [PyDict [(''legal'', PyStr ''terms'')],
                 PyDict [(''id'', PyStr ''123''), (''company'', PyStr ''Acme''),
                         (''tags'', PyList [PyStr ''python'']), (''salary_min'', PyInt (- 5))]]),
      db_faults = \<lparr>cursor_fault = None, create_fault = None, commit1_fault = None,
                    merge_fault = Some (0, MemoryError), commit2_fault = None\<rparr>\<rparr>
     (start None)
   = (Inl (Raise MemoryError),
      \<lparr>trace = [Log Starting, HttpRequest, Normalize, Log FetchSuccess, Log Starting, ReadConfig,
                Connect, Log Connected, Log StartingLoad, OpenCursor, CreateTable, Commit,
                Log TableChecked, Merge, CloseCursor, CloseConnection, Log ConnectionClosed],
       committed = Some [], session = Some [], cursor_open = False, conn_open = False\<rparr>)"
  unfolding remoteok_main_def fetch_remoteok_data_def remoteok_get_db_connection_def
    load_data_to_sql_def
  by (simp add: bind_io_def emit_def ret_def lift_def start_def try_except_def request_def
      remoteok_transform_example df_empty_def n_rows_def try_finally_def read_config_def
      getitem_def close_conn_def connect_def db_call_def cursor_def execute_create_def
      commit_def executemany_def close_cursor_def rows_of_def)

text \<open>
  Claim C4 as stated fails for RemoteOK when the failure is not a \<^verbatim>\<open>pyodbc.Error\<close>: a
  \<^verbatim>\<open>MemoryError\<close> out of \<^verbatim>\<open>executemany\<close> passes the \<^verbatim>\<open>except pyodbc.Error\<close> clause,
  nothing is printed or rolled back, and the exception leaves the load step and, once
  cursor and connection are closed, the driver.
\<close>

theorem remoteok_load_uncaught_counterexample:
  "load_data_to_sql
     [(''id'', [PyStr ''123'']), (''date_posted'', [PyNone]), (''company'', [PyStr ''Acme'']),
      (''position'', [PyNone]), (''location'', [PyNone]), (''tags'', [PyStr ''python'']),
      (''salary_min'', [PyInt (- 5)]), (''salary_max'', [PyInt 0]), (''url'', [PyNone])]
     \<lparr>cursor_fault = None, create_fault = None, commit1_fault = None,
       merge_fault = Some (0, MemoryError), commit2_fault = None\<rparr>
     \<lparr>trace = [], committed = None, session = None, cursor_open = False, conn_open = True\<rparr>
   = (Inl (Raise MemoryError),
      \<lparr>trace = [Log StartingLoad, OpenCursor, CreateTable, Commit, Log TableChecked, Merge,
                CloseCursor],
        committed = Some [], session = Some [], cursor_open = False, conn_open = True\<rparr>)
   \<and> remoteok_main
     \<lparr>config = Parsed [(''database'', [(''server'', ''localhost''), (''database'', ''jobs'')])],
      connect_fault = None,
      provider = Response 200
        (PyList [PyDict [(''legal'', PyStr ''terms'')],
                 PyDict [(''id'', PyStr ''123''), (''company'', PyStr ''Acme''),
                         (''tags'', PyList [PyStr ''python'']), (''salary_min'', PyInt (- 5))]]),
      db_faults = \<lparr>cursor_fault = None, create_fault = None, commit1_fault = None,
                    merge_fault = Some (0, MemoryError), commit2_fault = None\<rparr>\<rparr>
     (start None)
   = (Inl (Raise MemoryError),
      \<lparr>trace = [Log Starting, HttpRequest, Normalize, Log FetchSuccess, Log Starting, ReadConfig,
                Connect, Log Connected, Log StartingLoad, OpenCursor, CreateTable, Commit,
                Log TableChecked, Merge, CloseCursor, CloseConnection, Log ConnectionClosed],
       committed = Some [], session = Some [], cursor_open = False, conn_open = False\<rparr>)"
proof -
  have "load_data_to_sql
     [(''id'', [PyStr ''123'']), (''date_posted'', [PyNone]), (''company'', [PyStr ''Acme'']),
      (''position'', [PyNone]), (''location'', [PyNone]), (''tags'', [PyStr ''python'']),
      (''salary_min'', [PyInt (- 5)]), (''salary_max'', [PyInt 0]), (''url'', [PyNone])]
     \<lparr>cursor_fault = None, create_fault = None, commit1_fault = None,
       merge_fault = Some (0, MemoryError), commit2_fault = None\<rparr>
     \<lparr>trace = [], committed = None, session = None, cursor_open = False, conn_open = True\<rparr>
   = (Inl (Raise MemoryError),
      \<lparr>trace = [Log StartingLoad, OpenCursor, CreateTable, Commit, Log TableChecked, Merge,
                CloseCursor],
        committed = Some [], session = Some [], cursor_open = False, conn_open = True\<rparr>)"
    by (simp add: load_data_to_sql_def bind_io_def emit_def try_finally_def try_except_def
        cursor_def execute_create_def commit_def executemany_def db_call_def close_cursor_def
        rows_of_def n_rows_def)
  with remoteok_run_memory_error show ?thesis by blast
qed

lemma py_get_Inl: "py_get v k d = Inl e \<Longrightarrow> e = Raise AttributeError"
  by (cases v) auto

lemma fetch_listing_trace:
  assumes "fetch_listing key transform h w = (r, w')"
  shows "(w' = w\<lparr>trace := trace w @ [Log Starting, HttpRequest, Log ApiError]\<rparr> \<and> r = Inr [])
     \<or> (w' = w\<lparr>trace := trace w @ [Log Starting, HttpRequest, Log NoJobsWarning]\<rparr> \<and> r = Inr [])
     \<or> (w' = w\<lparr>trace := trace w @ [Log Starting, HttpRequest]\<rparr>
         \<and> r = Inl (Raise AttributeError))
     \<or> (w' = w\<lparr>trace := trace w @ [Log Starting, HttpRequest, Normalize]\<rparr> \<and> (\<exists>e. r = Inl e))
     \<or> (w' = w\<lparr>trace := trace w @ [Log Starting, HttpRequest, Normalize, Log ApiError]\<rparr>
         \<and> r = Inr [])
     \<or> (w' = w\<lparr>trace := trace w @ [Log Starting, HttpRequest, Normalize, Log FetchSuccess]\<rparr>
         \<and> (\<exists>df. r = Inr df))"
proof (cases h)
  case TransportError
  with assms show ?thesis
    by (auto simp: fetch_listing_def bind_io_def emit_def try_except_def request_def lift_def
        ret_def)
next
  case (Response status body)
  show ?thesis
  proof (cases "400 \<le> status \<and> status < 600")
    case True
    with Response assms show ?thesis
      by (auto simp: fetch_listing_def bind_io_def emit_def try_except_def request_def lift_def
          ret_def)
  next
    case ok: False
    show ?thesis
    proof (cases "py_get body key (PyList [])")
      case (Inl e)
      with py_get_Inl [OF Inl] ok Response assms show ?thesis
        by (auto simp: fetch_listing_def bind_io_def emit_def try_except_def request_def
            lift_def ret_def)
    next
      case (Inr jobs)
      show ?thesis
      proof (cases "truthy jobs")
        case False
        with Inr ok Response assms show ?thesis
          by (auto simp: fetch_listing_def bind_io_def emit_def try_except_def request_def
              lift_def ret_def)
      next
        case True
        note defs = fetch_listing_def bind_io_def emit_def try_except_def request_def
          lift_def ret_def
        show ?thesis
        proof (cases "on_list transform jobs")
          case e: (Inl e)
          show ?thesis
          proof (cases e)
            case (Raise x)
            show ?thesis
            proof (cases "x = RequestException")
              case caught: True
              with Raise e True Inr ok Response assms
              have "w' = w\<lparr>trace := trace w @ [Log Starting, HttpRequest, Normalize, Log ApiError]\<rparr>
                  \<and> r = Inr []"
                by (auto simp: defs)
              then show ?thesis by blast
            next
              case False
              with Raise e True Inr ok Response assms
              have "w' = w\<lparr>trace := trace w @ [Log Starting, HttpRequest, Normalize]\<rparr>
                  \<and> r = Inl e"
                by (auto simp: defs)
              then show ?thesis by blast
            qed
          next
            case Unmodelled
            with e True Inr ok Response assms
            have "w' = w\<lparr>trace := trace w @ [Log Starting, HttpRequest, Normalize]\<rparr>
                \<and> r = Inl e"
              by (auto simp: defs)
            then show ?thesis by blast
          qed
        next
          case df: (Inr df)
          with True Inr ok Response assms
          have "w' = w\<lparr>trace := trace w @ [Log Starting, HttpRequest, Normalize, Log FetchSuccess]\<rparr>
              \<and> r = Inr df"
            by (auto simp: defs)
          then show ?thesis by blast
        qed
      qed
    qed
  qed
qed

lemma load_keyed_trace:
  "conn_open (snd (load_keyed cols df f w)) = conn_open w
   \<and> take (length (trace w)) (trace (snd (load_keyed cols df f w))) = trace w
   \<and> Log Connected \<notin> set (drop (length (trace w)) (trace (snd (load_keyed cols df f w))))
   \<and> filter is_phase (drop (length (trace w)) (trace (snd (load_keyed cols df f w))))
       \<in> {[], [AssignKeys], [AssignKeys, Merge]}
   \<and> (df_empty df \<longrightarrow>
        filter is_phase (drop (length (trace w)) (trace (snd (load_keyed cols df f w)))) = [])"
proof (cases "df_empty df")
  case True
  then show ?thesis
    by (simp add: load_keyed_def bind_io_def emit_def is_phase_def)
next
  case ne: False
  note defs = load_keyed_def bind_io_def emit_def try_finally_def try_except_def cursor_def
    execute_create_def commit_def executemany_def lift_def db_call_def rollback_def
    close_cursor_def is_phase_def
  show ?thesis
  proof (cases "cursor_fault f")
    case (Some x)
    with ne show ?thesis by (simp add: defs)
  next
    case c: None
    show ?thesis
    proof (cases "create_fault f")
      case (Some x)
      with ne c show ?thesis by (simp add: defs)
    next
      case t: None
      show ?thesis
      proof (cases "commit1_fault f")
        case (Some x)
        with ne c t show ?thesis by (simp add: defs)
      next
        case c1: None
        show ?thesis
        proof (cases "keyed_rows cols df")
          case (Inl e)
          with ne c t c1 show ?thesis by (cases e) (simp_all add: defs)
        next
          case (Inr rows)
          show ?thesis
          proof (cases "merge_fault f")
            case (Some kx)
            obtain k x where kx: "kx = (k, x)" by (cases kx)
            show ?thesis
            proof (cases "k < length rows")
              case True
              with Some kx Inr ne c t c1 show ?thesis by (simp add: defs)
            next
              case False
              with Some kx Inr ne c t c1 show ?thesis
                by (cases "commit2_fault f") (simp_all add: defs)
            qed
          next
            case None
            with Inr ne c t c1 show ?thesis
              by (cases "commit2_fault f") (simp_all add: defs)
          qed
        qed
      qed
    qed
  qed
qed

lemma load_data_to_sql_trace:
  "conn_open (snd (load_data_to_sql df f w)) = conn_open w
   \<and> take (length (trace w)) (trace (snd (load_data_to_sql df f w))) = trace w
   \<and> Log Connected \<notin> set (drop (length (trace w)) (trace (snd (load_data_to_sql df f w))))
   \<and> filter is_phase (drop (length (trace w)) (trace (snd (load_data_to_sql df f w))))
       \<in> {[], [Merge]}"
proof -
  note defs = load_data_to_sql_def bind_io_def emit_def try_finally_def try_except_def
    cursor_def execute_create_def commit_def executemany_def lift_def db_call_def rollback_def
    close_cursor_def is_phase_def
  show ?thesis
  proof (cases "cursor_fault f")
    case (Some x)
    then show ?thesis by (simp add: defs)
  next
    case c: None
    show ?thesis
    proof (cases "create_fault f")
      case (Some x)
      with c show ?thesis by (simp add: defs)
    next
      case t: None
      show ?thesis
      proof (cases "commit1_fault f")
        case (Some x)
        with c t show ?thesis by (simp add: defs)
      next
        case c1: None
        show ?thesis
        proof (cases "merge_fault f")
          case (Some kx)
          obtain k x where kx: "kx = (k, x)" by (cases kx)
          show ?thesis
          proof (cases "k < length (rows_of df)")
            case True
            with Some kx c t c1 show ?thesis by (simp add: defs)
          next
            case False
            with Some kx c t c1 show ?thesis
              by (cases "commit2_fault f") (simp_all add: defs)
          qed
        next
          case None
          with c t c1 show ?thesis
            by (cases "commit2_fault f") (simp_all add: defs)
        qed
      qed
    qed
  qed
qed

lemma followsI:
  assumes "k \<le> length order"
    and "filter is_phase tr =
           take k order @ (if Log Connected \<in> set tr then [CloseConnection] else [])"
  shows "follows order tr"
  unfolding follows_def list_ex_iff using assms by (auto intro!: bexI [of _ k])

lemma load_keyed_ext:
  obtains evs where "trace (snd (load_keyed cols df f w)) = trace w @ evs"
    and "conn_open (snd (load_keyed cols df f w)) = conn_open w"
    and "Log Connected \<notin> set evs"
    and "filter is_phase evs \<in> {[], [AssignKeys], [AssignKeys, Merge]}"
    and "df_empty df \<longrightarrow> filter is_phase evs = []"
proof -
  let ?w' = "snd (load_keyed cols df f w)"
  from load_keyed_trace [of cols df f w]
  have "trace ?w' = trace w @ drop (length (trace w)) (trace ?w')"
    by (metis append_take_drop_id)
  with load_keyed_trace [of cols df f w] that show ?thesis by blast
qed

lemma load_data_to_sql_ext:
  obtains evs where "trace (snd (load_data_to_sql df f w)) = trace w @ evs"
    and "conn_open (snd (load_data_to_sql df f w)) = conn_open w"
    and "Log Connected \<notin> set evs"
    and "filter is_phase evs \<in> {[], [Merge]}"
proof -
  let ?w' = "snd (load_data_to_sql df f w)"
  from load_data_to_sql_trace [of df f w]
  have "trace ?w' = trace w @ drop (length (trace w)) (trace ?w')"
    by (metis append_take_drop_id)
  with load_data_to_sql_trace [of df f w] that show ?thesis by blast
qed

lemma to_datetime_empty: "to_datetime [] = Inl (Raise KeyError)"
  by (simp add: to_datetime_def get_col_def bnd_def)

text \<open>The part of the Adzuna and Jooble drivers from the fetch to the load.\<close>

lemma fetch_then_load:
  fixes key transform h cols f
  defines "m \<equiv> bind_io (fetch_listing key transform h) (\<lambda>df.
                 bind_io (lift (to_datetime df)) (\<lambda>df'. load_keyed cols df' f))"
  obtains evs where "trace (snd (m w)) = trace w @ evs"
    and "conn_open (snd (m w)) = conn_open w"
    and "Log Connected \<notin> set evs"
    and "filter is_phase evs \<in> {[HttpRequest], [HttpRequest, Normalize],
           [HttpRequest, Normalize, AssignKeys], [HttpRequest, Normalize, AssignKeys, Merge]}"
proof -
  obtain r w1 where f: "fetch_listing key transform h w = (r, w1)"
    by (cases "fetch_listing key transform h w")
  from fetch_listing_trace [OF f]
  consider (empty) evs where "w1 = w\<lparr>trace := trace w @ evs\<rparr>" "r = Inr []"
      "Log Connected \<notin> set evs"
      "filter is_phase evs = [HttpRequest] \<or> filter is_phase evs = [HttpRequest, Normalize]"
    | (raised) evs e where "w1 = w\<lparr>trace := trace w @ evs\<rparr>" "r = Inl e"
      "Log Connected \<notin> set evs"
      "filter is_phase evs = [HttpRequest] \<or> filter is_phase evs = [HttpRequest, Normalize]"
    | (fetched) df where
      "w1 = w\<lparr>trace := trace w @ [Log Starting, HttpRequest, Normalize, Log FetchSuccess]\<rparr>"
      "r = Inr df"
    by (elim disjE conjE exE) (simp_all add: is_phase_def)
  then show ?thesis
  proof cases
    case empty
    with f have "m w = (Inl (Raise KeyError), w1)"
      by (simp add: m_def bind_io_def lift_def to_datetime_empty)
    with empty that [of evs] show ?thesis by auto
  next
    case raised
    with f have "m w = (Inl e, w1)"
      by (simp add: m_def bind_io_def)
    with raised that [of evs] show ?thesis by auto
  next
    case fetched
    show ?thesis
    proof (cases "to_datetime df")
      case (Inl e)
      with f fetched have "m w = (Inl e, w1)"
        by (simp add: m_def bind_io_def lift_def)
      with fetched that [of "[Log Starting, HttpRequest, Normalize, Log FetchSuccess]"]
      show ?thesis by (simp add: is_phase_def)
    next
      case (Inr df')
      with f fetched have mw: "m w = load_keyed cols df' f w1"
        by (simp add: m_def bind_io_def lift_def)
      obtain evs where evs: "trace (snd (load_keyed cols df' f w1)) = trace w1 @ evs"
        "conn_open (snd (load_keyed cols df' f w1)) = conn_open w1"
        "Log Connected \<notin> set evs"
        "filter is_phase evs \<in> {[], [AssignKeys], [AssignKeys, Merge]}"
        by (rule load_keyed_ext)
      with mw fetched
        that [of "[Log Starting, HttpRequest, Normalize, Log FetchSuccess] @ evs"]
      show ?thesis by (auto simp: is_phase_def)
    qed
  qed
qed

lemma get_db_connection_cases:
  assumes "get_db_connection db_config fault w = (r, w')"
  shows "(r = Inr False \<and> w' = w\<lparr>trace := trace w @ [Log ConnectionError]\<rparr>)
     \<or> (r = Inr False \<and> w' = w\<lparr>trace := trace w @ [Connect, Log ConnectionError]\<rparr>)
     \<or> (r = Inr True
         \<and> w' = w\<lparr>trace := trace w @ [Connect, Log Connected], session := committed w,
                    conn_open := True\<rparr>)"
proof (cases "getitem db_config ''server''")
  case (Inl e)
  with assms show ?thesis
    by (cases e)
      (auto simp: get_db_connection_def bind_io_def lift_def try_except_def emit_def ret_def
        getitem_def split: option.splits)
next
  case s: (Inr server)
  show ?thesis
  proof (cases "getitem db_config ''database''")
    case (Inl e)
    with s assms show ?thesis
      by (cases e)
        (auto simp: get_db_connection_def bind_io_def lift_def try_except_def emit_def ret_def
          getitem_def split: option.splits)
  next
    case (Inr database)
    with s assms show ?thesis
      by (cases fault)
        (auto simp: get_db_connection_def bind_io_def lift_def try_except_def emit_def ret_def
          connect_def db_call_def)
  qed
qed

lemma follows_keyed_connected:
  assumes "Log Connected \<notin> set evs"
    and "filter is_phase evs \<in> {[], [HttpRequest], [HttpRequest, Normalize],
           [HttpRequest, Normalize, AssignKeys], [HttpRequest, Normalize, AssignKeys, Merge]}"
    and "\<forall>e\<in>set pre. \<not> is_phase e" and "\<forall>e\<in>set post. \<not> is_phase e"
  shows "follows keyed_order
           (pre @ [ReadConfig, Connect, Log Connected] @ evs @ post
              @ [CloseConnection, Log ConnectionClosed])"
proof -
  have pre: "filter is_phase pre = []" and post: "filter is_phase post = []"
    using assms(3,4) by (simp_all add: filter_empty_conv)
  have ph: "is_phase ReadConfig" "is_phase Connect" "is_phase CloseConnection"
    "\<not> is_phase (Log Connected)" "\<not> is_phase (Log ConnectionClosed)"
    by (simp_all add: is_phase_def)
  from assms(2) consider "filter is_phase evs = []" | "filter is_phase evs = [HttpRequest]"
    | "filter is_phase evs = [HttpRequest, Normalize]"
    | "filter is_phase evs = [HttpRequest, Normalize, AssignKeys]"
    | "filter is_phase evs = [HttpRequest, Normalize, AssignKeys, Merge]"
    by auto
  then show ?thesis
  proof cases
    case 1
    then show ?thesis
      by (intro followsI [of 2]) (simp_all add: keyed_order_def pre post ph)
  next
    case 2
    then show ?thesis
      by (intro followsI [of 3]) (simp_all add: keyed_order_def pre post ph)
  next
    case 3
    then show ?thesis
      by (intro followsI [of 4]) (simp_all add: keyed_order_def pre post ph)
  next
    case 4
    then show ?thesis
      by (intro followsI [of 5]) (simp_all add: keyed_order_def pre post ph)
  next
    case 5
    then show ?thesis
      by (intro followsI [of 6]) (simp_all add: keyed_order_def pre post ph)
  qed
qed

lemma try_finally_close:
  "try_finally m close_conn w =
     (if fst (m w) = Inl Unmodelled then m w
      else (fst (m w), snd (close_conn (snd (m w)))))"
  by (cases "m w")
    (auto simp: try_finally_def close_conn_def split: sum.splits failure.splits)

lemma close_conn_world:
  "snd (close_conn w) =
     (if conn_open w
      then w\<lparr>trace := trace w @ [CloseConnection, Log ConnectionClosed], conn_open := False\<rparr>
      else w)"
  by (simp add: close_conn_def)

lemma getitem_Inl: "getitem d k = Inl e \<Longrightarrow> e = Raise KeyError"
  by (auto simp: getitem_def split: option.splits)

lemma adzuna_main_follows:
  assumes "fst (adzuna_main env (start t)) \<noteq> Inl Unmodelled"
  shows "follows keyed_order (trace (snd (adzuna_main env (start t))))"
proof -
  note io = bind_io_def emit_def ret_def lift_def get_config_def start_def
  have ph: "is_phase ReadConfig" "is_phase Connect" "\<not> is_phase (Log m)" for m
    by (simp_all add: is_phase_def)
  consider (none) "config env = Unreadable \<or> config env = Malformed"
    | (parsed) sections where "config env = Parsed sections"
    by (cases "config env") auto
  then show ?thesis
  proof cases
    case none
    then have "trace (snd (adzuna_main env (start t)))
        = [Log ProcessStart, ReadConfig, Log ConfigError]"
      by (auto simp: adzuna_main_def io)
    then show ?thesis
      by (intro followsI [of 1]) (simp_all add: keyed_order_def ph)
  next
    case parsed
    let ?w1 = "(start t)\<lparr>trace := [Log ProcessStart, ReadConfig]\<rparr>"
    let ?m = "bind_io (fetch_listing ''results'' adzuna_transform (provider env)) (\<lambda>df.
                 bind_io (lift (to_datetime df)) (\<lambda>df'.
                 load_keyed adzuna_table_cols df' (db_faults env)))"
    let ?tail = "bind_io (lift (getitem sections ''adzuna'')) (\<lambda>adzuna.
              bind_io (lift (getitem adzuna ''app_id'')) (\<lambda>app_id.
              bind_io (lift (getitem adzuna ''app_key'')) (\<lambda>app_key. ?m)))"
    let ?body = "bind_io (lift (getitem sections ''database'')) (\<lambda>db_config.
            bind_io (get_db_connection db_config (connect_fault env)) (\<lambda>conn.
            if conn then ?tail else ret ()))"
    have main: "adzuna_main env (start t) = try_finally ?body close_conn ?w1"
      using parsed
      unfolding adzuna_main_def fetch_adzuna_data_def load_adzuna_to_sql_def
      by (simp add: io)
    have w1: "\<not> conn_open (start t)"
      by (simp add: start_def)
    show ?thesis
    proof (cases "getitem sections ''database''")
      case (Inl e)
      then have "?body ?w1 = (Inl (Raise KeyError), ?w1)"
        using getitem_Inl [OF Inl] by (simp add: bind_io_def lift_def)
      then have "trace (snd (adzuna_main env (start t))) = [Log ProcessStart, ReadConfig]"
        by (simp add: main try_finally_close close_conn_world w1)
      then show ?thesis
        by (intro followsI [of 1]) (simp_all add: keyed_order_def ph)
    next
      case (Inr db_config)
      obtain rc w2 where g: "get_db_connection db_config (connect_fault env) ?w1 = (rc, w2)"
        by (cases "get_db_connection db_config (connect_fault env) ?w1")
      from get_db_connection_cases [OF g]
      consider (refused) "rc = Inr False" "\<not> conn_open w2"
          "trace w2 = [Log ProcessStart, ReadConfig, Log ConnectionError]
           \<or> trace w2 = [Log ProcessStart, ReadConfig, Connect, Log ConnectionError]"
        | (connected) "rc = Inr True" "conn_open w2"
          "trace w2 = [Log ProcessStart, ReadConfig, Connect, Log Connected]"
        by (elim disjE conjE) (simp_all add: w1)
      then show ?thesis
      proof cases
        case refused
        with Inr g have "?body ?w1 = (Inr (), w2)"
          by (simp add: bind_io_def lift_def ret_def)
        with refused have "trace (snd (adzuna_main env (start t))) = trace w2"
          by (simp add: main try_finally_close close_conn_world)
        with refused(3) show ?thesis
          by (elim disjE; intro followsI [of 1] followsI [of 2])
            (simp_all add: keyed_order_def ph)
      next
        case connected
        with Inr g have body: "?body ?w1 = ?tail w2"
          by (simp add: bind_io_def lift_def)
        have "?tail w2 = (Inl (Raise KeyError), w2) \<or> ?tail w2 = ?m w2"
          by (auto simp: bind_io_def lift_def getitem_def split: option.splits)
        then show ?thesis
        proof
          assume "?tail w2 = (Inl (Raise KeyError), w2)"
          with body connected have "trace (snd (adzuna_main env (start t)))
              = [Log ProcessStart] @ [ReadConfig, Connect, Log Connected] @ [] @ []
                @ [CloseConnection, Log ConnectionClosed]"
            by (simp add: main try_finally_close close_conn_world)
          then show ?thesis
            by (simp only:) (rule follows_keyed_connected; simp add: is_phase_def)
        next
          assume tail: "?tail w2 = ?m w2"
          obtain evs where evs: "trace (snd (?m w2)) = trace w2 @ evs"
            "conn_open (snd (?m w2)) = conn_open w2" "Log Connected \<notin> set evs"
            "filter is_phase evs \<in> {[HttpRequest], [HttpRequest, Normalize],
               [HttpRequest, Normalize, AssignKeys], [HttpRequest, Normalize, AssignKeys, Merge]}"
            by (rule fetch_then_load)
          from assms have "fst (?m w2) \<noteq> Inl Unmodelled"
            by (auto simp: main try_finally_close body tail split: if_splits)
          with body tail evs connected have "trace (snd (adzuna_main env (start t)))
              = [Log ProcessStart] @ [ReadConfig, Connect, Log Connected] @ evs @ []
                @ [CloseConnection, Log ConnectionClosed]"
            by (simp add: main try_finally_close close_conn_world)
          moreover from evs(4) have "filter is_phase evs \<in> {[], [HttpRequest],
               [HttpRequest, Normalize], [HttpRequest, Normalize, AssignKeys],
               [HttpRequest, Normalize, AssignKeys, Merge]}"
            by blast
          ultimately show ?thesis
            using evs(3) by (simp only:) (rule follows_keyed_connected; simp add: is_phase_def)
        qed
      qed
    qed
  qed
qed

lemma try_except_key:
  "try_except (\<lambda>e. e = KeyError) m (emit (Log MissingKeyError)) w =
     (if fst (m w) = Inl (Raise KeyError)
      then (Inr (), (snd (m w))\<lparr>trace := trace (snd (m w)) @ [Log MissingKeyError]\<rparr>)
      else m w)"
  by (cases "m w")
    (auto simp: try_except_def emit_def split: sum.splits failure.splits)

lemma jooble_main_follows:
  assumes "fst (jooble_main env (start t)) \<noteq> Inl Unmodelled"
  shows "follows keyed_order (trace (snd (jooble_main env (start t))))"
proof -
  note io = bind_io_def emit_def ret_def lift_def get_config_def start_def
  have ph: "is_phase ReadConfig" "is_phase Connect" "\<not> is_phase (Log m)" for m
    by (simp_all add: is_phase_def)
  consider (none) "config env = Unreadable \<or> config env = Malformed"
    | (parsed) sections where "config env = Parsed sections"
    by (cases "config env") auto
  then show ?thesis
  proof cases
    case none
    then have "trace (snd (jooble_main env (start t)))
        = [Log ProcessStart, ReadConfig, Log ConfigError]"
      by (auto simp: jooble_main_def io)
    then show ?thesis
      by (intro followsI [of 1]) (simp_all add: keyed_order_def ph)
  next
    case parsed
    let ?w1 = "(start t)\<lparr>trace := [Log ProcessStart, ReadConfig]\<rparr>"
    let ?m = "bind_io (fetch_listing ''jobs'' jooble_transform (provider env)) (\<lambda>df.
                 bind_io (lift (to_datetime df)) (\<lambda>df'.
                 load_keyed jooble_table_cols df' (db_faults env)))"
    let ?tail = "bind_io (lift (getitem sections ''api'')) (\<lambda>api.
              bind_io (lift (getitem api ''jooble_api_key'')) (\<lambda>api_key. ?m))"
    let ?body = "bind_io (lift (getitem sections ''database'')) (\<lambda>db_config.
            bind_io (get_db_connection db_config (connect_fault env)) (\<lambda>conn.
            if conn then ?tail else ret ()))"
    let ?guarded = "try_except (\<lambda>e. e = KeyError) ?body (emit (Log MissingKeyError))"
    have main: "jooble_main env (start t) = try_finally ?guarded close_conn ?w1"
      using parsed
      unfolding jooble_main_def fetch_jooble_data_def load_jooble_to_sql_def
      by (simp add: io)
    have w1: "\<not> conn_open (start t)"
      by (simp add: start_def)
    show ?thesis
    proof (cases "getitem sections ''database''")
      case (Inl e)
      then have "?body ?w1 = (Inl (Raise KeyError), ?w1)"
        using getitem_Inl [OF Inl] by (simp add: bind_io_def lift_def)
      then have "trace (snd (jooble_main env (start t)))
          = [Log ProcessStart, ReadConfig, Log MissingKeyError]"
        by (simp add: main try_finally_close try_except_key close_conn_world w1)
      then show ?thesis
        by (intro followsI [of 1]) (simp_all add: keyed_order_def ph)
    next
      case (Inr db_config)
      obtain rc w2 where g: "get_db_connection db_config (connect_fault env) ?w1 = (rc, w2)"
        by (cases "get_db_connection db_config (connect_fault env) ?w1")
      from get_db_connection_cases [OF g]
      consider (refused) "rc = Inr False" "\<not> conn_open w2"
          "trace w2 = [Log ProcessStart, ReadConfig, Log ConnectionError]
           \<or> trace w2 = [Log ProcessStart, ReadConfig, Connect, Log ConnectionError]"
        | (connected) "rc = Inr True" "conn_open w2"
          "trace w2 = [Log ProcessStart, ReadConfig, Connect, Log Connected]"
        by (elim disjE conjE) (simp_all add: w1)
      then show ?thesis
      proof cases
        case refused
        with Inr g have "?body ?w1 = (Inr (), w2)"
          by (simp add: bind_io_def lift_def ret_def)
        with refused have "trace (snd (jooble_main env (start t))) = trace w2"
          by (simp add: main try_finally_close try_except_key close_conn_world)
        with refused(3) show ?thesis
          by (elim disjE; intro followsI [of 1] followsI [of 2])
            (simp_all add: keyed_order_def ph)
      next
        case connected
        with Inr g have body: "?body ?w1 = ?tail w2"
          by (simp add: bind_io_def lift_def)
        have "?tail w2 = (Inl (Raise KeyError), w2) \<or> ?tail w2 = ?m w2"
          by (auto simp: bind_io_def lift_def getitem_def split: option.splits)
        then show ?thesis
        proof
          assume "?tail w2 = (Inl (Raise KeyError), w2)"
          with body connected have "trace (snd (jooble_main env (start t)))
              = [Log ProcessStart] @ [ReadConfig, Connect, Log Connected] @ []
                @ [Log MissingKeyError] @ [CloseConnection, Log ConnectionClosed]"
            by (simp add: main try_finally_close try_except_key close_conn_world)
          then show ?thesis
            by (simp only:) (rule follows_keyed_connected; simp add: is_phase_def)
        next
          assume tail: "?tail w2 = ?m w2"
          obtain evs where evs: "trace (snd (?m w2)) = trace w2 @ evs"
            "conn_open (snd (?m w2)) = conn_open w2" "Log Connected \<notin> set evs"
            "filter is_phase evs \<in> {[HttpRequest], [HttpRequest, Normalize],
               [HttpRequest, Normalize, AssignKeys], [HttpRequest, Normalize, AssignKeys, Merge]}"
            by (rule fetch_then_load)
          from evs(4) have ph4: "filter is_phase evs \<in> {[], [HttpRequest],
               [HttpRequest, Normalize], [HttpRequest, Normalize, AssignKeys],
               [HttpRequest, Normalize, AssignKeys, Merge]}"
            by blast
          show ?thesis
          proof (cases "fst (?m w2) = Inl (Raise KeyError)")
            case True
            with body tail evs connected have "trace (snd (jooble_main env (start t)))
                = [Log ProcessStart] @ [ReadConfig, Connect, Log Connected] @ evs
                  @ [Log MissingKeyError] @ [CloseConnection, Log ConnectionClosed]"
              by (simp add: main try_finally_close try_except_key close_conn_world)
            with ph4 evs(3) show ?thesis
              by (simp only:) (rule follows_keyed_connected; simp add: is_phase_def)
          next
            case False
            with assms have "fst (?m w2) \<noteq> Inl Unmodelled"
              by (auto simp: main try_finally_close try_except_key body tail split: if_splits)
            with False body tail evs connected have "trace (snd (jooble_main env (start t)))
                = [Log ProcessStart] @ [ReadConfig, Connect, Log Connected] @ evs @ []
                  @ [CloseConnection, Log ConnectionClosed]"
              by (simp add: main try_finally_close try_except_key close_conn_world)
            with ph4 evs(3) show ?thesis
              by (simp only:) (rule follows_keyed_connected; simp add: is_phase_def)
          qed
        qed
      qed
    qed
  qed
qed

lemma fetch_remoteok_data_trace:
  assumes "fetch_remoteok_data h w = (r, w')"
  shows "(w' = w\<lparr>trace := trace w @ [Log Starting, HttpRequest, Log ApiError]\<rparr> \<and> r = Inr None)
     \<or> (w' = w\<lparr>trace := trace w @ [Log Starting, HttpRequest, Log UnexpectedFormat]\<rparr>
         \<and> r = Inr None)
     \<or> (w' = w\<lparr>trace := trace w @ [Log Starting, HttpRequest, Normalize]\<rparr> \<and> (\<exists>e. r = Inl e))
     \<or> (w' = w\<lparr>trace := trace w @ [Log Starting, HttpRequest, Normalize, Log ApiError]\<rparr>
         \<and> r = Inr None)
     \<or> (w' = w\<lparr>trace := trace w @ [Log Starting, HttpRequest, Normalize, Log FetchSuccess]\<rparr>
         \<and> (\<exists>df. r = Inr (Some df)))"
proof -
  note defs = fetch_remoteok_data_def bind_io_def emit_def try_except_def request_def
    lift_def ret_def
  consider (refused) "h = TransportError \<or> (\<exists>s b. h = Response s b \<and> 400 \<le> s \<and> s < 600)"
    | (answered) s b where "h = Response s b" "\<not> (400 \<le> s \<and> s < 600)"
    by (cases h) auto
  then show ?thesis
  proof cases
    case refused
    with assms show ?thesis by (auto simp: defs)
  next
    case answered
    show ?thesis
    proof (cases "feed_listings b")
      case None
      with answered assms show ?thesis by (auto simp: defs)
    next
      case (Some jobs)
      show ?thesis
      proof (cases "remoteok_transform jobs")
        case e: (Inl e)
        show ?thesis
        proof (cases e)
          case (Raise x)
          show ?thesis
          proof (cases "x = RequestException")
            case True
            with Raise e Some answered assms
            have "w' = w\<lparr>trace := trace w @ [Log Starting, HttpRequest, Normalize, Log ApiError]\<rparr>
                \<and> r = Inr None"
              by (auto simp: defs)
            then show ?thesis by blast
          next
            case False
            with Raise e Some answered assms
            have "w' = w\<lparr>trace := trace w @ [Log Starting, HttpRequest, Normalize]\<rparr> \<and> r = Inl e"
              by (auto simp: defs)
            then show ?thesis by blast
          qed
        next
          case Unmodelled
          with e Some answered assms
          have "w' = w\<lparr>trace := trace w @ [Log Starting, HttpRequest, Normalize]\<rparr> \<and> r = Inl e"
            by (auto simp: defs)
          then show ?thesis by blast
        qed
      next
        case (Inr df)
        with Some answered assms
        have "w' = w\<lparr>trace := trace w @ [Log Starting, HttpRequest, Normalize, Log FetchSuccess]\<rparr>
            \<and> r = Inr (Some df)"
          by (auto simp: defs)
        then show ?thesis by blast
      qed
    qed
  qed
qed

lemma remoteok_get_db_connection_cases:
  assumes "remoteok_get_db_connection cf fault w = (r, w')"
  shows "(r = Inr False \<and> w' = w\<lparr>trace := trace w @ [Log Starting, ReadConfig, Log ConnectionError]\<rparr>)
     \<or> (r = Inl (Raise KeyError) \<and> w' = w\<lparr>trace := trace w @ [Log Starting, ReadConfig]\<rparr>)
     \<or> (r = Inr False
         \<and> w' = w\<lparr>trace := trace w @ [Log Starting, ReadConfig, Connect, Log ConnectionError]\<rparr>)
     \<or> ((\<exists>x. r = Inl (Raise x))
         \<and> w' = w\<lparr>trace := trace w @ [Log Starting, ReadConfig, Connect]\<rparr>)
     \<or> (r = Inr True
         \<and> w' = w\<lparr>trace := trace w @ [Log Starting, ReadConfig, Connect, Log Connected],
                    session := committed w, conn_open := True\<rparr>)"
proof -
  note defs = remoteok_get_db_connection_def read_config_def bind_io_def lift_def
    try_except_def emit_def ret_def connect_def db_call_def
  consider (malformed) "cf = Malformed"
    | (sections) sections where "cf = Unreadable \<and> sections = [] \<or> cf = Parsed sections"
    by (cases cf) auto
  then show ?thesis
  proof cases
    case malformed
    with assms show ?thesis by (auto simp: defs)
  next
    case sections
    then have rd: "read_config cf w0 = (Inr sections, w0\<lparr>trace := trace w0 @ [ReadConfig]\<rparr>)"
      for w0
      by (auto simp: read_config_def bind_io_def emit_def ret_def)
    show ?thesis
    proof (cases "getitem sections ''database''")
      case (Inl e)
      with getitem_Inl [OF Inl] assms rd show ?thesis
        by (auto simp: remoteok_get_db_connection_def bind_io_def lift_def try_except_def
            emit_def)
    next
      case db: (Inr db_config)
      show ?thesis
      proof (cases "getitem db_config ''server''")
        case (Inl e)
        with getitem_Inl [OF Inl] db assms rd show ?thesis
          by (auto simp: remoteok_get_db_connection_def bind_io_def lift_def try_except_def
              emit_def)
      next
        case s: (Inr server)
        show ?thesis
        proof (cases "getitem db_config ''database''")
          case (Inl e)
          with getitem_Inl [OF Inl] s db assms rd show ?thesis
            by (auto simp: remoteok_get_db_connection_def bind_io_def lift_def try_except_def
                emit_def)
        next
          case d: (Inr database)
          note defs' = remoteok_get_db_connection_def bind_io_def lift_def try_except_def
            emit_def ret_def connect_def db_call_def
          show ?thesis
          proof (cases fault)
            case None
            with d s db assms rd
            have "r = Inr True
              \<and> w' = w\<lparr>trace := trace w @ [Log Starting, ReadConfig, Connect, Log Connected],
                    session := committed w, conn_open := True\<rparr>"
              by (auto simp: defs')
            then show ?thesis by blast
          next
            case (Some a)
            show ?thesis
            proof (cases "a = PyodbcError \<or> a = ConfigparserError")
              case True
              with Some d s db assms rd
              have "r = Inr False
                \<and> w' = w\<lparr>trace := trace w @ [Log Starting, ReadConfig, Connect, Log ConnectionError]\<rparr>"
                by (auto simp: defs')
              then show ?thesis by blast
            next
              case False
              with Some d s db assms rd
              have "r = Inl (Raise a)
                \<and> w' = w\<lparr>trace := trace w @ [Log Starting, ReadConfig, Connect]\<rparr>"
                by (auto simp: defs')
              then show ?thesis by blast
            qed
          qed
        qed
      qed
    qed
  qed
qed

lemma remoteok_main_follows:
  assumes "fst (remoteok_main env (start t)) \<noteq> Inl Unmodelled"
  shows "follows remoteok_order (trace (snd (remoteok_main env (start t))))"
proof -
  have ph: "is_phase ReadConfig" "is_phase Connect" "is_phase HttpRequest" "is_phase Normalize"
    "is_phase Merge" "is_phase CloseConnection" "\<not> is_phase (Log m)" for m
    by (simp_all add: is_phase_def)
  have s0: "trace (start t) = []" "\<not> conn_open (start t)"
    by (simp_all add: start_def)
  obtain r1 w1 where f: "fetch_remoteok_data (provider env) (start t) = (r1, w1)"
    by (cases "fetch_remoteok_data (provider env) (start t)")
  from fetch_remoteok_data_trace [OF f]
  consider (halted) "r1 = Inr None" "trace w1 = [Log Starting, HttpRequest, Log ApiError]
        \<or> trace w1 = [Log Starting, HttpRequest, Log UnexpectedFormat]
        \<or> trace w1 = [Log Starting, HttpRequest, Normalize, Log ApiError]"
    | (raised) e where "r1 = Inl e" "trace w1 = [Log Starting, HttpRequest, Normalize]"
    | (fetched) df where "r1 = Inr (Some df)" "\<not> conn_open w1"
        "trace w1 = [Log Starting, HttpRequest, Normalize, Log FetchSuccess]"
    by (elim disjE conjE exE) (simp_all add: s0)
  then show ?thesis
  proof cases
    case halted
    with f have "trace (snd (remoteok_main env (start t))) = trace w1 @ [Log Halting]"
      by (simp add: remoteok_main_def bind_io_def emit_def)
    with halted(2) show ?thesis
      by (elim disjE; intro followsI [of 1] followsI [of 2])
        (simp_all add: remoteok_order_def ph)
  next
    case raised
    with f have "trace (snd (remoteok_main env (start t))) = trace w1"
      by (simp add: remoteok_main_def bind_io_def)
    with raised(2) show ?thesis
      by (intro followsI [of 2]) (simp_all add: remoteok_order_def ph)
  next
    case fetched
    show ?thesis
    proof (cases "df_empty df")
      case True
      with fetched f have "trace (snd (remoteok_main env (start t))) = trace w1 @ [Log Halting]"
        by (simp add: remoteok_main_def bind_io_def emit_def)
      with fetched(3) show ?thesis
        by (intro followsI [of 2]) (simp_all add: remoteok_order_def ph)
    next
      case False
      let ?body = "bind_io (remoteok_get_db_connection (config env) (connect_fault env))
          (\<lambda>conn. if conn then load_data_to_sql df (db_faults env) else ret ())"
      from False fetched f
      have main: "remoteok_main env (start t) = try_finally ?body close_conn w1"
        by (simp add: remoteok_main_def bind_io_def)
      obtain rc w2 where
        g: "remoteok_get_db_connection (config env) (connect_fault env) w1 = (rc, w2)"
        by (cases "remoteok_get_db_connection (config env) (connect_fault env) w1")
      from remoteok_get_db_connection_cases [OF g]
      consider (refused) "rc = Inr False" "\<not> conn_open w2"
          "trace w2 = trace w1 @ [Log Starting, ReadConfig, Log ConnectionError]
           \<or> trace w2 = trace w1 @ [Log Starting, ReadConfig, Connect, Log ConnectionError]"
        | (escaped) x where "rc = Inl (Raise x)" "\<not> conn_open w2"
          "trace w2 = trace w1 @ [Log Starting, ReadConfig]
           \<or> trace w2 = trace w1 @ [Log Starting, ReadConfig, Connect]"
        | (connected) "rc = Inr True" "conn_open w2"
          "trace w2 = trace w1 @ [Log Starting, ReadConfig, Connect, Log Connected]"
        using fetched(2) by (elim disjE conjE exE) simp_all
      then show ?thesis
      proof cases
        case refused
        with g have "?body w1 = (Inr (), w2)"
          by (simp add: bind_io_def ret_def)
        with refused have "trace (snd (remoteok_main env (start t))) = trace w2"
          by (simp add: main try_finally_close close_conn_world)
        with refused(3) fetched(3) show ?thesis
          by (elim disjE; intro followsI [of 3] followsI [of 4])
            (simp_all add: remoteok_order_def ph)
      next
        case escaped
        with g have "?body w1 = (Inl (Raise x), w2)"
          by (simp add: bind_io_def)
        with escaped have "trace (snd (remoteok_main env (start t))) = trace w2"
          by (simp add: main try_finally_close close_conn_world)
        with escaped(3) fetched(3) show ?thesis
          by (elim disjE; intro followsI [of 3] followsI [of 4])
            (simp_all add: remoteok_order_def ph)
      next
        case connected
        with g have body: "?body w1 = load_data_to_sql df (db_faults env) w2"
          by (simp add: bind_io_def)
        obtain evs where evs:
          "trace (snd (load_data_to_sql df (db_faults env) w2)) = trace w2 @ evs"
          "conn_open (snd (load_data_to_sql df (db_faults env) w2)) = conn_open w2"
          "Log Connected \<notin> set evs" "filter is_phase evs \<in> {[], [Merge]}"
          by (rule load_data_to_sql_ext)
        from assms have "fst (load_data_to_sql df (db_faults env) w2) \<noteq> Inl Unmodelled"
          by (auto simp: main try_finally_close body split: if_splits)
        with body evs connected fetched(3)
        have tr: "trace (snd (remoteok_main env (start t)))
            = [Log Starting, HttpRequest, Normalize, Log FetchSuccess, Log Starting, ReadConfig,
               Connect, Log Connected] @ evs @ [CloseConnection, Log ConnectionClosed]"
          by (simp add: main try_finally_close close_conn_world)
        from evs(4) show ?thesis
          unfolding tr
          by (elim insertE; intro followsI [of 4] followsI [of 5])
            (simp_all add: remoteok_order_def ph)
      qed
    qed
  qed
qed

lemma adzuna_run_http_error:
  "adzuna_main
     \<lparr>config = Parsed [(''database'', [(''server'', ''localhost''), (''database'', ''jobs'')]),
                        (''adzuna'', [(''app_id'', ''id''), (''app_key'', ''key'')])],
      connect_fault = None, provider = Response 500 PyNone,
      db_faults = \<lparr>cursor_fault = None, create_fault = None, commit1_fault = None,
                    merge_fault = None, commit2_fault = None\<rparr>\<rparr>
     (start None)
   = (Inl (Raise KeyError),
      \<lparr>trace = [Log ProcessStart, ReadConfig, Connect, Log Connected, Log Starting, HttpRequest,
                Log ApiError, CloseConnection, Log ConnectionClosed],
       committed = None, session = None, cursor_open = False, conn_open = False\<rparr>)"
  unfolding adzuna_main_def fetch_adzuna_data_def fetch_listing_def get_db_connection_def
  by (simp add: bind_io_def emit_def ret_def lift_def get_config_def start_def try_finally_def
      try_except_def getitem_def connect_def db_call_def request_def to_datetime_def
      get_col_def bnd_def close_conn_def)

lemma adzuna_run_transport_error:
  "adzuna_main
     \<lparr>config = Parsed [(''database'', [(''server'', ''localhost''), (''database'', ''jobs'')]),
                        (''adzuna'', [(''app_id'', ''id''), (''app_key'', ''key'')])],
      connect_fault = None, provider = TransportError,
      db_faults = \<lparr>cursor_fault = None, create_fault = None, commit1_fault = None,
                    merge_fault = None, commit2_fault = None\<rparr>\<rparr>
     (start None)
   = (Inl (Raise KeyError),
      \<lparr>trace = [Log ProcessStart, ReadConfig, Connect, Log Connected, Log Starting, HttpRequest,
                Log ApiError, CloseConnection, Log ConnectionClosed],
       committed = None, session = None, cursor_open = False, conn_open = False\<rparr>)"
  unfolding adzuna_main_def fetch_adzuna_data_def fetch_listing_def get_db_connection_def
  by (simp add: bind_io_def emit_def ret_def lift_def get_config_def start_def try_finally_def
      try_except_def getitem_def connect_def db_call_def request_def to_datetime_def
      get_col_def bnd_def close_conn_def)

lemma adzuna_run_zero_listings:
  "adzuna_main
     \<lparr>config = Parsed [(''database'', [(''server'', ''localhost''), (''database'', ''jobs'')]),
                        (''adzuna'', [(''app_id'', ''id''), (''app_key'', ''key'')])],
      connect_fault = None, provider = Response 200 (PyDict [(''results'', PyList [])]),
      db_faults = \<lparr>cursor_fault = None, create_fault = None, commit1_fault = None,
                    merge_fault = None, commit2_fault = None\<rparr>\<rparr>
     (start None)
   = (Inl (Raise KeyError),
      \<lparr>trace = [Log ProcessStart, ReadConfig, Connect, Log Connected, Log Starting, HttpRequest,
                Log NoJobsWarning, CloseConnection, Log ConnectionClosed],
       committed = None, session = None, cursor_open = False, conn_open = False\<rparr>)"
  unfolding adzuna_main_def fetch_adzuna_data_def fetch_listing_def get_db_connection_def
  by (simp add: bind_io_def emit_def ret_def lift_def get_config_def start_def try_finally_def
      try_except_def getitem_def connect_def db_call_def request_def to_datetime_def
      get_col_def bnd_def close_conn_def dict_get_default_def)

lemma jooble_run_zero_listings:
  "jooble_main
     \<lparr>config = Parsed [(''database'', [(''server'', ''localhost''), (''database'', ''jobs'')]),
                        (''api'', [(''jooble_api_key'', ''key'')])],
      connect_fault = None, provider = Response 200 (PyDict [(''jobs'', PyList [])]),
      db_faults = \<lparr>cursor_fault = None, create_fault = None, commit1_fault = None,
                    merge_fault = None, commit2_fault = None\<rparr>\<rparr>
     (start None)
   = (Inr (),
      \<lparr>trace = [Log ProcessStart, ReadConfig, Connect, Log Connected, Log Starting, HttpRequest,
                Log NoJobsWarning, Log MissingKeyError, CloseConnection, Log ConnectionClosed],
       committed = None, session = None, cursor_open = False, conn_open = False\<rparr>)"
  unfolding jooble_main_def fetch_jooble_data_def fetch_listing_def get_db_connection_def
  by (simp add: bind_io_def emit_def ret_def lift_def get_config_def start_def try_finally_def
      try_except_def getitem_def connect_def db_call_def request_def to_datetime_def
      get_col_def bnd_def close_conn_def dict_get_default_def)

lemma remoteok_run_zero_listings:
  "remoteok_main
     \<lparr>config = Parsed [(''database'', [(''server'', ''localhost''), (''database'', ''jobs'')])],
      connect_fault = None, provider = Response 200 (PyList [PyDict [(''legal'', PyStr ''terms'')]]),
      db_faults = \<lparr>cursor_fault = None, create_fault = None, commit1_fault = None,
                    merge_fault = None, commit2_fault = None\<rparr>\<rparr>
     (start None)
   = (Inr (),
      \<lparr>trace = [Log Starting, HttpRequest, Log UnexpectedFormat, Log Halting],
       committed = None, session = None, cursor_open = False, conn_open = False\<rparr>)"
  unfolding remoteok_main_def fetch_remoteok_data_def
  by (simp add: bind_io_def emit_def ret_def lift_def start_def try_except_def request_def)

lemma remoteok_run_transport_error:
  "remoteok_main
     \<lparr>config = Parsed [(''database'', [(''server'', ''localhost''), (''database'', ''jobs'')])],
      connect_fault = None, provider = TransportError,
      db_faults = \<lparr>cursor_fault = None, create_fault = None, commit1_fault = None,
                    merge_fault = None, commit2_fault = None\<rparr>\<rparr>
     (start None)
   = (Inr (),
      \<lparr>trace = [Log Starting, HttpRequest, Log ApiError, Log Halting],
       committed = None, session = None, cursor_open = False, conn_open = False\<rparr>)"
  unfolding remoteok_main_def fetch_remoteok_data_def
  by (simp add: bind_io_def emit_def ret_def lift_def start_def try_except_def request_def)

lemma jooble_run_transport_error:
  "jooble_main
     \<lparr>config = Parsed [(''database'', [(''server'', ''localhost''), (''database'', ''jobs'')]),
                        (''api'', [(''jooble_api_key'', ''key'')])],
      connect_fault = None, provider = TransportError,
      db_faults = \<lparr>cursor_fault = None, create_fault = None, commit1_fault = None,
                    merge_fault = None, commit2_fault = None\<rparr>\<rparr>
     (start None)
   = (Inr (),
      \<lparr>trace = [Log ProcessStart, ReadConfig, Connect, Log Connected, Log Starting, HttpRequest,
                Log ApiError, Log MissingKeyError, CloseConnection, Log ConnectionClosed],
       committed = None, session = None, cursor_open = False, conn_open = False\<rparr>)"
  unfolding jooble_main_def fetch_jooble_data_def fetch_listing_def get_db_connection_def
  by (simp add: bind_io_def emit_def ret_def lift_def get_config_def start_def try_finally_def
      try_except_def getitem_def connect_def db_call_def request_def to_datetime_def
      get_col_def bnd_def close_conn_def)

lemma remoteok_run_unreadable_config:
  "remoteok_main
     \<lparr>config = Unreadable, connect_fault = None,
      provider = Response 200
        (PyList [PyDict [(''legal'', PyStr ''terms'')],
                 PyDict [(''id'', PyStr ''123''), (''company'', PyStr ''Acme''),
                         (''tags'', PyList [PyStr ''python'']), (''salary_min'', PyInt (- 5))]]),
      db_faults = \<lparr>cursor_fault = None, create_fault = None, commit1_fault = None,
                    merge_fault = None, commit2_fault = None\<rparr>\<rparr>
     (start None)
   = (Inl (Raise KeyError),
      \<lparr>trace = [Log Starting, HttpRequest, Normalize, Log FetchSuccess, Log Starting, ReadConfig],
       committed = None, session = None, cursor_open = False, conn_open = False\<rparr>)"
  unfolding remoteok_main_def fetch_remoteok_data_def remoteok_get_db_connection_def
  by (simp add: bind_io_def emit_def ret_def lift_def start_def try_except_def request_def
      remoteok_transform_example df_empty_def n_rows_def try_finally_def read_config_def
      getitem_def close_conn_def)

text \<open>
  Claim C5, as the code has it. A run of the Adzuna or the Jooble driver goes through
  the phases in the order load configuration, connect, fetch, normalise, assign keys,
  upsert, each at most once and none before the ones ahead of it, and closes the
  connection last exactly when one was opened; with a missing or malformed configuration
  file it ends after reading it, before any network or database activity. A run of the
  RemoteOK driver fetches and normalises first, then loads the configuration and
  connects, then upserts (it assigns no keys), and closes a connection it opened.
\<close>

theorem driver_phase_order:
  "(fst (adzuna_main env (start t)) \<noteq> Inl Unmodelled \<longrightarrow>
      follows keyed_order (trace (snd (adzuna_main env (start t)))))
   \<and> (fst (jooble_main env (start t)) \<noteq> Inl Unmodelled \<longrightarrow>
      follows keyed_order (trace (snd (jooble_main env (start t)))))
   \<and> (fst (remoteok_main env (start t)) \<noteq> Inl Unmodelled \<longrightarrow>
      follows remoteok_order (trace (snd (remoteok_main env (start t)))))
   \<and> (config env = Unreadable \<or> config env = Malformed \<longrightarrow>
        adzuna_main env (start t)
          = (Inr (), (start t)\<lparr>trace := [Log ProcessStart, ReadConfig, Log ConfigError]\<rparr>)
      \<and> jooble_main env (start t)
          = (Inr (), (start t)\<lparr>trace := [Log ProcessStart, ReadConfig, Log ConfigError]\<rparr>))"
proof -
  have "adzuna_main env (start t)
          = (Inr (), (start t)\<lparr>trace := [Log ProcessStart, ReadConfig, Log ConfigError]\<rparr>)
      \<and> jooble_main env (start t)
          = (Inr (), (start t)\<lparr>trace := [Log ProcessStart, ReadConfig, Log ConfigError]\<rparr>)"
    if "config env = Unreadable \<or> config env = Malformed"
    using that
    by (auto simp: adzuna_main_def jooble_main_def bind_io_def emit_def ret_def get_config_def
        start_def)
  with adzuna_main_follows [of env t] jooble_main_follows [of env t]
    remoteok_main_follows [of env t]
  show ?thesis by blast
qed

theorem driver_phase_order_witness:
  "follows keyed_order
     [Log ProcessStart, ReadConfig, Connect, Log Connected, Log Starting, HttpRequest,
      Log NoJobsWarning, CloseConnection, Log ConnectionClosed]
   \<and> follows keyed_order
     [Log ProcessStart, ReadConfig, Connect, Log Connected, Log Starting, HttpRequest,
      Log NoJobsWarning, Log MissingKeyError, CloseConnection, Log ConnectionClosed]
   \<and> follows remoteok_order
     [Log Starting, HttpRequest, Normalize, Log FetchSuccess, Log Starting, ReadConfig]
   \<and> adzuna_main
       \<lparr>config = Unreadable, connect_fault = None, provider = TransportError,
        db_faults = \<lparr>cursor_fault = None, create_fault = None, commit1_fault = None,
                      merge_fault = None, commit2_fault = None\<rparr>\<rparr>
       (start None)
     = (Inr (), (start None)\<lparr>trace := [Log ProcessStart, ReadConfig, Log ConfigError]\<rparr>)"
proof -
  have a: "follows keyed_order
     [Log ProcessStart, ReadConfig, Connect, Log Connected, Log Starting, HttpRequest,
      Log NoJobsWarning, CloseConnection, Log ConnectionClosed]"
    using driver_phase_order [THEN conjunct1, rule_format, where t = None and env =
      "\<lparr>config = Parsed [(''database'', [(''server'', ''localhost''), (''database'', ''jobs'')]),
                        (''adzuna'', [(''app_id'', ''id''), (''app_key'', ''key'')])],
      connect_fault = None, provider = Response 200 (PyDict [(''results'', PyList [])]),
      db_faults = \<lparr>cursor_fault = None, create_fault = None, commit1_fault = None,
                    merge_fault = None, commit2_fault = None\<rparr>\<rparr>"]
    by (simp add: adzuna_run_zero_listings)
  have j: "follows keyed_order
     [Log ProcessStart, ReadConfig, Connect, Log Connected, Log Starting, HttpRequest,
      Log NoJobsWarning, Log MissingKeyError, CloseConnection, Log ConnectionClosed]"
    using driver_phase_order [THEN conjunct2, THEN conjunct1, rule_format, where t = None
      and env =
      "\<lparr>config = Parsed [(''database'', [(''server'', ''localhost''), (''database'', ''jobs'')]),
                        (''api'', [(''jooble_api_key'', ''key'')])],
      connect_fault = None, provider = Response 200 (PyDict [(''jobs'', PyList [])]),
      db_faults = \<lparr>cursor_fault = None, create_fault = None, commit1_fault = None,
                    merge_fault = None, commit2_fault = None\<rparr>\<rparr>"]
    by (simp add: jooble_run_zero_listings)
  have r: "follows remoteok_order
     [Log Starting, HttpRequest, Normalize, Log FetchSuccess, Log Starting, ReadConfig]"
    using driver_phase_order [THEN conjunct2, THEN conjunct2, THEN conjunct1, rule_format,
        where t = None and env =
      "\<lparr>config = Unreadable, connect_fault = None,
      provider = Response 200
        (PyList [PyDict [(''legal'', PyStr ''terms'')],
                 PyDict [(''id'', PyStr ''123''), (''company'', PyStr ''Acme''),
                         (''tags'', PyList [PyStr ''python'']), (''salary_min'', PyInt (- 5))]]),
      db_faults = \<lparr>cursor_fault = None, create_fault = None, commit1_fault = None,
                    merge_fault = None, commit2_fault = None\<rparr>\<rparr>"]
    by (simp add: remoteok_run_unreadable_config)
  have c: "adzuna_main
       \<lparr>config = Unreadable, connect_fault = None, provider = TransportError,
        db_faults = \<lparr>cursor_fault = None, create_fault = None, commit1_fault = None,
                      merge_fault = None, commit2_fault = None\<rparr>\<rparr>
       (start None)
     = (Inr (), (start None)\<lparr>trace := [Log ProcessStart, ReadConfig, Log ConfigError]\<rparr>)"
    using driver_phase_order [THEN conjunct2, THEN conjunct2, THEN conjunct2, rule_format,
        where env = "\<lparr>config = Unreadable, connect_fault = None, provider = TransportError,
        db_faults = \<lparr>cursor_fault = None, create_fault = None, commit1_fault = None,
                      merge_fault = None, commit2_fault = None\<rparr>\<rparr>" and t = None]
    by simp
  from a j r c show ?thesis by blast
qed

text \<open>
  Claim C5 as stated fails for RemoteOK: with no readable configuration file the run has
  already fetched and normalised the feed when it reads the configuration, and the
  \<^verbatim>\<open>KeyError\<close> for the missing \<^verbatim>\<open>[database]\<close> section then ends it.
\<close>

theorem remoteok_order_counterexample:
  "remoteok_main
     \<lparr>config = Unreadable, connect_fault = None,
      provider = Response 200
        (PyList [PyDict [(''legal'', PyStr ''terms'')],
                 PyDict [(''id'', PyStr ''123''), (''company'', PyStr ''Acme''),
                         (''tags'', PyList [PyStr ''python'']), (''salary_min'', PyInt (- 5))]]),
      db_faults = \<lparr>cursor_fault = None, create_fault = None, commit1_fault = None,
                    merge_fault = None, commit2_fault = None\<rparr>\<rparr>
     (start None)
   = (Inl (Raise KeyError),
      \<lparr>trace = [Log Starting, HttpRequest, Normalize, Log FetchSuccess, Log Starting, ReadConfig],
       committed = None, session = None, cursor_open = False, conn_open = False\<rparr>)
   \<and> \<not> follows keyed_order
       [Log Starting, HttpRequest, Normalize, Log FetchSuccess, Log Starting, ReadConfig]"
proof -
  have "\<not> follows keyed_order
       [Log Starting, HttpRequest, Normalize, Log FetchSuccess, Log Starting, ReadConfig]"
    by (simp add: follows_def keyed_order_def is_phase_def upt_rec)
  with remoteok_run_unreadable_config show ?thesis by blast
qed

text \<open>
  Claim C6: a fetcher catches a transport error or an error status, logs it and returns
  an empty result, and nothing crashes. The fetchers do so, but the Adzuna driver then
  reads the column \<^verbatim>\<open>date_posted\<close> of the empty frame (line 172 of \<^verbatim>\<open>Adzuna.py\<close>): with
  a status 500 from the provider the run ends in an uncaught \<^verbatim>\<open>KeyError\<close>, after
  closing the connection.
\<close>

theorem adzuna_http_error_run:
  "fetch_adzuna_data (Response 500 PyNone) (start None)
   = (Inr [], (start None)\<lparr>trace := [Log Starting, HttpRequest, Log ApiError]\<rparr>)
   \<and> adzuna_main
     \<lparr>config = Parsed [(''database'', [(''server'', ''localhost''), (''database'', ''jobs'')]),
                        (''adzuna'', [(''app_id'', ''id''), (''app_key'', ''key'')])],
      connect_fault = None, provider = Response 500 PyNone,
      db_faults = \<lparr>cursor_fault = None, create_fault = None, commit1_fault = None,
                    merge_fault = None, commit2_fault = None\<rparr>\<rparr>
     (start None)
   = (Inl (Raise KeyError),
      \<lparr>trace = [Log ProcessStart, ReadConfig, Connect, Log Connected, Log Starting, HttpRequest,
                Log ApiError, CloseConnection, Log ConnectionClosed],
       committed = None, session = None, cursor_open = False, conn_open = False\<rparr>)"
proof -
  have "fetch_adzuna_data (Response 500 PyNone) (start None)
      = (Inr [], (start None)\<lparr>trace := [Log Starting, HttpRequest, Log ApiError]\<rparr>)"
    unfolding fetch_adzuna_data_def fetch_listing_def
    by (simp add: bind_io_def emit_def ret_def lift_def start_def try_except_def request_def)
  with adzuna_run_http_error show ?thesis by blast
qed

text \<open>
  Claim C7: the normaliser gives every required column, with null where the provider
  supplied nothing, and a field that cannot be extracted never aborts the batch. The
  code misses both. Adzuna reads the columns \<^verbatim>\<open>company\<close>, \<^verbatim>\<open>location\<close> and
  \<^verbatim>\<open>category\<close> (lines 58-66) before it adds the missing required columns (lines 73-75), so
  listings without a company raise \<^verbatim>\<open>KeyError\<close>; a RemoteOK listing whose \<^verbatim>\<open>tags\<close> is
  null raises \<^verbatim>\<open>TypeError\<close> in the join; a Jooble salary text whose first numeric token
  has two dots raises \<^verbatim>\<open>ValueError\<close> in the conversion to float.
\<close>

theorem normaliser_aborts_batch:
  "adzuna_transform [PyDict [(''id'', PyStr ''1''), (''title'', PyStr ''Dev'')]]
     = Inl (Raise KeyError)
   \<and> remoteok_transform [PyDict [(''id'', PyStr ''123''), (''tags'', PyNone)]]
     = Inl (Raise TypeError)
   \<and> jooble_transform [PyDict [(''title'', PyStr ''Dev''), (''salary'', PyStr ''from 01.01.2024'')]]
     = Inl (Raise ValueError)"
proof -
  have a: "adzuna_transform [PyDict [(''id'', PyStr ''1''), (''title'', PyStr ''Dev'')]]
     = Inl (Raise KeyError)"
    by (simp add: adzuna_transform_def from_records_def rename_cols_def adzuna_names_def
        cell_of_def get_col_def bnd_def)
  have r: "remoteok_transform [PyDict [(''id'', PyStr ''123''), (''tags'', PyNone)]]
     = Inl (Raise TypeError)"
    by (simp add: remoteok_transform_def bnd_def dict_get_default_def)
  have s: "jooble_salary (PyStr ''from 01.01.2024'') = Inl (Raise ValueError)"
    by (simp add: jooble_salary_def str_extract_def regex_strip_def float_int_def is_digit_def
        token_char_def)
  have j: "jooble_transform [PyDict [(''title'', PyStr ''Dev''), (''salary'', PyStr ''from 01.01.2024'')]]
     = Inl (Raise ValueError)"
    by (simp add: jooble_transform_def from_records_def rename_cols_def jooble_names_def
        cell_of_def get_col_def set_col_def bnd_def s)
  from a r j show ?thesis by blast
qed

text \<open>
  Claim C8: an empty provider response gives no database write and no error. No
  provider writes, but for Adzuna the run does not end cleanly: the fetcher returns the
  frame without columns, the driver reads its column \<^verbatim>\<open>date_posted\<close> (line 172 of
  \<^verbatim>\<open>Adzuna.py\<close>) and the \<^verbatim>\<open>KeyError\<close> ends the run before \<^verbatim>\<open>load_adzuna_to_sql\<close> and
  its test of \<^verbatim>\<open>df.empty\<close> are reached. Jooble's driver has the same line and catches the
  \<^verbatim>\<open>KeyError\<close> with a message about the configuration; RemoteOK stops after the fetch.
\<close>

theorem zero_listings_run:
  "adzuna_main
     \<lparr>config = Parsed [(''database'', [(''server'', ''localhost''), (''database'', ''jobs'')]),
                        (''adzuna'', [(''app_id'', ''id''), (''app_key'', ''key'')])],
      connect_fault = None, provider = Response 200 (PyDict [(''results'', PyList [])]),
      db_faults = \<lparr>cursor_fault = None, create_fault = None, commit1_fault = None,
                    merge_fault = None, commit2_fault = None\<rparr>\<rparr>
     (start None)
   = (Inl (Raise KeyError),
      \<lparr>trace = [Log ProcessStart, ReadConfig, Connect, Log Connected, Log Starting, HttpRequest,
                Log NoJobsWarning, CloseConnection, Log ConnectionClosed],
       committed = None, session = None, cursor_open = False, conn_open = False\<rparr>)
   \<and> jooble_main
     \<lparr>config = Parsed [(''database'', [(''server'', ''localhost''), (''database'', ''jobs'')]),
                        (''api'', [(''jooble_api_key'', ''key'')])],
      connect_fault = None, provider = Response 200 (PyDict [(''jobs'', PyList [])]),
      db_faults = \<lparr>cursor_fault = None, create_fault = None, commit1_fault = None,
                    merge_fault = None, commit2_fault = None\<rparr>\<rparr>
     (start None)
   = (Inr (),
      \<lparr>trace = [Log ProcessStart, ReadConfig, Connect, Log Connected, Log Starting, HttpRequest,
                Log NoJobsWarning, Log MissingKeyError, CloseConnection, Log ConnectionClosed],
       committed = None, session = None, cursor_open = False, conn_open = False\<rparr>)
   \<and> remoteok_main
     \<lparr>config = Parsed [(''database'', [(''server'', ''localhost''), (''database'', ''jobs'')])],
      connect_fault = None, provider = Response 200 (PyList [PyDict [(''legal'', PyStr ''terms'')]]),
      db_faults = \<lparr>cursor_fault = None, create_fault = None, commit1_fault = None,
                    merge_fault = None, commit2_fault = None\<rparr>\<rparr>
     (start None)
   = (Inr (),
      \<lparr>trace = [Log Starting, HttpRequest, Log UnexpectedFormat, Log Halting],
       committed = None, session = None, cursor_open = False, conn_open = False\<rparr>)"
  using adzuna_run_zero_listings jooble_run_zero_listings remoteok_run_zero_listings
  by blast

end
